theory Spec2Isabelle
  imports Complex_Main "HOL-Library.AList"
begin

section \<open>JavaScript values\<close>

text \<open>
  The values that travel between the language model, the action registry and the
  automation driver are JSON-serialisable JavaScript values, plus \<open>undefined\<close>
  (an optional property that is absent, the result of a \<open>void\<close> driver call).
  Strings are lists of code units that fit in one byte; an object is the list of its
  own properties, in the order in which JavaScript lists them.
\<close>

datatype jsval =
    JUndefined
  | JNull
  | JBool bool
  | JNum real
  | JStr string
  | JArr "jsval list"
  | JObj "(string \<times> jsval) list"

text \<open>JavaScript truthiness, as tested by \<open>if (x)\<close> and \<open>!x\<close>.\<close>

fun truthy :: "jsval \<Rightarrow> bool" where
  "truthy JUndefined = False"
| "truthy JNull = False"
| "truthy (JBool b) = b"
| "truthy (JNum n) = (n \<noteq> 0)"
| "truthy (JStr s) = (s \<noteq> [])"
| "truthy (JArr _) = True"
| "truthy (JObj _) = True"

text \<open>\<open>String.prototype.startsWith\<close>.\<close>

definition startsWith :: "string \<Rightarrow> string \<Rightarrow> bool" where
  "startsWith s p = (take (length p) s = p)"

text \<open>
  \<open>String.prototype.trim\<close>: white space is removed from both ends. The characters
  are the JavaScript white space and line terminators that fit in one byte.
\<close>

definition isWhiteSpace :: "char \<Rightarrow> bool" where
  "isWhiteSpace c = (c \<in> set [CHR 0x09, CHR 0x0A, CHR 0x0B, CHR 0x0C, CHR 0x0D, CHR 0x20, CHR 0xA0])"

definition trim :: "string \<Rightarrow> string" where
  "trim s = rev (dropWhile isWhiteSpace (rev (dropWhile isWhiteSpace s)))"

text \<open>
  \<open>String.prototype.toLowerCase\<close> on the code units that fit in one byte: the
  letters \<open>A\<close> to \<open>Z\<close> and the capital letters of Latin-1 (U+00C0 to U+00DE,
  without the multiplication sign U+00D7) have a lower-case form, 32 code units further
  on; every other code unit is kept.
\<close>

definition upperCaseLetters :: string where
  "upperCaseLetters =
     ''ABCDEFGHIJKLMNOPQRSTUVWXYZ'' @
     [CHR 0xC0, CHR 0xC1, CHR 0xC2, CHR 0xC3, CHR 0xC4, CHR 0xC5, CHR 0xC6, CHR 0xC7,
      CHR 0xC8, CHR 0xC9, CHR 0xCA, CHR 0xCB, CHR 0xCC, CHR 0xCD, CHR 0xCE, CHR 0xCF,
      CHR 0xD0, CHR 0xD1, CHR 0xD2, CHR 0xD3, CHR 0xD4, CHR 0xD5, CHR 0xD6,
      CHR 0xD8, CHR 0xD9, CHR 0xDA, CHR 0xDB, CHR 0xDC, CHR 0xDD, CHR 0xDE]"

definition lowerCaseLetters :: string where
  "lowerCaseLetters =
     ''abcdefghijklmnopqrstuvwxyz'' @
     [CHR 0xE0, CHR 0xE1, CHR 0xE2, CHR 0xE3, CHR 0xE4, CHR 0xE5, CHR 0xE6, CHR 0xE7,
      CHR 0xE8, CHR 0xE9, CHR 0xEA, CHR 0xEB, CHR 0xEC, CHR 0xED, CHR 0xEE, CHR 0xEF,
      CHR 0xF0, CHR 0xF1, CHR 0xF2, CHR 0xF3, CHR 0xF4, CHR 0xF5, CHR 0xF6,
      CHR 0xF8, CHR 0xF9, CHR 0xFA, CHR 0xFB, CHR 0xFC, CHR 0xFD, CHR 0xFE]"

definition lowerChar :: "char \<Rightarrow> char" where
  "lowerChar c =
     (case map_of (zip upperCaseLetters lowerCaseLetters) c of
        Some l \<Rightarrow> l
      | None \<Rightarrow> c)"

definition toLowerCase :: "string \<Rightarrow> string" where
  "toLowerCase s = map lowerChar s"

text \<open>A string that is tested with \<open>if (x)\<close>: absent and empty both count as missing.\<close>

definition nonEmpty :: "string option \<Rightarrow> string option" where
  "nonEmpty x = (case x of None \<Rightarrow> None | Some s \<Rightarrow> if s = [] then None else Some s)"

text \<open>
  A thrown JavaScript error, with its \<open>message\<close>. Every \<open>throw\<close>, and every
  rejected promise of the driver or of the model client, is the \<open>Inl\<close> branch of a
  result.
\<close>

datatype error = Error (message: string)

text \<open>
  Sequencing of steps that may throw: the first error ends the sequence. \<open>mapE\<close> is
  a loop that collects a value per item, \<open>foldE\<close> a loop that updates an accumulator.
\<close>

fun mapE :: "('a \<Rightarrow> error + 'b) \<Rightarrow> 'a list \<Rightarrow> error + 'b list" where
  "mapE f [] = Inr []"
| "mapE f (x # xs) =
     (case f x of
        Inl e \<Rightarrow> Inl e
      | Inr y \<Rightarrow> (case mapE f xs of Inl e \<Rightarrow> Inl e | Inr ys \<Rightarrow> Inr (y # ys)))"

fun foldE :: "('a \<Rightarrow> 'b \<Rightarrow> error + 'b) \<Rightarrow> 'a list \<Rightarrow> 'b \<Rightarrow> error + 'b" where
  "foldE f [] acc = Inr acc"
| "foldE f (x # xs) acc = (case f x acc of Inl e \<Rightarrow> Inl e | Inr acc' \<Rightarrow> foldE f xs acc')"


subsection \<open>The own properties of an object, in their order\<close>

text \<open>
  The own property keys of a JavaScript object are listed with the array indices
  first, in ascending numeric order, and the other string keys after them, in the
  order of their creation. An array index is the canonical decimal numeral of an
  integer from 0 to 4294967294.
\<close>

definition digitValue :: "char \<Rightarrow> nat option" where
  "digitValue c = map_of (zip ''0123456789'' [0, 1, 2, 3, 4, 5, 6, 7, 8, 9]) c"

definition decimalValue :: "string \<Rightarrow> nat option" where
  "decimalValue s =
     fold (\<lambda>c acc. case (acc, digitValue c) of
                      (Some a, Some d) \<Rightarrow> Some (10 * a + d)
                    | _ \<Rightarrow> None) s (Some 0)"

definition arrayIndex :: "string \<Rightarrow> nat option" where
  "arrayIndex k =
     (if k = [] \<or> (length k > 1 \<and> hd k = CHR ''0'') then None
      else case decimalValue k of
             Some n \<Rightarrow> if n < 4294967295 then Some n else None
           | None \<Rightarrow> None)"

text \<open>The decimal numeral of a natural number (\<open>String(i)\<close> for an index \<open>i\<close>).\<close>

fun decimal :: "nat \<Rightarrow> string" where
  "decimal n =
     (if n < 10 then [''0123456789'' ! n]
      else decimal (n div 10) @ [''0123456789'' ! (n mod 10)])"

declare decimal.simps [simp del]

text \<open>
  Creating the own property \<open>k\<close> of an object that does not have it, and
  \<open>obj[k] = v\<close> on an object that may: an existing property keeps its place.
\<close>

fun insertIndexKey :: "nat \<Rightarrow> string \<Rightarrow> 'v \<Rightarrow> (string \<times> 'v) list \<Rightarrow> (string \<times> 'v) list" where
  "insertIndexKey n k v [] = [(k, v)]"
| "insertIndexKey n k v ((k', v') # ps) =
     (case arrayIndex k' of
        Some m \<Rightarrow> if m < n then (k', v') # insertIndexKey n k v ps else (k, v) # (k', v') # ps
      | None \<Rightarrow> (k, v) # (k', v') # ps)"

definition defineOwn :: "(string \<times> 'v) list \<Rightarrow> string \<Rightarrow> 'v \<Rightarrow> (string \<times> 'v) list" where
  "defineOwn ps k v =
     (if map_of ps k \<noteq> None then AList.update k v ps
      else case arrayIndex k of
             Some n \<Rightarrow> insertIndexKey n k v ps
           | None \<Rightarrow> ps @ [(k, v)])"
section \<open>The page, as the page function reads it\<close>

text \<open>
  The function that \<open>getVisibleStructure\<close> hands to \<open>page.evaluate\<close> runs in the
  page. Everything it learns about the document it learns by reading a property of an
  object, by reading an item of an object by index, or by calling a method; what such a
  read yields is decided by the browser, not by the function. On a \<open>form\<close> element,
  for one, a property such as \<open>children\<close>, \<open>childNodes\<close>, \<open>tagName\<close> or
  \<open>textContent\<close> yields the form control of that name when there is one, and on an
  SVG element \<open>className\<close> is an object, not a string.

  The model therefore takes the page as the reads it answers. A value of the page is a
  primitive value or a reference to an object (an element, an attribute, a collection,
  a list of controls).
\<close>

datatype pval =
    PUndefined
  | PNull
  | PBool bool
  | PNum real
  | PStr string
  | PObj nat

fun truthyP :: "pval \<Rightarrow> bool" where
  "truthyP PUndefined = False"
| "truthyP PNull = False"
| "truthyP (PBool b) = b"
| "truthyP (PNum n) = (n \<noteq> 0)"
| "truthyP (PStr s) = (s \<noteq> [])"
| "truthyP (PObj _) = True"

text \<open>The values that \<open>?.\<close> stops at.\<close>

fun nullish :: "pval \<Rightarrow> bool" where
  "nullish PUndefined = True"
| "nullish PNull = True"
| "nullish _ = False"

text \<open>The three properties read from \<open>window.getComputedStyle(element)\<close>.\<close>

record computed_style =
  display :: string
  visibility :: string
  opacity :: string

text \<open>
  The prototype of the object \<open>node.attributes\<close>: \<open>Object.prototype\<close> as created
  by \<open>{}\<close>, and what an assignment to \<open>__proto__\<close> can make of it.
\<close>

datatype prototype = ObjectPrototype | NullPrototype | PageObject nat

text \<open>
  What an assignment \<open>obj[k] = v\<close> does when \<open>obj\<close> has no own property \<open>k\<close> and
  inherits from an object of the page: it creates the own property, it is ignored (an
  inherited property that cannot be written), it reaches the setter of \<open>__proto__\<close>,
  or an inherited setter throws.
\<close>

datatype assign_outcome = CreatesProperty | IsIgnored | SetsPrototype | Throws error

text \<open>
  The page: \<open>document.body\<close>; \<open>window.getComputedStyle\<close> on an object (an error when
  it is not an element); a property read and an indexed read on an object; a call of a
  method on an object with its arguments (\<open>getAttribute\<close>), and of a method that
  returns a string (\<open>toString\<close>, \<open>toLowerCase\<close>, \<open>trim\<close>), each an error when the
  object has no such method; the conversions of a number to a string and of a string
  or an object to a number; the outcome of an assignment through an inherited
  property; and the value that \<open>page.evaluate\<close> returns for an object of the page, or
  for an object whose prototype was replaced, inside the result.
\<close>

record page =
  documentBody :: pval
  computedStyleOf :: "nat \<Rightarrow> error + computed_style"
  getProp :: "nat \<Rightarrow> string \<Rightarrow> pval"
  getItem :: "nat \<Rightarrow> nat \<Rightarrow> pval"
  callMethod :: "nat \<Rightarrow> string \<Rightarrow> pval list \<Rightarrow> error + pval"
  callStringMethod :: "nat \<Rightarrow> string \<Rightarrow> error + string"
  numberToString :: "real \<Rightarrow> string"
  toNumberOf :: "pval \<Rightarrow> real option"
  inheritedAssign :: "nat \<Rightarrow> string \<Rightarrow> pval \<Rightarrow> assign_outcome"
  serializeObject :: "nat \<Rightarrow> jsval"
  serializeExotic :: "prototype \<Rightarrow> (string \<times> jsval) list \<Rightarrow> jsval"


subsection \<open>The operations of the page function on these values\<close>

text \<open>The two type errors of a read and of a call.\<close>

definition cannotRead :: "pval \<Rightarrow> string \<Rightarrow> error" where
  "cannotRead v k =
     Error (''Cannot read properties of '' @ (if v = PNull then ''null'' else ''undefined'') @
            '' (reading '' @ [CHR 0x27] @ k @ [CHR 0x27] @ '')'')"

definition notAFunction :: "string \<Rightarrow> error" where
  "notAFunction callee = Error (callee @ '' is not a function'')"

text \<open>
  \<open>v.k\<close>, for the properties the page function reads: a type error on \<open>undefined\<close>
  and \<open>null\<close>; a string has its \<open>length\<close>; the other primitive values have none of
  these properties; an object answers for itself.
\<close>

fun getMember :: "page \<Rightarrow> pval \<Rightarrow> string \<Rightarrow> error + pval" where
  "getMember pg PUndefined k = Inl (cannotRead PUndefined k)"
| "getMember pg PNull k = Inl (cannotRead PNull k)"
| "getMember pg (PBool b) k = Inr PUndefined"
| "getMember pg (PNum n) k = Inr PUndefined"
| "getMember pg (PStr s) k = Inr (if k = ''length'' then PNum (real (length s)) else PUndefined)"
| "getMember pg (PObj h) k = Inr (getProp pg h k)"

text \<open>\<open>v[i]\<close> for an index \<open>i\<close>.\<close>

fun getIndex :: "page \<Rightarrow> pval \<Rightarrow> nat \<Rightarrow> error + pval" where
  "getIndex pg PUndefined i = Inl (cannotRead PUndefined (decimal i))"
| "getIndex pg PNull i = Inl (cannotRead PNull (decimal i))"
| "getIndex pg (PBool b) i = Inr PUndefined"
| "getIndex pg (PNum n) i = Inr PUndefined"
| "getIndex pg (PStr s) i = Inr (if i < length s then PStr [s ! i] else PUndefined)"
| "getIndex pg (PObj h) i = Inr (getItem pg h i)"

text \<open>
  \<open>v.m()\<close> for a method that returns a string; \<open>callee\<close> is the text of the callee,
  which the message of the type error quotes.
\<close>

fun invokeString :: "page \<Rightarrow> string \<Rightarrow> pval \<Rightarrow> string \<Rightarrow> error + string" where
  "invokeString pg callee PUndefined m = Inl (cannotRead PUndefined m)"
| "invokeString pg callee PNull m = Inl (cannotRead PNull m)"
| "invokeString pg callee (PBool b) m =
     (if m = ''toString'' then Inr (if b then ''true'' else ''false'')
      else Inl (notAFunction callee))"
| "invokeString pg callee (PNum n) m =
     (if m = ''toString'' then Inr (numberToString pg n) else Inl (notAFunction callee))"
| "invokeString pg callee (PStr s) m =
     (if m = ''toString'' then Inr s
      else if m = ''toLowerCase'' then Inr (toLowerCase s)
      else if m = ''trim'' then Inr (trim s)
      else Inl (notAFunction callee))"
| "invokeString pg callee (PObj h) m = callStringMethod pg h m"

text \<open>\<open>v.m(args)\<close> for a method of an object.\<close>

fun invoke :: "page \<Rightarrow> string \<Rightarrow> pval \<Rightarrow> string \<Rightarrow> pval list \<Rightarrow> error + pval" where
  "invoke pg callee (PObj h) m args = callMethod pg h m args"
| "invoke pg callee PUndefined m args = Inl (cannotRead PUndefined m)"
| "invoke pg callee PNull m args = Inl (cannotRead PNull m)"
| "invoke pg callee v m args = Inl (notAFunction callee)"

text \<open>
  The number of passes of \<open>for (let i = 0; i < n; i++)\<close>: \<open>n\<close> is converted to a
  number, and a comparison with \<open>NaN\<close> (\<open>None\<close>) is false.
\<close>

fun toNumber :: "page \<Rightarrow> pval \<Rightarrow> real option" where
  "toNumber pg PUndefined = None"
| "toNumber pg PNull = Some 0"
| "toNumber pg (PBool b) = Some (if b then 1 else 0)"
| "toNumber pg (PNum n) = Some n"
| "toNumber pg v = toNumberOf pg v"

definition loopCount :: "page \<Rightarrow> pval \<Rightarrow> nat" where
  "loopCount pg n = (case toNumber pg n of None \<Rightarrow> 0 | Some r \<Rightarrow> nat \<lceil>r\<rceil>)"

text \<open>
  The items a loop \<open>for (let i = 0; i < v.length; i++) { ... v[i] ... }\<close> visits.
  The reads have no effect and the document does not change while the function runs,
  so the items are the same whether they are read before the loop or in it; the read
  of \<open>length\<close> is the only one that can throw.
\<close>

definition readItems :: "page \<Rightarrow> pval \<Rightarrow> error + pval list" where
  "readItems pg v =
     (case getMember pg v ''length'' of
        Inl e \<Rightarrow> Inl e
      | Inr n \<Rightarrow> mapE (getIndex pg v) [0 ..< loopCount pg n])"

text \<open>The key of \<open>obj[k]\<close>: \<open>k\<close> converted to a string.\<close>

fun toPropertyKey :: "page \<Rightarrow> pval \<Rightarrow> error + string" where
  "toPropertyKey pg PUndefined = Inr ''undefined''"
| "toPropertyKey pg PNull = Inr ''null''"
| "toPropertyKey pg (PBool b) = Inr (if b then ''true'' else ''false'')"
| "toPropertyKey pg (PNum n) = Inr (numberToString pg n)"
| "toPropertyKey pg (PStr s) = Inr s"
| "toPropertyKey pg (PObj h) = callStringMethod pg h ''toString''"

text \<open>
  The object \<open>node.attributes\<close>: its prototype and its own properties. \<open>obj[k] = v\<close>
  writes an own property in place. Otherwise, under \<open>Object.prototype\<close>, the key
  \<open>__proto__\<close> reaches the inherited setter, which replaces the prototype when \<open>v\<close>
  is an object or \<open>null\<close> and does nothing else, and any other key creates an own
  property; without a prototype every key creates an own property.
\<close>

record plain_object =
  proto :: prototype
  own :: "(string \<times> pval) list"

definition emptyObject :: plain_object where
  "emptyObject = \<lparr>proto = ObjectPrototype, own = []\<rparr>"

definition setPrototype :: "pval \<Rightarrow> plain_object \<Rightarrow> plain_object" where
  "setPrototype v obj =
     (case v of
        PObj h \<Rightarrow> obj\<lparr>proto := PageObject h\<rparr>
      | PNull \<Rightarrow> obj\<lparr>proto := NullPrototype\<rparr>
      | _ \<Rightarrow> obj)"

definition createOwn :: "plain_object \<Rightarrow> string \<Rightarrow> pval \<Rightarrow> plain_object" where
  "createOwn obj k v = obj\<lparr>own := defineOwn (own obj) k v\<rparr>"

definition assignProperty :: "page \<Rightarrow> plain_object \<Rightarrow> string \<Rightarrow> pval \<Rightarrow> error + plain_object" where
  "assignProperty pg obj k v =
     (if map_of (own obj) k \<noteq> None then Inr (createOwn obj k v)
      else case proto obj of
             ObjectPrototype \<Rightarrow>
               if k = ''__proto__'' then Inr (setPrototype v obj) else Inr (createOwn obj k v)
           | NullPrototype \<Rightarrow> Inr (createOwn obj k v)
           | PageObject h \<Rightarrow>
               (case inheritedAssign pg h k v of
                  CreatesProperty \<Rightarrow> Inr (createOwn obj k v)
                | IsIgnored \<Rightarrow> Inr obj
                | SetsPrototype \<Rightarrow> Inr (setPrototype v obj)
                | Throws e \<Rightarrow> Inl e))"


section \<open>The visible-structure extraction\<close>

text \<open>
  The sanitizer options the extraction consumes. \<open>allowedTags\<close> is a list of tag
  names or absent; \<open>allowedAttributes\<close> is \<open>false\<close>, absent, or an object from a
  tag name (or the wildcard) to \<open>true\<close> or a list of attribute names.
\<close>

datatype attr_rule = AllowAll | AllowNames "string list"

datatype allowed_attributes =
    AttributesFalse
  | AttributesUndefined
  | AttributesObject "(string \<times> attr_rule) list"

record sanitize_options =
  allowedTags :: "string list option"
  allowedAttributes :: allowed_attributes

text \<open>\<open>sanitizeOptions.allowedTags || []\<close>.\<close>

definition allowedTagsOf :: "sanitize_options \<Rightarrow> string list" where
  "allowedTagsOf opts = (case allowedTags opts of Some ts \<Rightarrow> ts | None \<Rightarrow> [])"

text \<open>
  A node of the extracted tree, as the object the page function builds: \<open>tag\<close>,
  \<open>attributes\<close> and \<open>children\<close> from the literal, then the fields that are set
  only for a truthy value (\<open>None\<close> is a property that was never set).
\<close>

datatype pnode =
  PNode (node_tag: string) (node_attributes: plain_object) (node_children: "pnode list")
        (node_id: "pval option") (node_role: "pval option") (node_ariaLabel: "pval option")
        (node_className: "string option") (node_text: "string option")

text \<open>
  The test \<open>window.getComputedStyle(element)\<close> and the three comparisons that
  follow it.
\<close>

fun getComputedStyle :: "page \<Rightarrow> pval \<Rightarrow> error + computed_style" where
  "getComputedStyle pg (PObj h) = computedStyleOf pg h"
| "getComputedStyle pg v =
     Inl (Error (''Failed to execute '' @ [CHR 0x27] @ ''getComputedStyle'' @ [CHR 0x27] @
                 '' on '' @ [CHR 0x27] @ ''Window'' @ [CHR 0x27] @
                 '': parameter 1 is not of type '' @ [CHR 0x27] @ ''Element'' @ [CHR 0x27] @ ''.''))"

definition invisible :: "computed_style \<Rightarrow> bool" where
  "invisible style =
     (display style = ''none'' \<or> visibility style = ''hidden'' \<or> opacity style = ''0'')"

text \<open>\<open>element.tagName.toLowerCase()\<close>.\<close>

definition tagOf :: "page \<Rightarrow> pval \<Rightarrow> error + string" where
  "tagOf pg element =
     (case getMember pg element ''tagName'' of
        Inl e \<Rightarrow> Inl e
      | Inr tagName \<Rightarrow> invokeString pg ''element.tagName.toLowerCase'' tagName ''toLowerCase'')"

text \<open>
  The condition under which the second attribute loop copies an attribute;
  \<open>includes\<close> finds a name only when it is a string of the list.
\<close>

definition includesName :: "string list \<Rightarrow> pval \<Rightarrow> bool" where
  "includesName ns v = (case v of PStr s \<Rightarrow> s \<in> set ns | _ \<Rightarrow> False)"

definition attributeAllowed :: "(string \<times> attr_rule) list \<Rightarrow> string \<Rightarrow> pval \<Rightarrow> bool" where
  "attributeAllowed m tag attrName =
     (let allowedForAll = map_of m ''*'';
          allowedForTag = map_of m tag;
          allowAllForTag = (allowedForTag = Some AllowAll);
          allowAllGlobal = (allowedForAll = Some AllowAll)
      in allowAllForTag \<or> allowAllGlobal \<or>
         (case allowedForTag of Some (AllowNames ns) \<Rightarrow> includesName ns attrName | _ \<Rightarrow> False) \<or>
         (case allowedForAll of Some (AllowNames ns) \<Rightarrow> includesName ns attrName | _ \<Rightarrow> False))"

text \<open>\<open>node.attributes[attrName] = attr.value\<close>, for the name that was read.\<close>

definition setAttribute :: "page \<Rightarrow> pval \<Rightarrow> pval \<Rightarrow> plain_object \<Rightarrow> error + plain_object" where
  "setAttribute pg attr attrName obj =
     (case getMember pg attr ''value'' of
        Inl e \<Rightarrow> Inl e
      | Inr attrValue \<Rightarrow>
          (case toPropertyKey pg attrName of
             Inl e \<Rightarrow> Inl e
           | Inr k \<Rightarrow> assignProperty pg obj k attrValue))"

text \<open>The body of the first loop: \<open>node.attributes[attr.name] = attr.value\<close>.\<close>

definition copyAttribute :: "page \<Rightarrow> pval \<Rightarrow> plain_object \<Rightarrow> error + plain_object" where
  "copyAttribute pg attr obj =
     (case getMember pg attr ''name'' of
        Inl e \<Rightarrow> Inl e
      | Inr attrName \<Rightarrow> setAttribute pg attr attrName obj)"

text \<open>
  The body of the second loop: \<open>attr.name\<close> is read, and the attribute is copied
  when the condition holds.
\<close>

definition copyAllowedAttribute ::
  "page \<Rightarrow> (string \<times> attr_rule) list \<Rightarrow> string \<Rightarrow> pval \<Rightarrow> plain_object \<Rightarrow> error + plain_object" where
  "copyAllowedAttribute pg m tag attr obj =
     (case getMember pg attr ''name'' of
        Inl e \<Rightarrow> Inl e
      | Inr attrName \<Rightarrow>
          if attributeAllowed m tag attrName then setAttribute pg attr attrName obj else Inr obj)"

text \<open>
  The attributes of the node: every attribute when \<open>allowedAttributes\<close> is \<open>false\<close>,
  the allowed ones when it is an object, none otherwise.
\<close>

definition copyAttributes ::
  "page \<Rightarrow> allowed_attributes \<Rightarrow> string \<Rightarrow> pval \<Rightarrow> error + plain_object" where
  "copyAttributes pg aA tag element =
     (case getMember pg element ''attributes'' of
        Inl e \<Rightarrow> Inl e
      | Inr elementAttributes \<Rightarrow>
          (case aA of
             AttributesFalse \<Rightarrow>
               (case readItems pg elementAttributes of
                  Inl e \<Rightarrow> Inl e
                | Inr attrs \<Rightarrow> foldE (copyAttribute pg) attrs emptyObject)
           | AttributesObject m \<Rightarrow>
               (case readItems pg elementAttributes of
                  Inl e \<Rightarrow> Inl e
                | Inr attrs \<Rightarrow> foldE (copyAllowedAttribute pg m tag) attrs emptyObject)
           | AttributesUndefined \<Rightarrow> Inr emptyObject))"

text \<open>A field that is set only when the value read is truthy.\<close>

definition whenTruthy :: "pval \<Rightarrow> pval option" where
  "whenTruthy v = (if truthyP v then Some v else None)"

text \<open>\<open>element.id\<close>, \<open>element.getAttribute(name)\<close>.\<close>

definition idOf :: "page \<Rightarrow> pval \<Rightarrow> error + pval option" where
  "idOf pg element =
     (case getMember pg element ''id'' of Inl e \<Rightarrow> Inl e | Inr v \<Rightarrow> Inr (whenTruthy v))"

definition attributeOf :: "page \<Rightarrow> pval \<Rightarrow> string \<Rightarrow> error + pval option" where
  "attributeOf pg element n =
     (case invoke pg ''element.getAttribute'' element ''getAttribute'' [PStr n] of
        Inl e \<Rightarrow> Inl e
      | Inr v \<Rightarrow> Inr (whenTruthy v))"

text \<open>\<open>element.className?.toString().trim()\<close>.\<close>

definition classNameOf :: "page \<Rightarrow> pval \<Rightarrow> error + string option" where
  "classNameOf pg element =
     (case getMember pg element ''className'' of
        Inl e \<Rightarrow> Inl e
      | Inr v \<Rightarrow>
          if nullish v then Inr None
          else (case invokeString pg ''element.className?.toString'' v ''toString'' of
                  Inl e \<Rightarrow> Inl e
                | Inr s \<Rightarrow> Inr (nonEmpty (Some (trim s)))))"

text \<open>
  The text field: the test
  \<open>element.childNodes.length === 1 && element.childNodes[0].nodeType === 3\<close>, then
  \<open>element.textContent?.trim() || ""\<close>, cut after 50 code units.
\<close>

definition singleTextChild :: "page \<Rightarrow> pval \<Rightarrow> error + bool" where
  "singleTextChild pg element =
     (case getMember pg element ''childNodes'' of
        Inl e \<Rightarrow> Inl e
      | Inr childNodes \<Rightarrow>
          (case getMember pg childNodes ''length'' of
             Inl e \<Rightarrow> Inl e
           | Inr n \<Rightarrow>
               if n = PNum 1
               then (case getIndex pg childNodes 0 of
                       Inl e \<Rightarrow> Inl e
                     | Inr first \<Rightarrow>
                         (case getMember pg first ''nodeType'' of
                            Inl e \<Rightarrow> Inl e
                          | Inr t \<Rightarrow> Inr (t = PNum 3)))
               else Inr False))"

definition trimmedText :: "page \<Rightarrow> pval \<Rightarrow> error + string" where
  "trimmedText pg element =
     (case getMember pg element ''textContent'' of
        Inl e \<Rightarrow> Inl e
      | Inr v \<Rightarrow>
          if nullish v then Inr []
          else invokeString pg ''element.textContent?.trim'' v ''trim'')"

definition cutText :: "string \<Rightarrow> string" where
  "cutText text = (if length text > 50 then take 50 text @ ''...'' else text)"

definition textOf :: "page \<Rightarrow> pval \<Rightarrow> error + string option" where
  "textOf pg element =
     (case singleTextChild pg element of
        Inl e \<Rightarrow> Inl e
      | Inr single \<Rightarrow>
          if single
          then (case trimmedText pg element of
                  Inl e \<Rightarrow> Inl e
                | Inr text \<Rightarrow> Inr (if text \<noteq> [] then Some (cutText text) else None))
          else Inr None)"

text \<open>
  The part of \<open>extractVisibleStructure(element, depth)\<close> between the test of the
  depth and the loop over the children: the style test and the tag test, each of
  which returns \<open>null\<close> (\<open>None\<close>), and the node with everything but its children.
\<close>

definition nodeWithoutChildren ::
  "page \<Rightarrow> string list \<Rightarrow> allowed_attributes \<Rightarrow> pval \<Rightarrow> error + pnode option" where
  "nodeWithoutChildren pg aT aA element =
     (case getComputedStyle pg element of
        Inl e \<Rightarrow> Inl e
      | Inr style \<Rightarrow>
          if invisible style then Inr None
          else (case tagOf pg element of
             Inl e \<Rightarrow> Inl e
           | Inr tag \<Rightarrow>
               if tag \<notin> set aT then Inr None
               else (case copyAttributes pg aA tag element of
                  Inl e \<Rightarrow> Inl e
                | Inr attributes \<Rightarrow>
                    (case idOf pg element of
                       Inl e \<Rightarrow> Inl e
                     | Inr elementId \<Rightarrow>
                         (case attributeOf pg element ''role'' of
                            Inl e \<Rightarrow> Inl e
                          | Inr role \<Rightarrow>
                              (case attributeOf pg element ''aria-label'' of
                                 Inl e \<Rightarrow> Inl e
                               | Inr ariaLabel \<Rightarrow>
                                   (case classNameOf pg element of
                                      Inl e \<Rightarrow> Inl e
                                    | Inr className \<Rightarrow>
                                        (case textOf pg element of
                                           Inl e \<Rightarrow> Inl e
                                         | Inr text \<Rightarrow>
                                             Inr (Some (PNode tag attributes [] elementId role
                                                          ariaLabel className text))))))))))"

text \<open>\<open>if (child) node.children.push(child)\<close>, for the results of a loop.\<close>

definition pushed :: "pnode option list \<Rightarrow> pnode list" where
  "pushed results = List.map_filter (\<lambda>child. child) results"

fun withChildren :: "pnode \<Rightarrow> pnode list \<Rightarrow> pnode" where
  "withChildren (PNode t a _ i r l c x) cs = PNode t a cs i r l c x"

lemma mapE_cong [fundef_cong]:
  "xs = ys \<Longrightarrow> (\<And>x. x \<in> set ys \<Longrightarrow> f x = g x) \<Longrightarrow> mapE f xs = mapE g ys"
  by (induction ys arbitrary: xs) (auto split: sum.splits)

text \<open>
  \<open>extractVisibleStructure(element, depth)\<close>, with the values the page function
  closes over (\<open>allowedTags\<close>, \<open>allowedAttributes\<close>, \<open>maxDepth\<close>) as arguments.
  \<open>Inr None\<close> is the \<open>null\<close> the source returns, \<open>Inl\<close> an error thrown on the
  way, which ends the whole extraction.
\<close>

function extractVisibleStructure ::
  "page \<Rightarrow> string list \<Rightarrow> allowed_attributes \<Rightarrow> nat \<Rightarrow> pval \<Rightarrow> nat \<Rightarrow> error + pnode option" where
  "extractVisibleStructure pg aT aA mD element depth =
     (if \<not> truthyP element \<or> depth > mD then Inr None
      else
        (case nodeWithoutChildren pg aT aA element of
           Inl e \<Rightarrow> Inl e
         | Inr None \<Rightarrow> Inr None
         | Inr (Some node) \<Rightarrow>
             if depth + 1 < mD
             then (case getMember pg element ''children'' of
                     Inl e \<Rightarrow> Inl e
                   | Inr children \<Rightarrow>
                       (case readItems pg children of
                          Inl e \<Rightarrow> Inl e
                        | Inr items \<Rightarrow>
                            (case mapE (\<lambda>child. extractVisibleStructure pg aT aA mD child (depth + 1))
                                    items of
                               Inl e \<Rightarrow> Inl e
                             | Inr results \<Rightarrow> Inr (Some (withChildren node (pushed results))))))
             else Inr (Some node)))"
  by pat_completeness auto

termination
  by (relation "measure (\<lambda>(pg, aT, aA, mD, element, depth). mD - depth)") auto

declare extractVisibleStructure.simps [simp del]

text \<open>
  The page function of \<open>getVisibleStructure\<close>: the extraction starts at
  \<open>document.body\<close> with depth 0.
\<close>

definition extractBody ::
  "page \<Rightarrow> string list \<Rightarrow> allowed_attributes \<Rightarrow> nat \<Rightarrow> error + pnode option" where
  "extractBody pg aT aA mD = extractVisibleStructure pg aT aA mD (documentBody pg) 0"

text \<open>
  The value \<open>page.evaluate\<close> resolves to for the tree: strings, numbers, objects and
  arrays arrive as they are, an \<open>undefined\<close> property value included; what arrives
  for an object of the page is the driver's choice.
\<close>

fun serializeValue :: "page \<Rightarrow> pval \<Rightarrow> jsval" where
  "serializeValue pg PUndefined = JUndefined"
| "serializeValue pg PNull = JNull"
| "serializeValue pg (PBool b) = JBool b"
| "serializeValue pg (PNum n) = JNum n"
| "serializeValue pg (PStr s) = JStr s"
| "serializeValue pg (PObj h) = serializeObject pg h"

definition serializeAttributes :: "page \<Rightarrow> plain_object \<Rightarrow> jsval" where
  "serializeAttributes pg obj =
     (let ps = map (\<lambda>(k, v). (k, serializeValue pg v)) (own obj)
      in case proto obj of
           ObjectPrototype \<Rightarrow> JObj ps
         | p \<Rightarrow> serializeExotic pg p ps)"

definition optionalField :: "string \<Rightarrow> jsval option \<Rightarrow> (string \<times> jsval) list" where
  "optionalField k v = (case v of None \<Rightarrow> [] | Some x \<Rightarrow> [(k, x)])"

fun serializeNode :: "page \<Rightarrow> pnode \<Rightarrow> jsval" where
  "serializeNode pg (PNode t a cs i r l c x) =
     JObj ([(''tag'', JStr t),
            (''attributes'', serializeAttributes pg a),
            (''children'', JArr (map (serializeNode pg) cs))] @
           optionalField ''id'' (map_option (serializeValue pg) i) @
           optionalField ''role'' (map_option (serializeValue pg) r) @
           optionalField ''ariaLabel'' (map_option (serializeValue pg) l) @
           optionalField ''className'' (map_option JStr c) @
           optionalField ''text'' (map_option JStr x))"


subsection \<open>Vocabulary for the extraction's properties\<close>

text \<open>All nodes of an extracted tree, the root first.\<close>

fun pnodes :: "pnode \<Rightarrow> pnode list" where
  "pnodes (PNode t a cs i r l c x) = PNode t a cs i r l c x # concat (map pnodes cs)"

text \<open>The number of levels of an extracted tree.\<close>

fun height :: "pnode \<Rightarrow> nat" where
  "height (PNode t a cs i r l c x) = Suc (fold max (map height cs) 0)"
section \<open>Argument schemas and the environment\<close>

text \<open>
  The issues a schema reports: a value of the wrong type at a path, a value that fits
  no member of a union, and the message of a failed refinement.
\<close>

datatype zod_issue =
    InvalidType "string list" string
  | InvalidUnion "string list"
  | Custom string

text \<open>A field that takes one value or an array of values.\<close>

datatype 'a one_or_many = One 'a | Many "'a list"

fun isObject :: "jsval \<Rightarrow> bool" where
  "isObject (JObj _) = True"
| "isObject _ = False"

text \<open>Reading a property of a parsed JSON object: an absent key reads as \<open>undefined\<close>.\<close>

fun property :: "jsval \<Rightarrow> string \<Rightarrow> jsval" where
  "property (JObj ps) k = (case map_of ps k of Some v \<Rightarrow> v | None \<Rightarrow> JUndefined)"
| "property _ k = JUndefined"

fun issuesOf :: "zod_issue list + 'a \<Rightarrow> zod_issue list" where
  "issuesOf (Inl is) = is"
| "issuesOf (Inr _) = []"

text \<open>\<open>z.string()\<close>, \<open>z.boolean()\<close>, \<open>z.number()\<close> and \<open>.optional()\<close>.\<close>

fun zString :: "string list \<Rightarrow> jsval \<Rightarrow> zod_issue list + string" where
  "zString path (JStr s) = Inr s"
| "zString path _ = Inl [InvalidType path ''string'']"

fun zBoolean :: "string list \<Rightarrow> jsval \<Rightarrow> zod_issue list + bool" where
  "zBoolean path (JBool b) = Inr b"
| "zBoolean path _ = Inl [InvalidType path ''boolean'']"

fun zNumber :: "string list \<Rightarrow> jsval \<Rightarrow> zod_issue list + real" where
  "zNumber path (JNum n) = Inr n"
| "zNumber path _ = Inl [InvalidType path ''number'']"

fun zOptional ::
  "(string list \<Rightarrow> jsval \<Rightarrow> zod_issue list + 'a) \<Rightarrow> string list \<Rightarrow> jsval \<Rightarrow>
   zod_issue list + 'a option" where
  "zOptional f path JUndefined = Inr None"
| "zOptional f path v = (case f path v of Inl is \<Rightarrow> Inl is | Inr a \<Rightarrow> Inr (Some a))"

text \<open>
  \<open>z.union([z.string(), z.array(z.string())])\<close> and its counterpart for numbers: a
  single value, or an array all of whose members are of the type.
\<close>

fun asString :: "jsval \<Rightarrow> string option" where
  "asString (JStr s) = Some s"
| "asString _ = None"

fun asNumber :: "jsval \<Rightarrow> real option" where
  "asNumber (JNum n) = Some n"
| "asNumber _ = None"

fun zStringOrArray :: "string list \<Rightarrow> jsval \<Rightarrow> zod_issue list + string one_or_many" where
  "zStringOrArray path (JStr s) = Inr (One s)"
| "zStringOrArray path (JArr xs) =
     (if list_all (\<lambda>x. asString x \<noteq> None) xs then Inr (Many (List.map_filter asString xs))
      else Inl [InvalidUnion path])"
| "zStringOrArray path _ = Inl [InvalidUnion path]"

fun zNumberOrArray :: "string list \<Rightarrow> jsval \<Rightarrow> zod_issue list + real one_or_many" where
  "zNumberOrArray path (JNum n) = Inr (One n)"
| "zNumberOrArray path (JArr xs) =
     (if list_all (\<lambda>x. asNumber x \<noteq> None) xs then Inr (Many (List.map_filter asNumber xs))
      else Inl [InvalidUnion path])"
| "zNumberOrArray path _ = Inl [InvalidUnion path]"

text \<open>
  \<open>z.object({...})\<close> with no, one or two fields: the input must be an object (not
  \<open>null\<close>, not an array), each field is validated at its key, the issues of all
  fields are collected, and unknown keys are dropped from the output.
\<close>

definition zObject0 :: "'r \<Rightarrow> jsval \<Rightarrow> zod_issue list + 'r" where
  "zObject0 build data = (if \<not> isObject data then Inl [InvalidType [] ''object''] else Inr build)"

definition zObject1 ::
  "string \<Rightarrow> (string list \<Rightarrow> jsval \<Rightarrow> zod_issue list + 'a) \<Rightarrow> ('a \<Rightarrow> 'r) \<Rightarrow> jsval \<Rightarrow>
   zod_issue list + 'r" where
  "zObject1 k f build data =
     (if \<not> isObject data then Inl [InvalidType [] ''object'']
      else (case f [k] (property data k) of
              Inl is \<Rightarrow> Inl is
            | Inr a \<Rightarrow> Inr (build a)))"

definition zObject2 ::
  "string \<Rightarrow> (string list \<Rightarrow> jsval \<Rightarrow> zod_issue list + 'a) \<Rightarrow>
   string \<Rightarrow> (string list \<Rightarrow> jsval \<Rightarrow> zod_issue list + 'b) \<Rightarrow> ('a \<Rightarrow> 'b \<Rightarrow> 'r) \<Rightarrow> jsval \<Rightarrow>
   zod_issue list + 'r" where
  "zObject2 k1 f1 k2 f2 build data =
     (if \<not> isObject data then Inl [InvalidType [] ''object'']
      else (case (f1 [k1] (property data k1), f2 [k2] (property data k2)) of
              (Inr a, Inr b) \<Rightarrow> Inr (build a b)
            | (a, b) \<Rightarrow> Inl (issuesOf a @ issuesOf b)))"

subsection \<open>The schemas and the argument types inferred from them\<close>

datatype LocatorPressKeyArgs = LocatorPressKeyArgs string string
datatype PagePressKeyArgs = PagePressKeyArgs string
datatype LocateElementArgs = LocateElementArgs string
datatype LocatorEvaluateArgs = LocatorEvaluateArgs string string
datatype LocatorGetAttributeArgs = LocatorGetAttributeArgs string string
datatype LocatorElementIdArgs = LocatorElementIdArgs string
datatype LocatorFillArgs = LocatorFillArgs string string
datatype PageGotoArgs = PageGotoArgs string
datatype LocatorSelectOptionArgs =
  LocatorSelectOptionArgs "string option" "string option" "string one_or_many option"
    "string one_or_many option" "real one_or_many option"
datatype ExpectToBeArgs = ExpectToBeArgs string string
datatype ResultAssertionArgs = ResultAssertionArgs bool
datatype ResultQueryArgs = ResultQueryArgs string
datatype ResultErrorArgs = ResultErrorArgs string
datatype LocateElementsByRoleArgs = LocateElementsByRoleArgs string "bool option"
datatype LocateElementsWithTextArgs = LocateElementsWithTextArgs string "bool option"
datatype EmptyArgs = EmptyArgs

text \<open>The fields stand in the order of the schema: \<open>elementId\<close>, \<open>key\<close>.\<close>

definition locatorPressKeySchema :: "jsval \<Rightarrow> zod_issue list + LocatorPressKeyArgs" where
  "locatorPressKeySchema = zObject2 ''elementId'' zString ''key'' zString LocatorPressKeyArgs"

definition pagePressKeySchema :: "jsval \<Rightarrow> zod_issue list + PagePressKeyArgs" where
  "pagePressKeySchema = zObject1 ''key'' zString PagePressKeyArgs"

definition locateElementSchema :: "jsval \<Rightarrow> zod_issue list + LocateElementArgs" where
  "locateElementSchema = zObject1 ''cssSelector'' zString LocateElementArgs"

text \<open>\<open>elementId\<close>, \<open>pageFunction\<close>.\<close>

definition locatorEvaluateSchema :: "jsval \<Rightarrow> zod_issue list + LocatorEvaluateArgs" where
  "locatorEvaluateSchema =
     zObject2 ''elementId'' zString ''pageFunction'' zString LocatorEvaluateArgs"

text \<open>\<open>attributeName\<close>, \<open>elementId\<close>.\<close>

definition locatorGetAttributeSchema :: "jsval \<Rightarrow> zod_issue list + LocatorGetAttributeArgs" where
  "locatorGetAttributeSchema =
     zObject2 ''attributeName'' zString ''elementId'' zString LocatorGetAttributeArgs"

definition locatorElementIdSchema :: "jsval \<Rightarrow> zod_issue list + LocatorElementIdArgs" where
  "locatorElementIdSchema = zObject1 ''elementId'' zString LocatorElementIdArgs"

text \<open>\<open>value\<close>, \<open>elementId\<close>.\<close>

definition locatorFillSchema :: "jsval \<Rightarrow> zod_issue list + LocatorFillArgs" where
  "locatorFillSchema = zObject2 ''value'' zString ''elementId'' zString LocatorFillArgs"

definition pageGotoSchema :: "jsval \<Rightarrow> zod_issue list + PageGotoArgs" where
  "pageGotoSchema = zObject1 ''url'' zString PageGotoArgs"

text \<open>
  \<open>locatorSelectOptionSchema\<close>: five optional fields (\<open>elementId\<close>, \<open>cssSelector\<close>,
  \<open>value\<close>, \<open>label\<close>, \<open>index\<close>) and two refinements. The refinements run only on
  an object whose fields are all well typed; both are checked, and each failure adds its
  message.
\<close>

definition locatorSelectOptionSchema :: "jsval \<Rightarrow> zod_issue list + LocatorSelectOptionArgs" where
  "locatorSelectOptionSchema data =
     (if \<not> isObject data then Inl [InvalidType [] ''object'']
      else
        (case (zOptional zString [''elementId''] (property data ''elementId''),
               zOptional zString [''cssSelector''] (property data ''cssSelector''),
               zOptional zStringOrArray [''value''] (property data ''value''),
               zOptional zStringOrArray [''label''] (property data ''label''),
               zOptional zNumberOrArray [''index''] (property data ''index'')) of
           (Inr elementId, Inr cssSelector, Inr val, Inr label, Inr index) \<Rightarrow>
             (let issues =
                (if elementId \<noteq> None \<or> cssSelector \<noteq> None then []
                 else [Custom ''Either elementId or cssSelector must be provided.'']) @
                (if val \<noteq> None \<or> label \<noteq> None \<or> index \<noteq> None then []
                 else [Custom ''At least one of value, label, or index must be provided.''])
              in if issues = []
                 then Inr (LocatorSelectOptionArgs elementId cssSelector val label index)
                 else Inl issues)
         | (a, b, c, d, e) \<Rightarrow>
             Inl (issuesOf a @ issuesOf b @ issuesOf c @ issuesOf d @ issuesOf e)))"

text \<open>\<open>actual\<close>, \<open>expected\<close>.\<close>

definition expectToBeSchema :: "jsval \<Rightarrow> zod_issue list + ExpectToBeArgs" where
  "expectToBeSchema = zObject2 ''actual'' zString ''expected'' zString ExpectToBeArgs"

definition resultAssertionSchema :: "jsval \<Rightarrow> zod_issue list + ResultAssertionArgs" where
  "resultAssertionSchema = zObject1 ''assertion'' zBoolean ResultAssertionArgs"

definition resultQuerySchema :: "jsval \<Rightarrow> zod_issue list + ResultQueryArgs" where
  "resultQuerySchema = zObject1 ''query'' zString ResultQueryArgs"

definition resultErrorSchema :: "jsval \<Rightarrow> zod_issue list + ResultErrorArgs" where
  "resultErrorSchema = zObject1 ''errorMessage'' zString ResultErrorArgs"

text \<open>\<open>role\<close>, \<open>exact\<close>; and \<open>text\<close>, \<open>exact\<close>.\<close>

definition locateElementsByRoleSchema :: "jsval \<Rightarrow> zod_issue list + LocateElementsByRoleArgs" where
  "locateElementsByRoleSchema =
     zObject2 ''role'' zString ''exact'' (zOptional zBoolean) LocateElementsByRoleArgs"

definition locateElementsWithTextSchema ::
  "jsval \<Rightarrow> zod_issue list + LocateElementsWithTextArgs" where
  "locateElementsWithTextSchema =
     zObject2 ''text'' zString ''exact'' (zOptional zBoolean) LocateElementsWithTextArgs"

text \<open>\<open>z.object({})\<close>, the schema of the actions without arguments.\<close>

definition emptyObjectSchema :: "jsval \<Rightarrow> zod_issue list + EmptyArgs" where
  "emptyObjectSchema = zObject0 EmptyArgs"

subsection \<open>The automation driver and the other collaborators\<close>

text \<open>
  A locator of the automation driver: \<open>page.locator(selector)\<close>,
  \<open>page.getByRole(role, {exact})\<close>, \<open>page.getByText(text, {exact})\<close>,
  \<open>locator.first()\<close>, and the \<open>n\<close>-th match of a locator as \<open>locator.all()\<close>
  hands it out.
\<close>

datatype locator =
    Locator string
  | GetByRole string bool
  | GetByText string bool
  | First locator
  | Nth locator nat

text \<open>
  The driver calls the actions make on a locator. \<open>SetAttribute name value\<close> is
  \<open>locator.evaluate((node, id) => node.setAttribute(name, id), value)\<close>; \<open>Evaluate\<close>
  carries the page function as text; \<open>SelectOption\<close> carries the value the source
  passes (a string, an array of strings, an object \<open>{label}\<close> or \<open>{index}\<close>, or an
  array of such objects).
\<close>

datatype locator_method =
    Press string
  | SetAttribute string string
  | Evaluate string
  | GetAttribute string
  | InnerHTML
  | InnerText
  | TextContent
  | InputValue
  | Blur
  | BoundingBox
  | Check
  | Uncheck
  | IsChecked
  | IsEditable
  | IsEnabled
  | IsVisible
  | Clear
  | Click
  | Count
  | Fill string
  | SelectOption jsval

text \<open>
  The calls on the page itself: \<open>page.keyboard.press(key)\<close>, and \<open>page.goto(url)\<close>
  followed by \<open>response?.url()\<close> (a string, or \<open>undefined\<close> without a response).
\<close>

datatype page_method = KeyboardPress string | Goto string

text \<open>A tool call the model requests, and the assistant message that carries them.\<close>

datatype tool_call =
    FunctionToolCall string string string
  | OtherToolCall string string

text \<open>
  \<open>FunctionToolCall id name arguments\<close> is a call of type \<open>function\<close>;
  \<open>OtherToolCall id type\<close> is a call of any other type, which has no function part.
\<close>

fun toolCallId :: "tool_call \<Rightarrow> string" where
  "toolCallId (FunctionToolCall i _ _) = i"
| "toolCallId (OtherToolCall i _) = i"

fun isFunctionToolCall :: "tool_call \<Rightarrow> bool" where
  "isFunctionToolCall (FunctionToolCall _ _ _) = True"
| "isFunctionToolCall (OtherToolCall _ _) = False"

datatype assistant_message =
  AssistantMessage (content: "string option") (tool_calls: "tool_call list option")

datatype message_param =
    SystemMessage string
  | UserMessage string
  | AssistantParam assistant_message
  | ToolMessage string string

text \<open>\<open>ToolMessage tool_call_id content\<close> is a message of role \<open>tool\<close>.\<close>

record request =
  req_model :: string
  req_messages :: "message_param list"
  req_tools :: "string list"
  req_tool_choice :: "string option"

text \<open>
  Everything the code calls but does not define, over a world state \<open>'w\<close> (the page,
  the random source, the model service): \<open>JSON.parse\<close> and \<open>JSON.stringify\<close>, the
  message of a schema error, \<open>randomUUID\<close>, the sanitizer options, the system prompt,
  the driver calls on a locator and on the page, \<open>locator.all()\<close>, the page in
  which \<open>page.evaluate\<close> runs the page function, the error with which
  \<open>page.evaluate\<close> rejects when the page function throws, and the chat completion request,
  which answers with \<open>response.choices[0]?.message\<close>.
\<close>

record 'w env =
  JSON_parse :: "string \<Rightarrow> error + jsval"
  JSON_stringify :: "jsval \<Rightarrow> string"
  zodMessage :: "zod_issue list \<Rightarrow> string"
  randomUUID :: "'w \<Rightarrow> string \<times> 'w"
  getSanitizeOptions :: sanitize_options
  SYSTEM_PROMPT :: string
  locatorCall :: "locator \<Rightarrow> locator_method \<Rightarrow> 'w \<Rightarrow> (error + jsval) \<times> 'w"
  locatorAll :: "locator \<Rightarrow> 'w \<Rightarrow> (error + locator list) \<times> 'w"
  pageCall :: "page_method \<Rightarrow> 'w \<Rightarrow> (error + jsval) \<times> 'w"
  pageEvaluate :: "'w \<Rightarrow> (error + page) \<times> 'w"
  evaluateError :: "error \<Rightarrow> error"
  chatCompletionsCreate :: "request \<Rightarrow> 'w \<Rightarrow> (error + assistant_message option) \<times> 'w"

text \<open>Awaiting a call and going on with its value; a failure ends the function.\<close>

definition await ::
  "('w \<Rightarrow> (error + 'a) \<times> 'w) \<Rightarrow> ('a \<Rightarrow> 'w \<Rightarrow> (error + 'b) \<times> 'w) \<Rightarrow> 'w \<Rightarrow> (error + 'b) \<times> 'w" where
  "await m k w = (case m w of (Inl e, w') \<Rightarrow> (Inl e, w') | (Inr v, w') \<Rightarrow> k v w')"

definition return :: "'a \<Rightarrow> 'w \<Rightarrow> (error + 'a) \<times> 'w" where
  "return v w = (Inr v, w)"

definition throw :: "error \<Rightarrow> 'w \<Rightarrow> (error + 'a) \<times> 'w" where
  "throw e w = (Inl e, w)"

text \<open>\<open>parse: (args) => schema.parse(JSON.parse(args))\<close>.\<close>

definition parseWith ::
  "'w env \<Rightarrow> (jsval \<Rightarrow> zod_issue list + 'a) \<Rightarrow> string \<Rightarrow> error + 'a" where
  "parseWith env schema args =
     (case JSON_parse env args of
        Inl e \<Rightarrow> Inl e
      | Inr data \<Rightarrow>
          (case schema data of
             Inl issues \<Rightarrow> Inl (Error (zodMessage env issues))
           | Inr a \<Rightarrow> Inr a))"

section \<open>The action registry\<close>

text \<open>
  An action of the registry. Its \<open>parse\<close> and its \<open>function\<close> are typed by the
  action's own argument type, and the orchestrator only ever calls them one after the
  other inside one \<open>try\<close> block, as \<open>action.function(action.parse(arguments))\<close>; the
  registry therefore keeps their composition \<open>run\<close>, built by \<open>actionTool\<close> from
  the two. The description and the JSON schema shown to the model take no part in the
  dispatch and are left out.
\<close>

record 'w ActionTool =
  name :: string
  run :: "string \<Rightarrow> 'w \<Rightarrow> (error + jsval) \<times> 'w"

definition actionTool ::
  "string \<Rightarrow> (string \<Rightarrow> error + 'a) \<Rightarrow> ('a \<Rightarrow> 'w \<Rightarrow> (error + jsval) \<times> 'w) \<Rightarrow> 'w ActionTool" where
  "actionTool n parse function =
     \<lparr> name = n,
       run = (\<lambda>args w. case parse args of
                          Inl e \<Rightarrow> (Inl e, w)
                        | Inr parsedArgs \<Rightarrow> function parsedArgs w) \<rparr>"

text \<open>\<open>getLocator\<close>: the locator of the element that carries the marker attribute.\<close>

definition getLocator :: "string \<Rightarrow> locator" where
  \<open>getLocator elementId = Locator (''[data-element-id="'' @ elementId @ ''"]'')\<close>

definition success :: jsval where
  "success = JObj [(''success'', JBool True)]"

subsection \<open>The execution bodies\<close>

fun locator_pressKey :: "'w env \<Rightarrow> LocatorPressKeyArgs \<Rightarrow> 'w \<Rightarrow> (error + jsval) \<times> 'w" where
  "locator_pressKey env (LocatorPressKeyArgs elementId key) =
     await (locatorCall env (getLocator elementId) (Press key)) (\<lambda>_. return success)"

fun page_pressKey :: "'w env \<Rightarrow> PagePressKeyArgs \<Rightarrow> 'w \<Rightarrow> (error + jsval) \<times> 'w" where
  "page_pressKey env (PagePressKeyArgs key) =
     await (pageCall env (KeyboardPress key)) (\<lambda>_. return success)"

text \<open>
  \<open>locateElement\<close>: one identifier is generated and stamped on the first match of the
  selector; the result is the object \<open>{elementId}\<close>.
\<close>

fun locateElement :: "'w env \<Rightarrow> LocateElementArgs \<Rightarrow> 'w \<Rightarrow> (error + jsval) \<times> 'w" where
  "locateElement env (LocateElementArgs cssSelector) w =
     (let locator = Locator cssSelector;
          (elementId, w1) = randomUUID env w
      in await (locatorCall env (First locator) (SetAttribute ''data-element-id'' elementId))
           (\<lambda>_. return (JObj [(''elementId'', JStr elementId)])) w1)"

fun locator_evaluate :: "'w env \<Rightarrow> LocatorEvaluateArgs \<Rightarrow> 'w \<Rightarrow> (error + jsval) \<times> 'w" where
  "locator_evaluate env (LocatorEvaluateArgs elementId pageFunction) =
     await (locatorCall env (getLocator elementId) (Evaluate pageFunction))
       (\<lambda>result. return (JObj [(''result'', result)]))"

fun locator_getAttribute ::
  "'w env \<Rightarrow> LocatorGetAttributeArgs \<Rightarrow> 'w \<Rightarrow> (error + jsval) \<times> 'w" where
  "locator_getAttribute env (LocatorGetAttributeArgs attributeName elementId) =
     await (locatorCall env (getLocator elementId) (GetAttribute attributeName))
       (\<lambda>attributeValue. return (JObj [(''attributeValue'', attributeValue)]))"

text \<open>
  The actions that take only an element identifier: a query returns the queried value
  under its own key, a command returns \<open>{success: true}\<close>.
\<close>

fun locatorQuery ::
  "'w env \<Rightarrow> locator_method \<Rightarrow> string \<Rightarrow> LocatorElementIdArgs \<Rightarrow> 'w \<Rightarrow> (error + jsval) \<times> 'w" where
  "locatorQuery env method key (LocatorElementIdArgs elementId) =
     await (locatorCall env (getLocator elementId) method) (\<lambda>v. return (JObj [(key, v)]))"

fun locatorCommand ::
  "'w env \<Rightarrow> locator_method \<Rightarrow> LocatorElementIdArgs \<Rightarrow> 'w \<Rightarrow> (error + jsval) \<times> 'w" where
  "locatorCommand env method (LocatorElementIdArgs elementId) =
     await (locatorCall env (getLocator elementId) method) (\<lambda>_. return success)"

definition locator_innerHTML :: "'w env \<Rightarrow> LocatorElementIdArgs \<Rightarrow> 'w \<Rightarrow> (error + jsval) \<times> 'w" where
  "locator_innerHTML env = locatorQuery env InnerHTML ''innerHTML''"

definition locator_innerText :: "'w env \<Rightarrow> LocatorElementIdArgs \<Rightarrow> 'w \<Rightarrow> (error + jsval) \<times> 'w" where
  "locator_innerText env = locatorQuery env InnerText ''innerText''"

definition locator_textContent :: "'w env \<Rightarrow> LocatorElementIdArgs \<Rightarrow> 'w \<Rightarrow> (error + jsval) \<times> 'w" where
  "locator_textContent env = locatorQuery env TextContent ''textContent''"

definition locator_inputValue :: "'w env \<Rightarrow> LocatorElementIdArgs \<Rightarrow> 'w \<Rightarrow> (error + jsval) \<times> 'w" where
  "locator_inputValue env = locatorQuery env InputValue ''inputValue''"

definition locator_blur :: "'w env \<Rightarrow> LocatorElementIdArgs \<Rightarrow> 'w \<Rightarrow> (error + jsval) \<times> 'w" where
  "locator_blur env = locatorCommand env Blur"

text \<open>\<open>locator_boundingBox\<close> returns the box itself (or \<open>null\<close>), not wrapped.\<close>

fun locator_boundingBox :: "'w env \<Rightarrow> LocatorElementIdArgs \<Rightarrow> 'w \<Rightarrow> (error + jsval) \<times> 'w" where
  "locator_boundingBox env (LocatorElementIdArgs elementId) =
     await (locatorCall env (getLocator elementId) BoundingBox) (\<lambda>boundingBox. return boundingBox)"

definition locator_check :: "'w env \<Rightarrow> LocatorElementIdArgs \<Rightarrow> 'w \<Rightarrow> (error + jsval) \<times> 'w" where
  "locator_check env = locatorCommand env Check"

definition locator_uncheck :: "'w env \<Rightarrow> LocatorElementIdArgs \<Rightarrow> 'w \<Rightarrow> (error + jsval) \<times> 'w" where
  "locator_uncheck env = locatorCommand env Uncheck"

definition locator_isChecked :: "'w env \<Rightarrow> LocatorElementIdArgs \<Rightarrow> 'w \<Rightarrow> (error + jsval) \<times> 'w" where
  "locator_isChecked env = locatorQuery env IsChecked ''isChecked''"

definition locator_isEditable :: "'w env \<Rightarrow> LocatorElementIdArgs \<Rightarrow> 'w \<Rightarrow> (error + jsval) \<times> 'w" where
  "locator_isEditable env = locatorQuery env IsEditable ''isEditable''"

definition locator_isEnabled :: "'w env \<Rightarrow> LocatorElementIdArgs \<Rightarrow> 'w \<Rightarrow> (error + jsval) \<times> 'w" where
  "locator_isEnabled env = locatorQuery env IsEnabled ''isEnabled''"

definition locator_isVisible :: "'w env \<Rightarrow> LocatorElementIdArgs \<Rightarrow> 'w \<Rightarrow> (error + jsval) \<times> 'w" where
  "locator_isVisible env = locatorQuery env IsVisible ''isVisible''"

definition locator_clear :: "'w env \<Rightarrow> LocatorElementIdArgs \<Rightarrow> 'w \<Rightarrow> (error + jsval) \<times> 'w" where
  "locator_clear env = locatorCommand env Clear"

definition locator_click :: "'w env \<Rightarrow> LocatorElementIdArgs \<Rightarrow> 'w \<Rightarrow> (error + jsval) \<times> 'w" where
  "locator_click env = locatorCommand env Click"

definition locator_count :: "'w env \<Rightarrow> LocatorElementIdArgs \<Rightarrow> 'w \<Rightarrow> (error + jsval) \<times> 'w" where
  "locator_count env = locatorQuery env Count ''elementCount''"

text \<open>The schema's fields are \<open>value\<close>, \<open>elementId\<close>.\<close>

fun locator_fill :: "'w env \<Rightarrow> LocatorFillArgs \<Rightarrow> 'w \<Rightarrow> (error + jsval) \<times> 'w" where
  "locator_fill env (LocatorFillArgs val elementId) =
     await (locatorCall env (getLocator elementId) (Fill val)) (\<lambda>_. return success)"

fun page_goto :: "'w env \<Rightarrow> PageGotoArgs \<Rightarrow> 'w \<Rightarrow> (error + jsval) \<times> 'w" where
  "page_goto env (PageGotoArgs url) =
     await (pageCall env (Goto url)) (\<lambda>responseUrl. return (JObj [(''url'', responseUrl)]))"

text \<open>
  \<open>locator_selectOption\<close>. The locator is chosen by the truthiness of \<open>elementId\<close>
  and then of \<open>cssSelector\<close> (an absent or empty string is falsy, which is what
  \<open>nonEmpty\<close> tests); the selection is chosen by the first of \<open>value\<close>,
  \<open>label\<close>, \<open>index\<close> that is not \<open>undefined\<close>.
\<close>

fun valueOption :: "string one_or_many \<Rightarrow> jsval" where
  "valueOption (One v) = JStr v"
| "valueOption (Many vs) = JArr (map JStr vs)"

fun labelOption :: "string one_or_many \<Rightarrow> jsval" where
  "labelOption (Many ls) = JArr (map (\<lambda>l. JObj [(''label'', JStr l)]) ls)"
| "labelOption (One l) = JObj [(''label'', JStr l)]"

fun indexOption :: "real one_or_many \<Rightarrow> jsval" where
  "indexOption (Many is) = JArr (map (\<lambda>i. JObj [(''index'', JNum i)]) is)"
| "indexOption (One i) = JObj [(''index'', JNum i)]"

text \<open>The second half of the body: the selection, on the locator already chosen.\<close>

definition selectOnLocator ::
  "'w env \<Rightarrow> locator \<Rightarrow> string one_or_many option \<Rightarrow> string one_or_many option \<Rightarrow>
   real one_or_many option \<Rightarrow> 'w \<Rightarrow> (error + jsval) \<times> 'w" where
  "selectOnLocator env locator val label index =
     (case val of
        Some v \<Rightarrow>
          await (locatorCall env locator (SelectOption (valueOption v))) (\<lambda>_. return success)
      | None \<Rightarrow>
          (case label of
             Some l \<Rightarrow>
               await (locatorCall env locator (SelectOption (labelOption l))) (\<lambda>_. return success)
           | None \<Rightarrow>
               (case index of
                  Some i \<Rightarrow>
                    await (locatorCall env locator (SelectOption (indexOption i)))
                      (\<lambda>_. return success)
                | None \<Rightarrow>
                    throw (Error
                      ''You must provide at least one of the parameters: value, label, or index.''))))"

fun locator_selectOption ::
  "'w env \<Rightarrow> LocatorSelectOptionArgs \<Rightarrow> 'w \<Rightarrow> (error + jsval) \<times> 'w" where
  "locator_selectOption env (LocatorSelectOptionArgs elementId cssSelector val label index) =
     (case nonEmpty elementId of
        Some e \<Rightarrow> selectOnLocator env (getLocator e) val label index
      | None \<Rightarrow>
          (case nonEmpty cssSelector of
             Some c \<Rightarrow> selectOnLocator env (Locator c) val label index
           | None \<Rightarrow> throw (Error ''You must provide either an elementId or a cssSelector.'')))"

fun expect_toBe :: "ExpectToBeArgs \<Rightarrow> 'w \<Rightarrow> (error + jsval) \<times> 'w" where
  "expect_toBe (ExpectToBeArgs actual expected) =
     return (JObj [(''actual'', JStr actual), (''expected'', JStr expected),
                   (''success'', JBool (actual = expected))])"

fun expect_notToBe :: "ExpectToBeArgs \<Rightarrow> 'w \<Rightarrow> (error + jsval) \<times> 'w" where
  "expect_notToBe (ExpectToBeArgs actual expected) =
     return (JObj [(''actual'', JStr actual), (''expected'', JStr expected),
                   (''success'', JBool (actual \<noteq> expected))])"

text \<open>The result-class actions return their validated arguments, or a fixed object.\<close>

fun resultAssertion :: "ResultAssertionArgs \<Rightarrow> 'w \<Rightarrow> (error + jsval) \<times> 'w" where
  "resultAssertion (ResultAssertionArgs assertion) = return (JObj [(''assertion'', JBool assertion)])"

fun resultQuery :: "ResultQueryArgs \<Rightarrow> 'w \<Rightarrow> (error + jsval) \<times> 'w" where
  "resultQuery (ResultQueryArgs query) = return (JObj [(''query'', JStr query)])"

fun resultAction :: "EmptyArgs \<Rightarrow> 'w \<Rightarrow> (error + jsval) \<times> 'w" where
  "resultAction EmptyArgs = return success"

fun resultError :: "ResultErrorArgs \<Rightarrow> 'w \<Rightarrow> (error + jsval) \<times> 'w" where
  "resultError (ResultErrorArgs errorMessage) = return (JObj [(''errorMessage'', JStr errorMessage)])"

text \<open>
  \<open>getVisibleStructure\<close>: the sanitizer options are read, the page function runs in
  the page with \<open>allowedTags\<close> (or the empty list), \<open>allowedAttributes\<close> and the
  maximal depth 30, and its result, the tree or \<open>null\<close>, is returned as
  \<open>structure\<close>. An error thrown in the page rejects the call.
\<close>

definition maxDepth :: nat where
  "maxDepth = 30"

fun getVisibleStructure :: "'w env \<Rightarrow> EmptyArgs \<Rightarrow> 'w \<Rightarrow> (error + jsval) \<times> 'w" where
  "getVisibleStructure env EmptyArgs =
     (let sanitizeOptions = getSanitizeOptions env;
          aT = allowedTagsOf sanitizeOptions;
          aA = allowedAttributes sanitizeOptions
      in await (pageEvaluate env)
           (\<lambda>pg. case extractBody pg aT aA maxDepth of
                    Inl e \<Rightarrow> throw (evaluateError env e)
                  | Inr structure \<Rightarrow>
                      return (JObj [(''structure'',
                                (case structure of
                                   None \<Rightarrow> JNull
                                 | Some node \<Rightarrow> serializeNode pg node))])))"

text \<open>
  The loop of \<open>locateElementsByRole\<close>: for every locator, one identifier is generated,
  stamped on the element and pushed on \<open>elementIds\<close>.
\<close>

fun assignAll ::
  "'w env \<Rightarrow> locator list \<Rightarrow> string list \<Rightarrow> 'w \<Rightarrow> (error + string list) \<times> 'w" where
  "assignAll env [] elementIds w = (Inr elementIds, w)"
| "assignAll env (locator # locators) elementIds w =
     (let (elementId, w1) = randomUUID env w
      in await (locatorCall env locator (SetAttribute ''data-element-id'' elementId))
           (\<lambda>_. assignAll env locators (elementIds @ [elementId])) w1)"

text \<open>The loop of \<open>locateElementsWithText\<close>: the same for the locators that are visible.\<close>

fun assignVisible ::
  "'w env \<Rightarrow> locator list \<Rightarrow> string list \<Rightarrow> 'w \<Rightarrow> (error + string list) \<times> 'w" where
  "assignVisible env [] elementIds w = (Inr elementIds, w)"
| "assignVisible env (locator # allLocators) elementIds w =
     await (locatorCall env locator IsVisible)
       (\<lambda>visible w0.
          if truthy visible
          then (let (elementId, w1) = randomUUID env w0
                in await (locatorCall env locator (SetAttribute ''data-element-id'' elementId))
                     (\<lambda>_. assignVisible env allLocators (elementIds @ [elementId])) w1)
          else assignVisible env allLocators elementIds w0) w"

definition locatedElements :: "string list \<Rightarrow> jsval" where
  "locatedElements elementIds =
     JObj [(''elementIds'', JArr (map JStr elementIds)), (''count'', JNum (real (length elementIds)))]"

fun orFalse :: "bool option \<Rightarrow> bool" where
  "orFalse None = False"
| "orFalse (Some b) = b"

fun locateElementsByRole ::
  "'w env \<Rightarrow> LocateElementsByRoleArgs \<Rightarrow> 'w \<Rightarrow> (error + jsval) \<times> 'w" where
  "locateElementsByRole env (LocateElementsByRoleArgs role exact) =
     await (locatorAll env (GetByRole role (orFalse exact)))
       (\<lambda>locators. await (assignAll env locators [])
          (\<lambda>elementIds. return (locatedElements elementIds)))"

fun locateElementsWithText ::
  "'w env \<Rightarrow> LocateElementsWithTextArgs \<Rightarrow> 'w \<Rightarrow> (error + jsval) \<times> 'w" where
  "locateElementsWithText env (LocateElementsWithTextArgs text exact) =
     await (locatorAll env (GetByText text (orFalse exact)))
       (\<lambda>allLocators. await (assignVisible env allLocators [])
          (\<lambda>elementIds. return (locatedElements elementIds)))"

subsection \<open>The registry\<close>

text \<open>
  \<open>createActions(page)\<close>: the object literal, as the list of its own properties in the
  order they are written.
\<close>

definition createActions :: "'w env \<Rightarrow> (string \<times> 'w ActionTool) list" where
  "createActions env =
   [(''locator_pressKey'',
       actionTool ''locator_pressKey'' (parseWith env locatorPressKeySchema) (locator_pressKey env)),
    (''page_pressKey'',
       actionTool ''page_pressKey'' (parseWith env pagePressKeySchema) (page_pressKey env)),
    (''locateElement'',
       actionTool ''locateElement'' (parseWith env locateElementSchema) (locateElement env)),
    (''locator_evaluate'',
       actionTool ''locator_evaluate'' (parseWith env locatorEvaluateSchema) (locator_evaluate env)),
    (''locator_getAttribute'',
       actionTool ''locator_getAttribute'' (parseWith env locatorGetAttributeSchema)
         (locator_getAttribute env)),
    (''locator_innerHTML'',
       actionTool ''locator_innerHTML'' (parseWith env locatorElementIdSchema) (locator_innerHTML env)),
    (''locator_innerText'',
       actionTool ''locator_innerText'' (parseWith env locatorElementIdSchema) (locator_innerText env)),
    (''locator_textContent'',
       actionTool ''locator_textContent'' (parseWith env locatorElementIdSchema)
         (locator_textContent env)),
    (''locator_inputValue'',
       actionTool ''locator_inputValue'' (parseWith env locatorElementIdSchema)
         (locator_inputValue env)),
    (''locator_blur'',
       actionTool ''locator_blur'' (parseWith env locatorElementIdSchema) (locator_blur env)),
    (''locator_boundingBox'',
       actionTool ''locator_boundingBox'' (parseWith env locatorElementIdSchema)
         (locator_boundingBox env)),
    (''locator_check'',
       actionTool ''locator_check'' (parseWith env locatorElementIdSchema) (locator_check env)),
    (''locator_uncheck'',
       actionTool ''locator_uncheck'' (parseWith env locatorElementIdSchema) (locator_uncheck env)),
    (''locator_isChecked'',
       actionTool ''locator_isChecked'' (parseWith env locatorElementIdSchema) (locator_isChecked env)),
    (''locator_isEditable'',
       actionTool ''locator_isEditable'' (parseWith env locatorElementIdSchema)
         (locator_isEditable env)),
    (''locator_isEnabled'',
       actionTool ''locator_isEnabled'' (parseWith env locatorElementIdSchema) (locator_isEnabled env)),
    (''locator_isVisible'',
       actionTool ''locator_isVisible'' (parseWith env locatorElementIdSchema) (locator_isVisible env)),
    (''locator_clear'',
       actionTool ''locator_clear'' (parseWith env locatorElementIdSchema) (locator_clear env)),
    (''locator_click'',
       actionTool ''locator_click'' (parseWith env locatorElementIdSchema) (locator_click env)),
    (''locator_count'',
       actionTool ''locator_count'' (parseWith env locatorElementIdSchema) (locator_count env)),
    (''locator_fill'',
       actionTool ''locator_fill'' (parseWith env locatorFillSchema) (locator_fill env)),
    (''page_goto'',
       actionTool ''page_goto'' (parseWith env pageGotoSchema) (page_goto env)),
    (''locator_selectOption'',
       actionTool ''locator_selectOption'' (parseWith env locatorSelectOptionSchema)
         (locator_selectOption env)),
    (''expect_toBe'',
       actionTool ''expect_toBe'' (parseWith env expectToBeSchema) expect_toBe),
    (''expect_notToBe'',
       actionTool ''expect_notToBe'' (parseWith env expectToBeSchema) expect_notToBe),
    (''resultAssertion'',
       actionTool ''resultAssertion'' (parseWith env resultAssertionSchema) resultAssertion),
    (''resultQuery'',
       actionTool ''resultQuery'' (parseWith env resultQuerySchema) resultQuery),
    (''resultAction'',
       actionTool ''resultAction'' (parseWith env emptyObjectSchema) resultAction),
    (''resultError'',
       actionTool ''resultError'' (parseWith env resultErrorSchema) resultError),
    (''getVisibleStructure'',
       actionTool ''getVisibleStructure'' (parseWith env emptyObjectSchema) (getVisibleStructure env)),
    (''locateElementsByRole'',
       actionTool ''locateElementsByRole'' (parseWith env locateElementsByRoleSchema)
         (locateElementsByRole env)),
    (''locateElementsWithText'',
       actionTool ''locateElementsWithText'' (parseWith env locateElementsWithTextSchema)
         (locateElementsWithText env))]"

section \<open>The task orchestrator\<close>

text \<open>
  \<open>actions[name]\<close> on the object \<open>createActions\<close> returns: an own property is a
  registered action; a name that the object inherits from \<open>Object.prototype\<close> reads
  as a truthy value that is no action; any other name reads as \<open>undefined\<close>.
\<close>

definition objectPrototypeKeys :: "string list" where
  "objectPrototypeKeys =
     [''constructor'', ''__defineGetter__'', ''__defineSetter__'', ''hasOwnProperty'',
      ''__lookupGetter__'', ''__lookupSetter__'', ''isPrototypeOf'', ''propertyIsEnumerable'',
      ''toString'', ''valueOf'', ''__proto__'', ''toLocaleString'']"

datatype 'w property_value = Own "'w ActionTool" | Inherited | Undefined

definition getProperty :: "(string \<times> 'w ActionTool) list \<Rightarrow> string \<Rightarrow> 'w property_value" where
  "getProperty actions key =
     (case map_of actions key of
        Some action \<Rightarrow> Own action
      | None \<Rightarrow> if key \<in> set objectPrototypeKeys then Inherited else Undefined)"

text \<open>
  The state of \<open>completeTask\<close>: the world, the conversation \<open>messages\<close>, the slot
  \<open>lastFunctionResult\<close> (initially \<open>null\<close>) and the \<open>toolCallResults\<close> of the turn
  being processed. \<open>dispatched\<close> is a history variable that the code does not have: it
  records, for every function call that reached an action, the name and the outcome; no
  other field depends on it.
\<close>

record 'w task_state =
  world :: 'w
  messages :: "message_param list"
  lastFunctionResult :: jsval
  toolCallResults :: "message_param list"
  dispatched :: "(string \<times> (error + jsval)) list"

record task_message =
  task_prompt :: string
  task_model :: "string option"

text \<open>
  \<open>task_prompt\<close> is the rendered \<open>prompt(task)\<close>, \<open>task_model\<close> is
  \<open>task.options?.model\<close>.
\<close>

definition modelOf :: "task_message \<Rightarrow> string" where
  "modelOf task = (case task_model task of Some m \<Rightarrow> m | None \<Rightarrow> ''gpt-4o'')"

definition errorResult :: "'w env \<Rightarrow> string \<Rightarrow> string \<Rightarrow> message_param" where
  "errorResult env tool_call_id msg =
     ToolMessage tool_call_id (JSON_stringify env (JObj [(''error'', JStr msg)]))"

text \<open>
  The body of the \<open>for\<close> loop over the tool calls of one turn. \<open>Inl\<close> is the error
  thrown out of \<open>completeTask\<close>. Calling \<open>parse\<close> on an inherited value is the
  \<open>TypeError\<close> that the \<open>try\<close> block catches.
\<close>

fun processToolCall ::
  "'w env \<Rightarrow> (string \<times> 'w ActionTool) list \<Rightarrow> 'w task_state \<Rightarrow> tool_call \<Rightarrow>
   error + 'w task_state" where
  "processToolCall env actions st (OtherToolCall _ _) = Inr st"
| "processToolCall env actions st (FunctionToolCall tid fname arguments) =
     (case getProperty actions fname of
        Undefined \<Rightarrow> Inl (Error (''Unknown function: '' @ fname))
      | Inherited \<Rightarrow>
          Inr (st\<lparr>toolCallResults := toolCallResults st @
                     [errorResult env tid ''action.parse is not a function'']\<rparr>)
      | Own action \<Rightarrow>
          (case run action arguments (world st) of
             (Inr result, w) \<Rightarrow>
               Inr (st\<lparr>world := w,
                       lastFunctionResult :=
                         (if startsWith fname ''result'' then result else lastFunctionResult st),
                       toolCallResults := toolCallResults st @
                         [ToolMessage tid (JSON_stringify env result)],
                       dispatched := dispatched st @ [(fname, Inr result)]\<rparr>)
           | (Inl e, w) \<Rightarrow>
               Inr (st\<lparr>world := w,
                       toolCallResults := toolCallResults st @ [errorResult env tid (message e)],
                       dispatched := dispatched st @ [(fname, Inl e)]\<rparr>)))"

fun processToolCalls ::
  "'w env \<Rightarrow> (string \<times> 'w ActionTool) list \<Rightarrow> 'w task_state \<Rightarrow> tool_call list \<Rightarrow>
   error + 'w task_state" where
  "processToolCalls env actions st [] = Inr st"
| "processToolCalls env actions st (toolCall # rest) =
     (case processToolCall env actions st toolCall of
        Inl e \<Rightarrow> Inl e
      | Inr st' \<Rightarrow> processToolCalls env actions st' rest)"

text \<open>
  The condition of the \<open>while\<close> loop: the message and its tool calls, when it has
  any.
\<close>

fun requestedToolCalls ::
  "assistant_message option \<Rightarrow> (assistant_message \<times> tool_call list) option" where
  "requestedToolCalls None = None"
| "requestedToolCalls (Some (AssistantMessage c None)) = None"
| "requestedToolCalls (Some (AssistantMessage c (Some tcs))) =
     (if tcs = [] then None else Some (AssistantMessage c (Some tcs), tcs))"

text \<open>
  The tools offered to the model: one per registered action, by its \<open>name\<close>
  (\<open>Object.values(actions).map(...)\<close>).
\<close>

definition toolsOf :: "(string \<times> 'w ActionTool) list \<Rightarrow> string list" where
  "toolsOf actions = map (\<lambda>(key, action). name action) actions"

text \<open>
  One pass through the body of the \<open>while\<close> loop: the assistant message is appended,
  its tool calls are processed, their results are appended, and the next response is
  requested with the conversation as it then stands.
\<close>

definition turn ::
  "'w env \<Rightarrow> (string \<times> 'w ActionTool) list \<Rightarrow> task_message \<Rightarrow> 'w task_state \<Rightarrow>
   assistant_message \<Rightarrow> tool_call list \<Rightarrow> error + 'w task_state \<times> assistant_message option" where
  "turn env actions task st msg tcs =
     (case processToolCalls env actions
             (st\<lparr>messages := messages st @ [AssistantParam msg], toolCallResults := []\<rparr>) tcs of
        Inl e \<Rightarrow> Inl e
      | Inr st1 \<Rightarrow>
          (let st2 = st1\<lparr>messages := messages st1 @ toolCallResults st1\<rparr>
           in case chatCompletionsCreate env
                   \<lparr>req_model = modelOf task, req_messages = messages st2,
                    req_tools = toolsOf actions, req_tool_choice = None\<rparr> (world st2) of
                (Inl e, w) \<Rightarrow> Inl e
              | (Inr reply, w) \<Rightarrow> Inr (st2\<lparr>world := w\<rparr>, reply)))"

text \<open>
  The \<open>while\<close> loop. It has no bound of its own; \<open>fuel\<close> bounds the number of
  passes, and \<open>None\<close> means that the fuel ran out before the model stopped requesting
  tools. On exit the state and the final message are returned.
\<close>

fun whileToolCalls ::
  "nat \<Rightarrow> 'w env \<Rightarrow> (string \<times> 'w ActionTool) list \<Rightarrow> task_message \<Rightarrow> 'w task_state \<Rightarrow>
   assistant_message option \<Rightarrow> (error + 'w task_state \<times> assistant_message option) option" where
  "whileToolCalls fuel env actions task st reply =
     (case requestedToolCalls reply of
        None \<Rightarrow> Some (Inr (st, reply))
      | Some (msg, tcs) \<Rightarrow>
          (case fuel of
             0 \<Rightarrow> None
           | Suc fuel' \<Rightarrow>
               (case turn env actions task st msg tcs of
                  Inl e \<Rightarrow> Some (Inl e)
                | Inr (st', reply') \<Rightarrow> whileToolCalls fuel' env actions task st' reply')))"

text \<open>
  \<open>completeTask\<close> up to the end of the loop: the initial conversation, the first
  request (with \<open>tool_choice: "auto"\<close>) and the loop. The debug output has no effect
  on the result and is left out.
\<close>

definition initialState :: "'w env \<Rightarrow> task_message \<Rightarrow> 'w \<Rightarrow> 'w task_state" where
  "initialState env task w =
     \<lparr> world = w,
       messages = [SystemMessage (SYSTEM_PROMPT env), UserMessage (task_prompt task)],
       lastFunctionResult = JNull,
       toolCallResults = [],
       dispatched = [] \<rparr>"

definition runTask ::
  "nat \<Rightarrow> 'w env \<Rightarrow> task_message \<Rightarrow> 'w \<Rightarrow>
   (error + 'w task_state \<times> assistant_message option) option" where
  "runTask fuel env task w =
     (let actions = createActions env;
          tools = toolsOf actions;
          st = initialState env task w
      in case chatCompletionsCreate env
              \<lparr>req_model = modelOf task, req_messages = messages st, req_tools = tools,
               req_tool_choice = Some ''auto''\<rparr> w of
           (Inl e, w1) \<Rightarrow> Some (Inl e)
         | (Inr reply, w1) \<Rightarrow>
             whileToolCalls fuel env actions task (st\<lparr>world := w1\<rparr>) reply)"

text \<open>\<open>completeTask\<close>: after the loop, the slot is returned unless it is falsy.\<close>

definition completeTask ::
  "nat \<Rightarrow> 'w env \<Rightarrow> task_message \<Rightarrow> 'w \<Rightarrow> (error + jsval) option" where
  "completeTask fuel env task w =
     (case runTask fuel env task w of
        None \<Rightarrow> None
      | Some (Inl e) \<Rightarrow> Some (Inl e)
      | Some (Inr (st, reply)) \<Rightarrow>
          (if \<not> truthy (lastFunctionResult st)
           then Some (Inl (Error ''Expected to have a result from one of the result functions''))
           else Some (Inr (lastFunctionResult st))))"

section \<open>Vocabulary for the properties\<close>

subsection \<open>A log of the calls made on the collaborators\<close>

text \<open>
  \<open>logged env\<close> behaves as \<open>env\<close> and appends every call of the random source, of
  the driver and of the model to a log kept beside the world. With it a property can say
  which calls an action made, in which order and with which arguments.
\<close>

datatype event =
    UUIDGenerated string
  | LocatorCalled locator locator_method "error + jsval"
  | AllCalled locator
  | PageCalled page_method
  | PageEvaluated
  | ModelRequested request

definition logged :: "'w env \<Rightarrow> ('w \<times> event list) env" where
  "logged env =
     \<lparr> JSON_parse = JSON_parse env,
       JSON_stringify = JSON_stringify env,
       zodMessage = zodMessage env,
       randomUUID = (\<lambda>(w, evs). case randomUUID env w of
                        (u, w') \<Rightarrow> (u, (w', evs @ [UUIDGenerated u]))),
       getSanitizeOptions = getSanitizeOptions env,
       SYSTEM_PROMPT = SYSTEM_PROMPT env,
       locatorCall = (\<lambda>l m (w, evs). case locatorCall env l m w of
                         (r, w') \<Rightarrow> (r, (w', evs @ [LocatorCalled l m r]))),
       locatorAll = (\<lambda>l (w, evs). case locatorAll env l w of
                        (r, w') \<Rightarrow> (r, (w', evs @ [AllCalled l]))),
       pageCall = (\<lambda>m (w, evs). case pageCall env m w of
                      (r, w') \<Rightarrow> (r, (w', evs @ [PageCalled m]))),
       pageEvaluate = (\<lambda>(w, evs). case pageEvaluate env w of
                          (r, w') \<Rightarrow> (r, (w', evs @ [PageEvaluated]))),
       evaluateError = evaluateError env,
       chatCompletionsCreate = (\<lambda>req (w, evs). case chatCompletionsCreate env req w of
                                   (r, w') \<Rightarrow> (r, (w', evs @ [ModelRequested req]))) \<rparr>"

text \<open>
  Read off a log: the identifiers generated, the pairs of a locator and the identifier
  stamped on it by a successful \<open>setAttribute("data-element-id", id)\<close>, the locators
  asked for their visibility, and those of them that answered with a truthy value.
\<close>

fun generatedOf :: "event \<Rightarrow> string option" where
  "generatedOf (UUIDGenerated u) = Some u"
| "generatedOf _ = None"

fun stampedOf :: "event \<Rightarrow> (locator \<times> string) option" where
  "stampedOf (LocatorCalled l (SetAttribute k v) (Inr _)) =
     (if k = ''data-element-id'' then Some (l, v) else None)"
| "stampedOf _ = None"

fun visibilityAskedOf :: "event \<Rightarrow> locator option" where
  "visibilityAskedOf (LocatorCalled l IsVisible _) = Some l"
| "visibilityAskedOf _ = None"

fun seenVisibleOf :: "event \<Rightarrow> locator option" where
  "seenVisibleOf (LocatorCalled l IsVisible (Inr v)) = (if truthy v then Some l else None)"
| "seenVisibleOf _ = None"

definition generated :: "event list \<Rightarrow> string list" where
  "generated evs = List.map_filter generatedOf evs"

definition stamped :: "event list \<Rightarrow> (locator \<times> string) list" where
  "stamped evs = List.map_filter stampedOf evs"

definition visibilityAsked :: "event list \<Rightarrow> locator list" where
  "visibilityAsked evs = List.map_filter visibilityAskedOf evs"

definition seenVisible :: "event list \<Rightarrow> locator list" where
  "seenVisible evs = List.map_filter seenVisibleOf evs"

fun selectOptionCallOf :: "event \<Rightarrow> (locator \<times> jsval) option" where
  "selectOptionCallOf (LocatorCalled l (SelectOption v) _) = Some (l, v)"
| "selectOptionCallOf _ = None"

definition selectOptionCalls :: "event list \<Rightarrow> (locator \<times> jsval) list" where
  "selectOptionCalls evs = List.map_filter selectOptionCallOf evs"

subsection \<open>The terminal result, in the words of the specification\<close>

text \<open>
  The values produced by the successful calls of result-class actions (the actions whose
  name starts with \<open>result\<close>), in the order of the calls; the terminal result is the
  most recent of them.
\<close>

fun terminalValueOf :: "string \<times> (error + jsval) \<Rightarrow> jsval option" where
  "terminalValueOf (fname, Inr v) = (if startsWith fname ''result'' then Some v else None)"
| "terminalValueOf (fname, Inl e) = None"

definition terminalValues :: "(string \<times> (error + jsval)) list \<Rightarrow> jsval list" where
  "terminalValues history = List.map_filter terminalValueOf history"

definition lastTerminalResult :: "(string \<times> (error + jsval)) list \<Rightarrow> jsval option" where
  "lastTerminalResult history =
     (if terminalValues history = [] then None else Some (last (terminalValues history)))"

fun toolMessageId :: "message_param \<Rightarrow> string option" where
  "toolMessageId (ToolMessage i c) = Some i"
| "toolMessageId _ = None"

subsection \<open>The argument schema of select-option, in the words of the code's messages\<close>

fun optionalString :: "jsval \<Rightarrow> bool" where
  "optionalString JUndefined = True"
| "optionalString (JStr _) = True"
| "optionalString _ = False"

fun optionalStrings :: "jsval \<Rightarrow> bool" where
  "optionalStrings JUndefined = True"
| "optionalStrings (JStr _) = True"
| "optionalStrings (JArr xs) = list_all (\<lambda>x. asString x \<noteq> None) xs"
| "optionalStrings _ = False"

fun optionalNumbers :: "jsval \<Rightarrow> bool" where
  "optionalNumbers JUndefined = True"
| "optionalNumbers (JNum _) = True"
| "optionalNumbers (JArr xs) = list_all (\<lambda>x. asNumber x \<noteq> None) xs"
| "optionalNumbers _ = False"

definition supplied :: "jsval \<Rightarrow> string \<Rightarrow> bool" where
  "supplied data k = (property data k \<noteq> JUndefined)"

definition accepts :: "(jsval \<Rightarrow> zod_issue list + 'a) \<Rightarrow> jsval \<Rightarrow> bool" where
  "accepts schema data = (case schema data of Inl _ \<Rightarrow> False | Inr _ \<Rightarrow> True)"

subsection \<open>The precedence of select-option, in the words of the specification\<close>

text \<open>
  The locator the claim expects: the marker locator of a non-empty \<open>elementId\<close>,
  and otherwise the locator of a non-empty \<open>cssSelector\<close>. The selection it expects:
  \<open>value\<close> before \<open>label\<close> before \<open>index\<close>. \<open>afterCall\<close> is the result of the
  action after its one driver call: the call's error, or \<open>{success: true}\<close>.
\<close>

definition chosenLocator :: "string option \<Rightarrow> string option \<Rightarrow> locator option" where
  "chosenLocator elementId cssSelector =
     (case nonEmpty elementId of
        Some e \<Rightarrow> Some (getLocator e)
      | None \<Rightarrow> map_option Locator (nonEmpty cssSelector))"

definition chosenSelection ::
  "string one_or_many option \<Rightarrow> string one_or_many option \<Rightarrow> real one_or_many option \<Rightarrow>
   jsval option" where
  "chosenSelection val label index =
     (case val of
        Some v \<Rightarrow> Some (valueOption v)
      | None \<Rightarrow> (case label of Some l \<Rightarrow> Some (labelOption l) | None \<Rightarrow> map_option indexOption index))"

definition afterCall :: "error + jsval \<Rightarrow> error + jsval" where
  "afterCall r = (case r of Inl e \<Rightarrow> Inl e | Inr _ \<Rightarrow> Inr success)"

subsection \<open>The invariant of the result slot\<close>

text \<open>
  \<open>resultsTruthy\<close>: every value a result-class action of the registry returns is
  truthy. \<open>slotInvariant\<close>: the slot holds the most recent terminal value of the
  history, or \<open>null\<close> when there is none, and all terminal values are truthy.
\<close>

definition resultsTruthy :: "(string \<times> 'w ActionTool) list \<Rightarrow> bool" where
  "resultsTruthy actions =
     (\<forall>fname action args w v w'.
        map_of actions fname = Some action \<and> startsWith fname ''result'' \<and>
        run action args w = (Inr v, w') \<longrightarrow> truthy v)"

definition slotInvariant :: "'w task_state \<Rightarrow> bool" where
  "slotInvariant st =
     (lastFunctionResult st =
        (case lastTerminalResult (dispatched st) of None \<Rightarrow> JNull | Some v \<Rightarrow> v) \<and>
      list_all truthy (terminalValues (dispatched st)))"

subsection \<open>An example environment\<close>

text \<open>
  A small world for concrete runs. The world is a counter that numbers the generated
  identifiers. Every driver call succeeds; \<open>locator.all()\<close> finds three matches, or
  none for the role or the text \<open>none\<close>; of the matches the first and the third are visible. The
  argument texts the example model sends are parsed by a table, and values are
  serialised by a stand-in that keeps strings, booleans and the structure.
\<close>

definition noArgumentsText :: string where
  "noArgumentsText = ''{}''"

definition queryText :: string where
  \<open>queryText = ''{"query":"first"}''\<close>

definition assertionText :: string where
  \<open>assertionText = ''{"assertion":true}''\<close>

definition badClickText :: string where
  \<open>badClickText = ''{"elementId":7}''\<close>

definition goodClickText :: string where
  \<open>goodClickText = ''{"elementId":"x"}''\<close>

definition valueOnlyText :: string where
  \<open>valueOnlyText = ''{"value":"v"}''\<close>

definition noLocatorInput :: jsval where
  "noLocatorInput = JObj [(''value'', JStr ''v'')]"

definition bothLocatorsInput :: jsval where
  "bothLocatorsInput =
     JObj [(''elementId'', JStr ''a''), (''cssSelector'', JStr ''#s''),
           (''value'', JStr ''v''), (''label'', JStr ''l'')]"

definition emptyElementIdInput :: jsval where
  "emptyElementIdInput =
     JObj [(''elementId'', JStr []), (''cssSelector'', JStr ''#s''), (''value'', JStr ''v'')]"

definition exampleJSON :: "(string \<times> jsval) list" where
  "exampleJSON =
     [(noArgumentsText, JObj []),
      (queryText, JObj [(''query'', JStr ''first'')]),
      (assertionText, JObj [(''assertion'', JBool True)]),
      (badClickText, JObj [(''elementId'', JNum 7)]),
      (goodClickText, JObj [(''elementId'', JStr ''x'')]),
      (valueOnlyText, noLocatorInput)]"

fun renderJs :: "jsval \<Rightarrow> string" where
  "renderJs JUndefined = ''undefined''"
| "renderJs JNull = ''null''"
| "renderJs (JBool b) = (if b then ''true'' else ''false'')"
| "renderJs (JNum n) = ''#''"
| "renderJs (JStr s) = s"
| "renderJs (JArr xs) = ''['' @ concat (map (\<lambda>x. renderJs x @ '','') xs) @ '']''"
| "renderJs (JObj ps) = ''{'' @ concat (map (\<lambda>(k, v). k @ '':'' @ renderJs v @ '','') ps) @ ''}''"

fun exampleVisible :: "locator \<Rightarrow> bool" where
  "exampleVisible (Nth l n) = even n"
| "exampleVisible _ = True"

fun exampleLocatorCall :: "locator \<Rightarrow> locator_method \<Rightarrow> jsval" where
  "exampleLocatorCall l IsVisible = JBool (exampleVisible l)"
| "exampleLocatorCall l _ = JUndefined"

fun exampleAll :: "locator \<Rightarrow> locator list" where
  "exampleAll (GetByRole r e) = (if r = ''none'' then [] else map (Nth (GetByRole r e)) [0, 1, 2])"
| "exampleAll (GetByText t e) = (if t = ''none'' then [] else map (Nth (GetByText t e)) [0, 1, 2])"
| "exampleAll l = map (Nth l) [0, 1, 2]"

text \<open>
  Example pages. A document is a table of nodes by number: an element with its tag
  name, its computed style, its attributes, the numbers of its child nodes and its text
  content; a text node; a comment. In the page built from it, node \<open>n\<close> is the object
  \<open>10 * n\<close>, its \<open>children\<close>, \<open>childNodes\<close> and \<open>attributes\<close> are the three
  objects after it, and its attributes the objects after those. Every read answers as
  the DOM does for an element that is neither a form nor an SVG element: \<open>children\<close>
  holds the child nodes that are elements, \<open>id\<close> and \<open>className\<close> reflect the
  attributes \<open>id\<close> and \<open>class\<close>, \<open>getAttribute\<close> is the only method.
\<close>

datatype sample_node =
    SampleElement string computed_style "(string \<times> string) list" "nat list" string
  | SampleText string
  | SampleComment string
  | NoNode

definition docOf :: "sample_node list \<Rightarrow> nat \<Rightarrow> sample_node" where
  "docOf ns n = (if n < length ns then ns ! n else NoNode)"

fun isSampleElement :: "sample_node \<Rightarrow> bool" where
  "isSampleElement (SampleElement _ _ _ _ _) = True"
| "isSampleElement _ = False"

definition notAnElement :: error where
  "notAnElement = Error ''parameter 1 is not of type Element''"

definition attributeText :: "(string \<times> string) list \<Rightarrow> string \<Rightarrow> string" where
  "attributeText as k = (case map_of as k of Some v \<Rightarrow> v | None \<Rightarrow> [])"

definition sampleProp :: "(nat \<Rightarrow> sample_node) \<Rightarrow> nat \<Rightarrow> string \<Rightarrow> pval" where
  "sampleProp doc h k =
     (case doc (h div 10) of
        SampleElement tn st as cs txt \<Rightarrow>
          if h mod 10 = 0 then
            (if k = ''tagName'' then PStr tn
             else if k = ''attributes'' then PObj (h + 3)
             else if k = ''id'' then PStr (attributeText as ''id'')
             else if k = ''className'' then PStr (attributeText as ''class'')
             else if k = ''childNodes'' then PObj (h + 2)
             else if k = ''textContent'' then PStr txt
             else if k = ''children'' then PObj (h + 1)
             else if k = ''nodeType'' then PNum 1
             else PUndefined)
          else if k = ''length'' then
            (if h mod 10 = 1 then PNum (real (length (filter (\<lambda>c. isSampleElement (doc c)) cs)))
             else if h mod 10 = 2 then PNum (real (length cs))
             else if h mod 10 = 3 then PNum (real (length as))
             else PUndefined)
          else if 4 \<le> h mod 10 \<and> h mod 10 - 4 < length as then
            (if k = ''name'' then PStr (fst (as ! (h mod 10 - 4)))
             else if k = ''value'' then PStr (snd (as ! (h mod 10 - 4)))
             else if k = ''nodeType'' then PNum 2
             else PUndefined)
          else PUndefined
      | SampleText s \<Rightarrow>
          if h mod 10 = 0 then
            (if k = ''nodeType'' then PNum 3
             else if k = ''textContent'' then PStr s
             else PUndefined)
          else PUndefined
      | SampleComment s \<Rightarrow>
          if h mod 10 = 0 then
            (if k = ''nodeType'' then PNum 8
             else if k = ''textContent'' then PStr s
             else PUndefined)
          else PUndefined
      | NoNode \<Rightarrow> PUndefined)"

definition itemOf :: "nat list \<Rightarrow> nat \<Rightarrow> pval" where
  "itemOf ns i = (if i < length ns then PObj (10 * (ns ! i)) else PUndefined)"

definition sampleItem :: "(nat \<Rightarrow> sample_node) \<Rightarrow> nat \<Rightarrow> nat \<Rightarrow> pval" where
  "sampleItem doc h i =
     (case doc (h div 10) of
        SampleElement tn st as cs txt \<Rightarrow>
          if h mod 10 = 1 then itemOf (filter (\<lambda>c. isSampleElement (doc c)) cs) i
          else if h mod 10 = 2 then itemOf cs i
          else if h mod 10 = 3 then (if i < length as then PObj (h + 1 + i) else PUndefined)
          else PUndefined
      | _ \<Rightarrow> PUndefined)"

definition sampleStyle :: "(nat \<Rightarrow> sample_node) \<Rightarrow> nat \<Rightarrow> error + computed_style" where
  "sampleStyle doc h =
     (case doc (h div 10) of
        SampleElement tn st as cs txt \<Rightarrow> if h mod 10 = 0 then Inr st else Inl notAnElement
      | _ \<Rightarrow> Inl notAnElement)"

definition sampleMethod ::
  "(nat \<Rightarrow> sample_node) \<Rightarrow> nat \<Rightarrow> string \<Rightarrow> pval list \<Rightarrow> error + pval" where
  "sampleMethod doc h m args =
     (case doc (h div 10) of
        SampleElement tn st as cs txt \<Rightarrow>
          (case args of
             [PStr a] \<Rightarrow>
               if h mod 10 = 0 \<and> m = ''getAttribute''
               then Inr (case map_of as a of Some v \<Rightarrow> PStr v | None \<Rightarrow> PNull)
               else Inl (notAFunction m)
           | _ \<Rightarrow> Inl (notAFunction m))
      | _ \<Rightarrow> Inl (notAFunction m))"

definition samplePage :: "(nat \<Rightarrow> sample_node) \<Rightarrow> page" where
  "samplePage doc =
     \<lparr> documentBody = PObj 0,
       computedStyleOf = sampleStyle doc,
       getProp = sampleProp doc,
       getItem = sampleItem doc,
       callMethod = sampleMethod doc,
       callStringMethod =
         (\<lambda>h m. if m = ''toString'' then Inr ''[object Object]'' else Inl (notAFunction m)),
       numberToString = (\<lambda>n. ''#''),
       toNumberOf = (\<lambda>v. None),
       inheritedAssign = (\<lambda>h k v. CreatesProperty),
       serializeObject = (\<lambda>h. JStr ''ref: <Node>''),
       serializeExotic = (\<lambda>p ps. JObj ps) \<rparr>"

text \<open>
  A form answers a property read with the form control of that name, when it has
  one: \<open>shadowed h k v pg\<close> is the page \<open>pg\<close> in which the property \<open>k\<close> of the
  object \<open>h\<close> reads as \<open>v\<close>.
\<close>

definition shadowed :: "nat \<Rightarrow> string \<Rightarrow> pval \<Rightarrow> page \<Rightarrow> page" where
  "shadowed h k v pg = pg\<lparr>getProp := (\<lambda>h' k'. if h' = h \<and> k' = k then v else getProp pg h' k')\<rparr>"

definition visibleStyle :: computed_style where
  "visibleStyle = \<lparr>display = ''block'', visibility = ''visible'', opacity = ''1''\<rparr>"

definition hiddenStyle :: computed_style where
  "hiddenStyle = \<lparr>display = ''none'', visibility = ''visible'', opacity = ''1''\<rparr>"

text \<open>
  The example page: a body with a \<open>div\<close> that holds the text \<open>hello\<close> between
  spaces, a \<open>div\<close> that is not displayed and holds a paragraph, a \<open>script\<close> element
  that holds a \<open>div\<close>, and a comment.
\<close>

definition exampleNodes :: "sample_node list" where
  "exampleNodes =
     [SampleElement ''BODY'' visibleStyle [] [1, 3, 5, 7] ''  hello secret'',
      SampleElement ''DIV'' visibleStyle [] [2] ''  hello '',
      SampleText ''  hello '',
      SampleElement ''DIV'' hiddenStyle [] [4] ''secret'',
      SampleElement ''P'' visibleStyle [] [8] ''secret'',
      SampleElement ''SCRIPT'' visibleStyle [] [6] [],
      SampleElement ''DIV'' visibleStyle [] [] [],
      SampleComment ''note'',
      SampleText ''secret'']"

definition examplePage :: page where
  "examplePage = samplePage (docOf exampleNodes)"

definition exampleTags :: "string list" where
  "exampleTags = [''body'', ''div'', ''p'']"

text \<open>
  The tree expected from the example page, and the object \<open>page.evaluate\<close> returns
  for it; \<open>plainNode\<close> and \<open>plainJs\<close> are a node without attributes or fields.
\<close>

definition plainJs :: "string \<Rightarrow> jsval list \<Rightarrow> jsval" where
  "plainJs t cs = JObj [(''tag'', JStr t), (''attributes'', JObj []), (''children'', JArr cs)]"

definition plainNode :: "string \<Rightarrow> pnode list \<Rightarrow> pnode" where
  "plainNode t cs = PNode t emptyObject cs None None None None None"



text \<open>
  A chain of nested \<open>div\<close> elements below the body: node \<open>k\<close>, from 1 to 35, is a
  \<open>div\<close> at depth \<open>k\<close> whose only child node is node \<open>k + 1\<close>; node 35 has none.
  \<open>jsChain k\<close> is the object of a chain of \<open>k + 1\<close> levels.
\<close>

definition chainDoc :: "nat \<Rightarrow> sample_node" where
  "chainDoc k =
     (if k = 0 then SampleElement ''BODY'' visibleStyle [] [1] []
      else if k < 35 then SampleElement ''DIV'' visibleStyle [] [k + 1] []
      else if k = 35 then SampleElement ''DIV'' visibleStyle [] [] []
      else NoNode)"

definition chainPage :: page where
  "chainPage = samplePage chainDoc"

primrec jsChain :: "nat \<Rightarrow> jsval" where
  "jsChain 0 = plainJs ''div'' []"
| "jsChain (Suc k) = plainJs ''div'' [jsChain k]"

primrec nodeChain :: "nat \<Rightarrow> pnode" where
  "nodeChain 0 = plainNode ''div'' []"
| "nodeChain (Suc k) = plainNode ''div'' [nodeChain k]"

text \<open>
  A page with a form and a text field: \<open><form id="f">hello</form>\<close> followed by
  \<open><input name=... form="f">\<close>, a control of the form that stands outside it. The
  only child node of the form is the text \<open>hello\<close>. In \<open>formPage\<close> the control is
  named \<open>q\<close>. In \<open>shadowedFormPage\<close> it is named \<open>childNodes\<close>, so that
  \<open>form.childNodes\<close> is the control; an \<open>input\<close> element has no \<open>length\<close>.
\<close>

definition formNodes :: "string \<Rightarrow> sample_node list" where
  "formNodes controlName =
     [SampleElement ''BODY'' visibleStyle [] [1, 3] ''hello'',
      SampleElement ''FORM'' visibleStyle [(''id'', ''f'')] [2] ''hello'',
      SampleText ''hello'',
      SampleElement ''INPUT'' visibleStyle [(''name'', controlName), (''form'', ''f'')] [] []]"

definition formPage :: page where
  "formPage = samplePage (docOf (formNodes ''q''))"

definition shadowedFormPage :: page where
  "shadowedFormPage =
     shadowed 10 ''childNodes'' (PObj 30) (samplePage (docOf (formNodes ''childNodes'')))"

definition formOptions :: sanitize_options where
  "formOptions =
     \<lparr>allowedTags = Some [''body'', ''form'', ''input''], allowedAttributes = AttributesFalse\<rparr>"

definition formJs :: "(string \<times> jsval) list \<Rightarrow> string \<Rightarrow> jsval" where
  "formJs textField controlName =
     plainJs ''body''
       [JObj ([(''tag'', JStr ''form''),
               (''attributes'', JObj [(''id'', JStr ''f'')]),
               (''children'', JArr []),
               (''id'', JStr ''f'')] @ textField),
        JObj [(''tag'', JStr ''input''),
              (''attributes'', JObj [(''name'', JStr controlName), (''form'', JStr ''f'')]),
              (''children'', JArr [])]]"

definition paddedText :: string where
  "paddedText = ''  The quick brown fox jumps over the lazy dog, twice over. ''"

text \<open>
  The example model answers by the length of the conversation: first it records a query
  result, then an assertion result together with a click whose arguments are invalid,
  then it stops requesting tools.
\<close>

definition exampleModel :: "request \<Rightarrow> assistant_message option" where
  "exampleModel req =
     (if length (req_messages req) = 2
      then Some (AssistantMessage None
             (Some [FunctionToolCall ''call_1'' ''resultQuery'' queryText]))
      else if length (req_messages req) = 4
      then Some (AssistantMessage None
             (Some [FunctionToolCall ''call_2'' ''resultAssertion'' assertionText,
                    FunctionToolCall ''call_3'' ''locator_click'' badClickText]))
      else Some (AssistantMessage (Some ''done'') None))"

definition exampleEnv :: "nat env" where
  "exampleEnv =
     \<lparr> JSON_parse = (\<lambda>s. case map_of exampleJSON s of
                          Some v \<Rightarrow> Inr v
                        | None \<Rightarrow> Inl (Error ''Unexpected end of JSON input'')),
       JSON_stringify = renderJs,
       zodMessage = (\<lambda>issues. ''invalid arguments''),
       randomUUID = (\<lambda>n. (''uuid-'' @ replicate n CHR ''x'', Suc n)),
       getSanitizeOptions = \<lparr>allowedTags = Some exampleTags, allowedAttributes = AttributesFalse\<rparr>,
       SYSTEM_PROMPT = ''system'',
       locatorCall = (\<lambda>l m w. (Inr (exampleLocatorCall l m), w)),
       locatorAll = (\<lambda>l w. (Inr (exampleAll l), w)),
       pageCall = (\<lambda>m w. (Inr JUndefined, w)),
       pageEvaluate = (\<lambda>w. (Inr examplePage, w)),
       evaluateError = (\<lambda>e. Error (''page.evaluate: '' @ message e)),
       chatCompletionsCreate = (\<lambda>req w. (Inr (exampleModel req), w)) \<rparr>"

text \<open>
  The example world with another page in the browser: the chain of nested \<open>div\<close>
  elements, the page with the form, and the page with the form whose control is named
  \<open>childNodes\<close>.
\<close>

definition chainEnv :: "nat env" where
  "chainEnv =
     exampleEnv\<lparr>getSanitizeOptions :=
                  \<lparr>allowedTags = Some [''body'', ''div''], allowedAttributes = AttributesFalse\<rparr>,
                pageEvaluate := (\<lambda>w. (Inr chainPage, w))\<rparr>"

definition formEnv :: "nat env" where
  "formEnv =
     exampleEnv\<lparr>getSanitizeOptions := formOptions, pageEvaluate := (\<lambda>w. (Inr formPage, w))\<rparr>"

definition shadowedFormEnv :: "nat env" where
  "shadowedFormEnv =
     exampleEnv\<lparr>getSanitizeOptions := formOptions,
                pageEvaluate := (\<lambda>w. (Inr shadowedFormPage, w))\<rparr>"

definition exampleTask :: task_message where
  "exampleTask = \<lparr>task_prompt = ''do it'', task_model = None\<rparr>"

text \<open>
  Variants of the example world: a driver whose every locator call fails, a model that
  answers at once without requesting a tool, a model that requests a call whose type is
  not \<open>function\<close>, and a model that requests a function named \<open>toString\<close>.
\<close>

definition failingDriverEnv :: "nat env" where
  "failingDriverEnv = exampleEnv\<lparr>locatorCall := (\<lambda>l m w. (Inl (Error ''Timeout exceeded''), w))\<rparr>"

definition silentModelEnv :: "nat env" where
  "silentModelEnv =
     exampleEnv\<lparr>chatCompletionsCreate :=
       (\<lambda>req w. (Inr (Some (AssistantMessage (Some ''nothing to do'') None)), w))\<rparr>"

definition customCallMessage :: assistant_message where
  "customCallMessage = AssistantMessage None (Some [OtherToolCall ''call_9'' ''custom''])"

definition toStringCallMessage :: assistant_message where
  "toStringCallMessage =
     AssistantMessage None (Some [FunctionToolCall ''call_7'' ''toString'' noArgumentsText])"

text \<open>
  The logs of three runs in the example world: locating by role, by text and by CSS
  selector.
\<close>

definition roleEvents :: "event list" where
  "roleEvents =
     [AllCalled (GetByRole ''button'' False),
      UUIDGenerated ''uuid-'',
      LocatorCalled (Nth (GetByRole ''button'' False) 0)
        (SetAttribute ''data-element-id'' ''uuid-'') (Inr JUndefined),
      UUIDGenerated ''uuid-x'',
      LocatorCalled (Nth (GetByRole ''button'' False) 1)
        (SetAttribute ''data-element-id'' ''uuid-x'') (Inr JUndefined),
      UUIDGenerated ''uuid-xx'',
      LocatorCalled (Nth (GetByRole ''button'' False) 2)
        (SetAttribute ''data-element-id'' ''uuid-xx'') (Inr JUndefined)]"

definition textEvents :: "event list" where
  "textEvents =
     [AllCalled (GetByText ''Save'' False),
      LocatorCalled (Nth (GetByText ''Save'' False) 0) IsVisible (Inr (JBool True)),
      UUIDGenerated ''uuid-'',
      LocatorCalled (Nth (GetByText ''Save'' False) 0)
        (SetAttribute ''data-element-id'' ''uuid-'') (Inr JUndefined),
      LocatorCalled (Nth (GetByText ''Save'' False) 1) IsVisible (Inr (JBool False)),
      LocatorCalled (Nth (GetByText ''Save'' False) 2) IsVisible (Inr (JBool True)),
      UUIDGenerated ''uuid-x'',
      LocatorCalled (Nth (GetByText ''Save'' False) 2)
        (SetAttribute ''data-element-id'' ''uuid-x'') (Inr JUndefined)]"

definition cssEvents :: "event list" where
  "cssEvents =
     [UUIDGenerated ''uuid-'',
      LocatorCalled (First (Locator ''button''))
        (SetAttribute ''data-element-id'' ''uuid-'') (Inr JUndefined)]"

text \<open>The state in which the example task ends.\<close>

definition exampleFinalState :: "nat task_state" where
  "exampleFinalState =
     \<lparr> world = 0,
       messages =
         [SystemMessage ''system'', UserMessage ''do it'',
          AssistantParam (AssistantMessage None
            (Some [FunctionToolCall ''call_1'' ''resultQuery'' queryText])),
          ToolMessage ''call_1'' (renderJs (JObj [(''query'', JStr ''first'')])),
          AssistantParam (AssistantMessage None
            (Some [FunctionToolCall ''call_2'' ''resultAssertion'' assertionText,
                   FunctionToolCall ''call_3'' ''locator_click'' badClickText])),
          ToolMessage ''call_2'' (renderJs (JObj [(''assertion'', JBool True)])),
          ToolMessage ''call_3'' (renderJs (JObj [(''error'', JStr ''invalid arguments'')]))],
       lastFunctionResult = JObj [(''assertion'', JBool True)],
       toolCallResults =
         [ToolMessage ''call_2'' (renderJs (JObj [(''assertion'', JBool True)])),
          ToolMessage ''call_3'' (renderJs (JObj [(''error'', JStr ''invalid arguments'')]))],
       dispatched =
         [(''resultQuery'', Inr (JObj [(''query'', JStr ''first'')])),
          (''resultAssertion'', Inr (JObj [(''assertion'', JBool True)])),
          (''locator_click'', Inl (Error ''invalid arguments''))] \<rparr>"

text \<open>
  A turn of three requested calls, the second of which is not of type \<open>function\<close>,
  and the conversation after it.
\<close>

definition mixedCalls :: "tool_call list" where
  "mixedCalls =
     [FunctionToolCall ''call_2'' ''resultAssertion'' assertionText,
      OtherToolCall ''call_9'' ''custom'',
      FunctionToolCall ''call_3'' ''locator_click'' badClickText]"

definition mixedMessage :: assistant_message where
  "mixedMessage = AssistantMessage None (Some mixedCalls)"

definition mixedConversation :: "message_param list" where
  "mixedConversation =
     [SystemMessage ''system'', UserMessage ''do it'', AssistantParam mixedMessage,
      ToolMessage ''call_2'' (renderJs (JObj [(''assertion'', JBool True)])),
      ToolMessage ''call_3'' (renderJs (JObj [(''error'', JStr ''invalid arguments'')]))]"

definition doneReply :: "assistant_message option" where
  "doneReply = Some (AssistantMessage (Some ''done'') None)"
section \<open>Properties of the visible-structure extraction\<close>


lemma mapE_Inr_set: "mapE f xs = Inr ys \<Longrightarrow> y \<in> set ys \<Longrightarrow> \<exists>x \<in> set xs. f x = Inr y"
  by (induction xs arbitrary: ys) (auto split: sum.splits)

lemma set_pushed: "set (pushed rs) = {n. Some n \<in> set rs}"
  by (induction rs) (auto simp: pushed_def List.map_filter_simps split: option.splits)

lemma node_tag_withChildren [simp]: "node_tag (withChildren n cs) = node_tag n"
  by (cases n) simp

lemma node_children_withChildren [simp]: "node_children (withChildren n cs) = cs"
  by (cases n) simp

lemma node_text_withChildren [simp]: "node_text (withChildren n cs) = node_text n"
  by (cases n) simp

lemma nodeWithoutChildren_Some:
  "nodeWithoutChildren pg aT aA el = Inr (Some n) \<Longrightarrow>
     \<exists>st. getComputedStyle pg el = Inr st \<and> \<not> invisible st \<and> tagOf pg el = Inr (node_tag n) \<and>
          node_tag n \<in> set aT \<and> node_children n = [] \<and> textOf pg el = Inr (node_text n)"
  by (auto simp: nodeWithoutChildren_def split: sum.splits if_splits)


lemma extract_emitted:
  assumes "extractVisibleStructure pg aT aA mD el d = Inr (Some n)"
  shows "\<exists>st. getComputedStyle pg el = Inr st \<and> \<not> invisible st \<and> tagOf pg el = Inr (node_tag n) \<and>
          node_tag n \<in> set aT \<and> d \<le> mD \<and> textOf pg el = Inr (node_text n)"
  using assms
  by (subst (asm) extractVisibleStructure.simps)
     (auto split: if_splits sum.splits option.splits dest!: nodeWithoutChildren_Some)


lemma extract_children:
  assumes "extractVisibleStructure pg aT aA mD el d = Inr (Some n)"
  shows "if d + 1 < mD
         then \<exists>children items results.
                getMember pg el ''children'' = Inr children \<and>
                readItems pg children = Inr items \<and>
                mapE (\<lambda>child. extractVisibleStructure pg aT aA mD child (d + 1)) items = Inr results \<and>
                node_children n = pushed results
         else node_children n = []"
  using assms
  by (subst (asm) extractVisibleStructure.simps)
     (auto split: if_splits sum.splits option.splits dest!: nodeWithoutChildren_Some)


lemma fold_max_le: "(\<And>x. x \<in> set xs \<Longrightarrow> x \<le> k) \<Longrightarrow> a \<le> k \<Longrightarrow> fold max xs (a::nat) \<le> k"
  by (induction xs arbitrary: a) auto

lemma height_le:
  "(\<And>c. c \<in> set (node_children n) \<Longrightarrow> height c \<le> k) \<Longrightarrow> height n \<le> Suc k"
  by (cases n) (auto intro!: fold_max_le)

lemma extract_height:
  "extractVisibleStructure pg aT aA mD el d = Inr (Some n) \<Longrightarrow> height n \<le> max 1 (mD - d)"
proof (induction pg aT aA mD el d arbitrary: n rule: extractVisibleStructure.induct)
  case (1 pg aT aA mD element depth)
  from 1(2) have guard: "\<not> (\<not> truthyP element \<or> mD < depth)"
    by (subst (asm) extractVisibleStructure.simps) (auto split: if_splits)
  show ?case
  proof (cases "depth + 1 < mD")
    case False
    with extract_children [OF 1(2)] have "node_children n = []" by simp
    then have "height n = 1" by (cases n) simp
    then show ?thesis by simp
  next
    case True
    with extract_children [OF 1(2)] obtain children items results where
      c: "getMember pg element ''children'' = Inr children"
         "readItems pg children = Inr items"
         "mapE (\<lambda>child. extractVisibleStructure pg aT aA mD child (depth + 1)) items = Inr results"
         "node_children n = pushed results"
      by auto
    from 1(2) guard True obtain node where node: "nodeWithoutChildren pg aT aA element = Inr (Some node)"
      by (subst (asm) extractVisibleStructure.simps) (auto split: if_splits sum.splits option.splits)
    have "height ch \<le> mD - depth - 1" if "ch \<in> set (node_children n)" for ch
    proof -
      from that c(4) have "Some ch \<in> set results" by (simp add: set_pushed)
      with c(3) obtain item where item: "item \<in> set items"
        "extractVisibleStructure pg aT aA mD item (depth + 1) = Inr (Some ch)"
        by (blast dest: mapE_Inr_set)
      have "height ch \<le> max 1 (mD - (depth + 1))"
        by (rule 1(1) [OF guard node refl True c(1) c(2) item(1) item(2)])
      with True show ?thesis by simp
    qed
    then have "height n \<le> Suc (mD - depth - 1)" by (rule height_le)
    with True show ?thesis by simp
  qed
qed


lemma serialize_children:
  "property (serializeNode pg m) ''children'' = JArr (map (serializeNode pg) (node_children m))"
  by (cases m) simp

lemma serialize_text:
  "property (serializeNode pg m) ''text'' =
     (case node_text m of None \<Rightarrow> JUndefined | Some s \<Rightarrow> JStr s)"
  by (cases m) (auto simp: optionalField_def split: option.splits)

lemma getVisibleStructure_result:
  "getVisibleStructure env EmptyArgs w = (Inr r, w') \<Longrightarrow>
   \<exists>pg structure.
     pageEvaluate env w = (Inr pg, w') \<and>
     extractBody pg (allowedTagsOf (getSanitizeOptions env))
       (allowedAttributes (getSanitizeOptions env)) maxDepth = Inr structure \<and>
     r = JObj [(''structure'', case structure of None \<Rightarrow> JNull | Some node \<Rightarrow> serializeNode pg node)]"
  by (auto simp: await_def throw_def return_def Let_def split: prod.splits sum.splits)

lemmas sample_defs =
  samplePage_def sampleProp_def sampleItem_def sampleStyle_def sampleMethod_def docOf_def
  itemOf_def attributeText_def visibleStyle_def hiddenStyle_def shadowed_def

lemmas extraction_defs =
  extractBody_def nodeWithoutChildren_def tagOf_def copyAttributes_def copyAttribute_def
  copyAllowedAttribute_def setAttribute_def assignProperty_def createOwn_def defineOwn_def
  arrayIndex_def decimalValue_def digitValue_def setPrototype_def emptyObject_def
  idOf_def attributeOf_def classNameOf_def textOf_def singleTextChild_def trimmedText_def
  cutText_def whenTruthy_def readItems_def loopCount_def upt_conv_Cons invisible_def nonEmpty_def
  toLowerCase_def lowerChar_def upperCaseLetters_def lowerCaseLetters_def
  trim_def isWhiteSpace_def pushed_def List.map_filter_simps


lemma handle_arith:
  "(10 * k) div 10 = (k::nat)" "(10 * k) mod 10 = 0"
  "(10 * k + 1) div 10 = k" "(10 * k + 1) mod 10 = 1"
  "(10 * k + 2) div 10 = k" "(10 * k + 2) mod 10 = 2"
  "(10 * k + 3) div 10 = k" "(10 * k + 3) mod 10 = 3"
  "Suc (10 * k) div 10 = k" "Suc (10 * k) mod 10 = 1"
  "Suc (Suc (10 * k)) div 10 = k" "Suc (Suc (10 * k)) mod 10 = 2"
  by presburger+

lemma chain_node:
  assumes "1 \<le> k" "k \<le> 35"
  shows "nodeWithoutChildren chainPage [''body'', ''div''] AttributesFalse (PObj (10 * k)) =
           Inr (Some (plainNode ''div'' []))"
  using assms
  by (simp add: chainPage_def chainDoc_def plainNode_def sample_defs extraction_defs handle_arith)

lemma extract_step:
  assumes "truthyP el" "d \<le> mD" "nodeWithoutChildren pg aT aA el = Inr (Some node)"
    and "d + 1 < mD" "getMember pg el ''children'' = Inr ch" "readItems pg ch = Inr items"
    and "mapE (\<lambda>c. extractVisibleStructure pg aT aA mD c (d + 1)) items = Inr results"
  shows "extractVisibleStructure pg aT aA mD el d = Inr (Some (withChildren node (pushed results)))"
  using assms by (subst extractVisibleStructure.simps) simp

lemma extract_leaf:
  assumes "truthyP el" "d \<le> mD" "nodeWithoutChildren pg aT aA el = Inr (Some node)"
    and "\<not> d + 1 < mD"
  shows "extractVisibleStructure pg aT aA mD el d = Inr (Some node)"
  using assms by (subst extractVisibleStructure.simps) simp

lemma chain_children:
  assumes "1 \<le> k" "k \<le> 35"
  shows "getMember chainPage (PObj (10 * k)) ''children'' = Inr (PObj (10 * k + 1))"
    and "readItems chainPage (PObj (10 * k + 1)) = Inr (if k < 35 then [PObj (10 * (k + 1))] else [])"
  using assms
  by (simp_all add: chainPage_def chainDoc_def sample_defs extraction_defs handle_arith)

lemma extract_chain:
  "1 \<le> k \<Longrightarrow> k \<le> 35 \<Longrightarrow> d + n = 29 \<Longrightarrow>
   extractVisibleStructure chainPage [''body'', ''div''] AttributesFalse 30 (PObj (10 * k)) d =
     Inr (Some (nodeChain (min (35 - k) n)))"
proof (induction n arbitrary: k d)
  case 0
  have "extractVisibleStructure chainPage [''body'', ''div''] AttributesFalse 30 (PObj (10 * k)) d =
      Inr (Some (plainNode ''div'' []))"
    using 0 by (intro extract_leaf chain_node) simp_all
  then show ?case by simp
next
  case (Suc n)
  let ?items = "if k < 35 then [PObj (10 * (k + 1))] else []"
  let ?results = "if k < 35 then [Some (nodeChain (min (35 - (k + 1)) n))] else []"
  have "mapE (\<lambda>c. extractVisibleStructure chainPage [''body'', ''div''] AttributesFalse 30 c (d + 1))
          ?items = Inr ?results"
  proof (cases "k < 35")
    case True
    with Suc.prems have "extractVisibleStructure chainPage [''body'', ''div''] AttributesFalse 30
        (PObj (10 * (k + 1))) (d + 1) = Inr (Some (nodeChain (min (35 - (k + 1)) n)))"
      by (intro Suc.IH) simp_all
    with True show ?thesis by simp
  next
    case False
    then show ?thesis by simp
  qed
  with Suc.prems
  have "extractVisibleStructure chainPage [''body'', ''div''] AttributesFalse 30 (PObj (10 * k)) d =
      Inr (Some (withChildren (plainNode ''div'' []) (pushed ?results)))"
    by (intro extract_step [where ch = "PObj (10 * k + 1)" and items = ?items]
          chain_node chain_children) simp_all
  moreover have "withChildren (plainNode ''div'' []) (pushed ?results) = nodeChain (min (35 - k) (Suc n))"
  proof (cases "k < 35")
    case True
    then have "min (35 - k) (Suc n) = Suc (min (35 - (k + 1)) n)" by simp
    with True show ?thesis
      by (simp add: plainNode_def pushed_def List.map_filter_simps)
  next
    case False
    with Suc.prems have "min (35 - k) (Suc n) = 0" by simp
    with False show ?thesis
      by (simp add: plainNode_def pushed_def List.map_filter_simps)
  qed
  ultimately show ?case by simp
qed

lemma serializeAttributes_empty: "serializeAttributes pg emptyObject = JObj []"
  by (simp add: serializeAttributes_def emptyObject_def)

lemma serialize_nodeChain: "serializeNode pg (nodeChain k) = jsChain k"
  by (induction k) (simp_all add: plainNode_def plainJs_def serializeAttributes_empty optionalField_def)

lemma extract_chain_body:
  "extractBody chainPage [''body'', ''div''] AttributesFalse 30 =
     Inr (Some (plainNode ''body'' [nodeChain 28]))"
proof -
  have "extractVisibleStructure chainPage [''body'', ''div''] AttributesFalse 30 (PObj (10 * 1)) 1 =
      Inr (Some (nodeChain (min (35 - 1) 28)))"
    by (rule extract_chain) simp_all
  then have m: "mapE (\<lambda>c. extractVisibleStructure chainPage [''body'', ''div''] AttributesFalse 30 c (0 + 1))
      [PObj 10] = Inr [Some (nodeChain 28)]"
    by simp
  have n: "nodeWithoutChildren chainPage [''body'', ''div''] AttributesFalse (PObj 0) =
      Inr (Some (plainNode ''body'' []))"
    by (simp add: chainPage_def chainDoc_def plainNode_def sample_defs extraction_defs)
  have c: "getMember chainPage (PObj 0) ''children'' = Inr (PObj 1)"
    and r: "readItems chainPage (PObj 1) = Inr [PObj 10]"
    by (simp_all add: chainPage_def chainDoc_def sample_defs extraction_defs)
  have "extractVisibleStructure chainPage [''body'', ''div''] AttributesFalse 30 (PObj 0) 0 =
      Inr (Some (withChildren (plainNode ''body'' []) (pushed [Some (nodeChain 28)])))"
    by (rule extract_step [OF _ _ n _ c r m]) simp_all
  moreover have "documentBody chainPage = PObj 0"
    by (simp add: chainPage_def samplePage_def)
  ultimately show ?thesis
    by (simp add: extractBody_def plainNode_def pushed_def List.map_filter_simps)
qed

lemma chain_structure:
  "getVisibleStructure chainEnv EmptyArgs w =
     (Inr (JObj [(''structure'', plainJs ''body'' [jsChain 28])]), w)"
  by (simp add: chainEnv_def exampleEnv_def await_def return_def maxDepth_def Let_def allowedTagsOf_def extract_chain_body
        plainNode_def plainJs_def serialize_nodeChain serializeAttributes_empty optionalField_def)

lemma form_structure:
  "getVisibleStructure formEnv EmptyArgs w =
     (Inr (JObj [(''structure'', formJs [(''text'', JStr ''hello'')] ''q'')]), w)"
  by (simp add: formEnv_def exampleEnv_def formOptions_def formPage_def formNodes_def formJs_def
        plainJs_def await_def return_def maxDepth_def Let_def allowedTagsOf_def extractVisibleStructure.simps
        serializeAttributes_def optionalField_def sample_defs extraction_defs)

lemma shadowed_form_structure:
  "getVisibleStructure shadowedFormEnv EmptyArgs w =
     (Inr (JObj [(''structure'', formJs [] ''childNodes'')]), w)"
  by (simp add: shadowedFormEnv_def exampleEnv_def formOptions_def shadowedFormPage_def
        formNodes_def formJs_def
        plainJs_def await_def return_def maxDepth_def Let_def allowedTagsOf_def extractVisibleStructure.simps
        serializeAttributes_def optionalField_def sample_defs extraction_defs)


lemma textOf_Some:
  "textOf pg el = Inr (Some v) \<longleftrightarrow>
     singleTextChild pg el = Inr True \<and>
     (\<exists>text. trimmedText pg el = Inr text \<and> text \<noteq> [] \<and> v = cutText text)"
  by (auto simp: textOf_def split: sum.splits if_splits)

lemma text_field_follows_reads:
  assumes "extractVisibleStructure pg aT aA mD el d = Inr (Some n)"
  shows "property (serializeNode pg n) ''text'' = JStr v \<longleftrightarrow>
           singleTextChild pg el = Inr True \<and>
           (\<exists>text. trimmedText pg el = Inr text \<and> text \<noteq> [] \<and>
                   v = (if length text > 50 then take 50 text @ ''...'' else text))"
proof -
  from extract_emitted [OF assms] have "textOf pg el = Inr (node_text n)" by blast
  then have "node_text n = Some v \<longleftrightarrow> textOf pg el = Inr (Some v)" by auto
  moreover have "property (serializeNode pg n) ''text'' = JStr v \<longleftrightarrow> node_text n = Some v"
    by (simp add: serialize_text split: option.splits)
  ultimately show ?thesis
    by (simp add: textOf_Some cutText_def)
qed






text \<open>
  Claim C8. The page function runs with the depth limit 30 and starts at the body
  with depth 0. A node emitted at depth \<open>d\<close> has no children at all when
  \<open>d + 1 < 30\<close> fails; when it holds, its children are the extractions at depth
  \<open>d + 1\<close> of the items read from \<open>element.children\<close>. So whatever tree
  \<open>getVisibleStructure\<close> returns has at most 30 levels. For a page whose body holds a
  chain of 35 nested \<open>div\<close> elements, it returns the tree of 30 levels (the body and
  29 \<open>div\<close> nodes, at depths 0 to 29), whose deepest node has no children.
\<close>

theorem visible_structure_depth_limit:
  fixes env :: "'w env"
  shows
  "maxDepth = 30 \<and>
   (getVisibleStructure env EmptyArgs w = (Inr r, w') \<longrightarrow>
      (\<exists>page extracted.
         pageEvaluate env w = (Inr page, w') \<and>
         extractVisibleStructure page (allowedTagsOf (getSanitizeOptions env))
           (allowedAttributes (getSanitizeOptions env)) 30 (documentBody page) 0 = Inr extracted \<and>
         r = JObj [(''structure'',
                    case extracted of None \<Rightarrow> JNull | Some node \<Rightarrow> serializeNode page node)] \<and>
         (\<forall>node. extracted = Some node \<longrightarrow>
            height node \<le> 30 \<and>
            (\<forall>m \<in> set (pnodes node).
               property (serializeNode page m) ''children'' =
                 JArr (map (serializeNode page) (node_children m)))))) \<and>
   (extractVisibleStructure pg aT aA maxDepth element depth = Inr (Some n) \<longrightarrow>
      (maxDepth \<le> depth + 1 \<longrightarrow> node_children n = []) \<and>
      (depth + 1 < maxDepth \<longrightarrow>
         (\<exists>children items results.
            getMember pg element ''children'' = Inr children \<and>
            readItems pg children = Inr items \<and>
            mapE (\<lambda>child. extractVisibleStructure pg aT aA maxDepth child (depth + 1)) items =
              Inr results \<and>
            node_children n = pushed results))) \<and>
   getVisibleStructure chainEnv EmptyArgs 0 =
     (Inr (JObj [(''structure'', plainJs ''body'' [jsChain 28])]), 0) \<and>
   extractBody chainPage [''body'', ''div''] AttributesFalse maxDepth =
     Inr (Some (plainNode ''body'' [nodeChain 28])) \<and>
   height (plainNode ''body'' [nodeChain 28]) = 30"
proof (intro conjI impI)
  show "maxDepth = 30" by (simp add: maxDepth_def)
next
  assume g: "getVisibleStructure env EmptyArgs w = (Inr r, w')"
  let ?aT = "allowedTagsOf (getSanitizeOptions env)"
  let ?aA = "allowedAttributes (getSanitizeOptions env)"
  from getVisibleStructure_result [OF g] obtain page extracted where
    p: "pageEvaluate env w = (Inr page, w')"
       "extractVisibleStructure page ?aT ?aA 30 (documentBody page) 0 = Inr extracted"
       "r = JObj [(''structure'',
                   case extracted of None \<Rightarrow> JNull | Some node \<Rightarrow> serializeNode page node)]"
    by (auto simp: extractBody_def maxDepth_def)
  have "height node \<le> 30" if "extracted = Some node" for node
    using extract_height [of page ?aT ?aA 30 "documentBody page" 0 node] p(2) that by simp
  with p show "\<exists>page extracted.
         pageEvaluate env w = (Inr page, w') \<and>
         extractVisibleStructure page ?aT ?aA 30 (documentBody page) 0 = Inr extracted \<and>
         r = JObj [(''structure'',
                    case extracted of None \<Rightarrow> JNull | Some node \<Rightarrow> serializeNode page node)] \<and>
         (\<forall>node. extracted = Some node \<longrightarrow>
            height node \<le> 30 \<and>
            (\<forall>m \<in> set (pnodes node).
               property (serializeNode page m) ''children'' =
                 JArr (map (serializeNode page) (node_children m))))"
    by (intro exI [of _ page] exI [of _ extracted]) (simp add: serialize_children)
next
  assume "extractVisibleStructure pg aT aA maxDepth element depth = Inr (Some n)"
    and "maxDepth \<le> depth + 1"
  then show "node_children n = []"
    using extract_children [of pg aT aA maxDepth element depth n] by simp
next
  assume "extractVisibleStructure pg aT aA maxDepth element depth = Inr (Some n)"
    and "depth + 1 < maxDepth"
  then show "\<exists>children items results.
            getMember pg element ''children'' = Inr children \<and>
            readItems pg children = Inr items \<and>
            mapE (\<lambda>child. extractVisibleStructure pg aT aA maxDepth child (depth + 1)) items =
              Inr results \<and>
            node_children n = pushed results"
    using extract_children [of pg aT aA maxDepth element depth n] by simp
next
  show "getVisibleStructure chainEnv EmptyArgs 0 =
     (Inr (JObj [(''structure'', plainJs ''body'' [jsChain 28])]), 0)"
    by (rule chain_structure)
next
  show "extractBody chainPage [''body'', ''div''] AttributesFalse maxDepth =
     Inr (Some (plainNode ''body'' [nodeChain 28]))"
    using extract_chain_body by (simp add: maxDepth_def)
next
  have "height (nodeChain k) = Suc k" for k
    by (induction k) (simp_all add: plainNode_def)
  then show "height (plainNode ''body'' [nodeChain 28]) = 30"
    by (simp add: plainNode_def)
qed

lemma chainPage_reads:
  "pageEvaluate chainEnv w = (Inr chainPage, w)"
  "allowedTagsOf (getSanitizeOptions chainEnv) = [''body'', ''div'']"
  "allowedAttributes (getSanitizeOptions chainEnv) = AttributesFalse"
  "documentBody chainPage = PObj 0"
  by (simp_all add: chainEnv_def exampleEnv_def allowedTagsOf_def chainPage_def samplePage_def)

theorem visible_structure_depth_limit_witness:
  "getVisibleStructure chainEnv EmptyArgs 0 =
     (Inr (JObj [(''structure'', plainJs ''body'' [jsChain 28])]), 0) \<and>
   extractVisibleStructure chainPage [''body'', ''div''] AttributesFalse 30 (PObj 0) 0 =
     Inr (Some (plainNode ''body'' [nodeChain 28])) \<and>
   height (plainNode ''body'' [nodeChain 28]) \<le> 30 \<and>
   extractVisibleStructure chainPage [''body'', ''div''] AttributesFalse maxDepth (PObj 290) 29 =
     Inr (Some (nodeChain 0)) \<and>
   maxDepth \<le> 29 + 1 \<and>
   node_children (nodeChain 0) = [] \<and>
   extractVisibleStructure chainPage [''body'', ''div''] AttributesFalse maxDepth (PObj 280) 28 =
     Inr (Some (nodeChain 1)) \<and>
   28 + 1 < maxDepth \<and>
   getMember chainPage (PObj 280) ''children'' = Inr (PObj 281) \<and>
   readItems chainPage (PObj 281) = Inr [PObj 290] \<and>
   node_children (nodeChain 1) = pushed [Some (nodeChain 0)]"
proof -
  have g: "getVisibleStructure chainEnv EmptyArgs 0 =
      (Inr (JObj [(''structure'', plainJs ''body'' [jsChain 28])]), 0)"
    by (rule chain_structure)
  have b: "extractVisibleStructure chainPage [''body'', ''div''] AttributesFalse 30 (PObj 0) 0 =
      Inr (Some (plainNode ''body'' [nodeChain 28]))"
    using extract_chain_body by (simp add: extractBody_def chainPage_reads)
  have e29: "extractVisibleStructure chainPage [''body'', ''div''] AttributesFalse maxDepth
      (PObj 290) 29 = Inr (Some (nodeChain 0))"
    using extract_chain [of 29 29 0] by (simp add: maxDepth_def)
  have e28: "extractVisibleStructure chainPage [''body'', ''div''] AttributesFalse maxDepth
      (PObj 280) 28 = Inr (Some (nodeChain 1))"
    using extract_chain [of 28 28 1] by (simp add: maxDepth_def)
  have m: "maxDepth \<le> 29 + 1" "28 + 1 < maxDepth"
    by (simp_all add: maxDepth_def)
  have c: "getMember chainPage (PObj 280) ''children'' = Inr (PObj 281)"
    "readItems chainPage (PObj 281) = Inr [PObj 290]"
    using chain_children [of 28] by simp_all
  note t = visible_structure_depth_limit [where env = chainEnv and w = 0 and w' = 0
      and r = "JObj [(''structure'', plainJs ''body'' [jsChain 28])]" and pg = chainPage
      and aT = "[''body'', ''div'']" and aA = AttributesFalse and element = "PObj 290"
      and depth = 29 and n = "nodeChain 0"]
  note u = visible_structure_depth_limit [where pg = chainPage
      and aT = "[''body'', ''div'']" and aA = AttributesFalse and element = "PObj 280"
      and depth = 28 and n = "nodeChain 1"]
  from t [THEN conjunct2, THEN conjunct1, rule_format, OF g] obtain page extracted where
    e: "pageEvaluate chainEnv 0 = (Inr page, 0)"
       "extractVisibleStructure page (allowedTagsOf (getSanitizeOptions chainEnv))
          (allowedAttributes (getSanitizeOptions chainEnv)) 30 (documentBody page) 0 = Inr extracted"
       "\<forall>node. extracted = Some node \<longrightarrow> height node \<le> 30"
    by (elim exE conjE) (rule that, assumption, assumption, blast)
  from e(1) have "page = chainPage" by (simp add: chainPage_reads)
  with e(2) b have "extracted = Some (plainNode ''body'' [nodeChain 28])"
    by (simp add: chainPage_reads)
  with e(3) have h: "height (plainNode ''body'' [nodeChain 28]) \<le> 30"
    by simp
  from t [THEN conjunct2, THEN conjunct2, THEN conjunct1] e29 m
  have k0: "node_children (nodeChain 0) = []"
    by blast
  from u [THEN conjunct2, THEN conjunct2, THEN conjunct1] e28 m
  obtain children items results where
    r: "getMember chainPage (PObj 280) ''children'' = Inr children"
       "readItems chainPage children = Inr items"
       "mapE (\<lambda>child. extractVisibleStructure chainPage [''body'', ''div''] AttributesFalse maxDepth
           child (28 + 1)) items = Inr results"
       "node_children (nodeChain 1) = pushed results"
    by blast
  from r(1) c(1) have "children = PObj 281" by simp
  with r(2) c(2) have "items = [PObj 290]" by simp
  with r(3) e29 have "results = [Some (nodeChain 0)]" by auto
  with r(4) have k1: "node_children (nodeChain 1) = pushed [Some (nodeChain 0)]"
    by simp
  from g b h e29 m k0 e28 c k1 show ?thesis
    by blast
qed


text \<open>
  Claim C9 at a failing input. The page holds \<open><form id="f">hello</form>\<close> and, after
  it, \<open><input name="childNodes" form="f">\<close>. The form element has exactly one child
  node, the text node \<open>hello\<close>, whose trimmed text is not empty. Yet
  \<open>element.childNodes\<close> on the form is the control of that name, which has no
  \<open>length\<close>, so the test for a single text child fails and the node of the form is
  returned without a \<open>text\<close> field. With the control named \<open>q\<close> the same form is
  returned with the text \<open>hello\<close>.
\<close>

theorem shadowed_form_has_no_text_field:
  "getVisibleStructure shadowedFormEnv EmptyArgs 0 =
     (Inr (JObj [(''structure'', formJs [] ''childNodes'')]), 0) \<and>
   getVisibleStructure formEnv EmptyArgs 0 =
     (Inr (JObj [(''structure'', formJs [(''text'', JStr ''hello'')] ''q'')]), 0) \<and>
   getProp shadowedFormPage 10 ''childNodes'' = PObj 30 \<and>
   getProp shadowedFormPage 30 ''tagName'' = PStr ''INPUT'' \<and>
   getProp shadowedFormPage 30 ''length'' = PUndefined \<and>
   getProp formPage 10 ''childNodes'' = PObj 12 \<and>
   getProp formPage 12 ''length'' = PNum 1 \<and>
   getItem formPage 12 0 = PObj 20 \<and>
   getProp formPage 20 ''nodeType'' = PNum 3 \<and>
   getProp formPage 10 ''textContent'' = PStr ''hello''"
  using shadowed_form_structure [of 0] form_structure [of 0]
  by (simp add: shadowedFormPage_def formPage_def formNodes_def sample_defs
        del: getVisibleStructure.simps)

section \<open>Properties of the select-option action\<close>

lemma zOptional_zString_accepts:
  "(\<exists>a. zOptional zString p v = Inr a) = optionalString v"
  by (cases v) auto
lemma zOptional_zString_val:
  "zOptional zString p v = Inr a \<Longrightarrow> (a \<noteq> None) = (v \<noteq> JUndefined)"
  by (cases v) auto
lemma zOptional_zStringOrArray_accepts:
  "(\<exists>a. zOptional zStringOrArray p v = Inr a) = optionalStrings v"
  by (cases v) auto
lemma zOptional_zStringOrArray_val:
  "zOptional zStringOrArray p v = Inr a \<Longrightarrow> (a \<noteq> None) = (v \<noteq> JUndefined)"
  by (cases v) (auto split: if_splits)
lemma zOptional_zNumberOrArray_accepts:
  "(\<exists>a. zOptional zNumberOrArray p v = Inr a) = optionalNumbers v"
  by (cases v) auto
lemma zOptional_zNumberOrArray_val:
  "zOptional zNumberOrArray p v = Inr a \<Longrightarrow> (a \<noteq> None) = (v \<noteq> JUndefined)"
  by (cases v) (auto split: if_splits)

lemma sum_cases: "(\<exists>a. x = Inr a) \<or> (\<exists>b. x = Inl b)"
  by (cases x) auto

lemma select_accepts:
  "accepts locatorSelectOptionSchema data \<longleftrightarrow>
     isObject data \<and>
     optionalString (property data ''elementId'') \<and>
     optionalString (property data ''cssSelector'') \<and>
     optionalStrings (property data ''value'') \<and>
     optionalStrings (property data ''label'') \<and>
     optionalNumbers (property data ''index'') \<and>
     (supplied data ''elementId'' \<or> supplied data ''cssSelector'') \<and>
     (supplied data ''value'' \<or> supplied data ''label'' \<or> supplied data ''index'')"
proof (cases "isObject data")
  case False
  then show ?thesis by (simp add: accepts_def locatorSelectOptionSchema_def)
next
  case True
  let ?e = "zOptional zString [''elementId''] (property data ''elementId'')"
  let ?c = "zOptional zString [''cssSelector''] (property data ''cssSelector'')"
  let ?v = "zOptional zStringOrArray [''value''] (property data ''value'')"
  let ?l = "zOptional zStringOrArray [''label''] (property data ''label'')"
  let ?i = "zOptional zNumberOrArray [''index''] (property data ''index'')"
  show ?thesis
  proof (cases "(\<exists>a. ?e = Inr a) \<and> (\<exists>a. ?c = Inr a) \<and> (\<exists>a. ?v = Inr a) \<and> (\<exists>a. ?l = Inr a) \<and> (\<exists>a. ?i = Inr a)")
    case all: True
    then obtain e c v l i where eq: "?e = Inr e" "?c = Inr c" "?v = Inr v" "?l = Inr l" "?i = Inr i"
      by blast
    have typed: "optionalString (property data ''elementId'')" "optionalString (property data ''cssSelector'')"
      "optionalStrings (property data ''value'')" "optionalStrings (property data ''label'')"
      "optionalNumbers (property data ''index'')"
      using all zOptional_zString_accepts zOptional_zStringOrArray_accepts zOptional_zNumberOrArray_accepts
      by blast+
    have s: "(e \<noteq> None) = supplied data ''elementId''" "(c \<noteq> None) = supplied data ''cssSelector''"
       "(v \<noteq> None) = supplied data ''value''" "(l \<noteq> None) = supplied data ''label''"
       "(i \<noteq> None) = supplied data ''index''"
      using eq zOptional_zString_val zOptional_zStringOrArray_val zOptional_zNumberOrArray_val
      unfolding supplied_def by blast+
    have "accepts locatorSelectOptionSchema data \<longleftrightarrow> (e \<noteq> None \<or> c \<noteq> None) \<and> (v \<noteq> None \<or> l \<noteq> None \<or> i \<noteq> None)"
      using True eq by (simp add: accepts_def locatorSelectOptionSchema_def Let_def)
    then show ?thesis using True typed s by simp
  next
    case False
    have untyped: "\<not> (optionalString (property data ''elementId'') \<and> optionalString (property data ''cssSelector'') \<and>
      optionalStrings (property data ''value'') \<and> optionalStrings (property data ''label'') \<and>
      optionalNumbers (property data ''index''))"
      using False zOptional_zString_accepts zOptional_zStringOrArray_accepts zOptional_zNumberOrArray_accepts
      by blast
    have "\<not> accepts locatorSelectOptionSchema data"
      using True False
      by (auto simp: accepts_def locatorSelectOptionSchema_def split: sum.splits)
    then show ?thesis using untyped by blast
  qed
qed

lemma run_actionTool:
  "run (actionTool n parse function) args w =
     (case parse args of Inl e \<Rightarrow> (Inl e, w) | Inr parsedArgs \<Rightarrow> function parsedArgs w)"
  by (simp add: actionTool_def)

lemma registry_selectOption:
  "map_of (createActions env) ''locator_selectOption'' =
     Some (actionTool ''locator_selectOption'' (parseWith env locatorSelectOptionSchema)
             (locator_selectOption env))"
  by (simp add: createActions_def)

text \<open>
  Claim C5, as the code has it. The schema of \<open>locator_selectOption\<close> accepts an input
  if and only if the input is an object whose five fields are absent or well typed, at
  least one of \<open>elementId\<close> and \<open>cssSelector\<close> is supplied, and at least one of
  \<open>value\<close>, \<open>label\<close> and \<open>index\<close> is supplied. An input the schema rejects makes
  the registered action fail with the schema's error before the execution body runs: the
  world is returned unchanged.
\<close>

theorem select_option_schema_at_least_one:
  "(accepts locatorSelectOptionSchema data \<longleftrightarrow>
      isObject data \<and>
      optionalString (property data ''elementId'') \<and>
      optionalString (property data ''cssSelector'') \<and>
      optionalStrings (property data ''value'') \<and>
      optionalStrings (property data ''label'') \<and>
      optionalNumbers (property data ''index'') \<and>
      (supplied data ''elementId'' \<or> supplied data ''cssSelector'') \<and>
      (supplied data ''value'' \<or> supplied data ''label'' \<or> supplied data ''index'')) \<and>
   (JSON_parse env args = Inr data \<and> \<not> accepts locatorSelectOptionSchema data \<longrightarrow>
      (\<exists>action issues.
          map_of (createActions env) ''locator_selectOption'' = Some action \<and>
          locatorSelectOptionSchema data = Inl issues \<and>
          run action args w = (Inl (Error (zodMessage env issues)), w)))"
proof -
  have "\<exists>action issues.
          map_of (createActions env) ''locator_selectOption'' = Some action \<and>
          locatorSelectOptionSchema data = Inl issues \<and>
          run action args w = (Inl (Error (zodMessage env issues)), w)"
    if p: "JSON_parse env args = Inr data" and r: "\<not> accepts locatorSelectOptionSchema data"
  proof -
    from r obtain issues where i: "locatorSelectOptionSchema data = Inl issues"
      by (auto simp: accepts_def split: sum.splits)
    with p have "run (actionTool ''locator_selectOption'' (parseWith env locatorSelectOptionSchema)
             (locator_selectOption env)) args w = (Inl (Error (zodMessage env issues)), w)"
      by (simp add: run_actionTool parseWith_def)
    with i registry_selectOption show ?thesis by blast
  qed
  with select_accepts [of data] show ?thesis by blast
qed

lemma exampleEnv_parse_valueOnly: "JSON_parse exampleEnv valueOnlyText = Inr noLocatorInput"
  by (simp add: exampleEnv_def exampleJSON_def noArgumentsText_def queryText_def assertionText_def
        badClickText_def goodClickText_def valueOnlyText_def)

theorem select_option_schema_at_least_one_witness:
  "accepts locatorSelectOptionSchema (JObj [(''elementId'', JStr ''a''), (''index'', JNum 2)]) \<and>
   \<not> accepts locatorSelectOptionSchema noLocatorInput \<and>
   \<not> accepts locatorSelectOptionSchema (JObj [(''elementId'', JNum 7), (''value'', JStr ''v'')]) \<and>
   JSON_parse exampleEnv valueOnlyText = Inr noLocatorInput \<and>
   (\<exists>action issues.
      map_of (createActions exampleEnv) ''locator_selectOption'' = Some action \<and>
      locatorSelectOptionSchema noLocatorInput = Inl issues \<and>
      run action valueOnlyText (0::nat) = (Inl (Error ''invalid arguments''), 0))"
proof -
  have a: "accepts locatorSelectOptionSchema (JObj [(''elementId'', JStr ''a''), (''index'', JNum 2)])"
    using select_option_schema_at_least_one
      [of "JObj [(''elementId'', JStr ''a''), (''index'', JNum 2)]" exampleEnv "[]" "0::nat"]
    by (simp add: supplied_def)
  have b: "\<not> accepts locatorSelectOptionSchema noLocatorInput"
    using select_option_schema_at_least_one [of noLocatorInput exampleEnv "[]" "0::nat"]
    by (simp add: supplied_def noLocatorInput_def)
  have c: "\<not> accepts locatorSelectOptionSchema (JObj [(''elementId'', JNum 7), (''value'', JStr ''v'')])"
    using select_option_schema_at_least_one
      [of "JObj [(''elementId'', JNum 7), (''value'', JStr ''v'')]" exampleEnv "[]" "0::nat"]
    by (simp add: supplied_def)
  note p = exampleEnv_parse_valueOnly
  have z: "zodMessage exampleEnv = (\<lambda>issues. ''invalid arguments'')" by (simp add: exampleEnv_def)
  from select_option_schema_at_least_one [of noLocatorInput exampleEnv valueOnlyText "0::nat"] p b
  have "\<exists>action issues.
      map_of (createActions exampleEnv) ''locator_selectOption'' = Some action \<and>
      locatorSelectOptionSchema noLocatorInput = Inl issues \<and>
      run action valueOnlyText (0::nat) = (Inl (Error (zodMessage exampleEnv issues)), 0)"
    by blast
  with a b c p show ?thesis unfolding z by blast
qed

text \<open>
  The claim as stated asks for exactly one of each group. An input that supplies both
  \<open>elementId\<close> and \<open>cssSelector\<close>, and both \<open>value\<close> and \<open>label\<close>, is accepted.
\<close>

theorem select_option_schema_exactly_one_counterexample:
  "locatorSelectOptionSchema bothLocatorsInput =
     Inr (LocatorSelectOptionArgs (Some ''a'') (Some ''#s'') (Some (One ''v'')) (Some (One ''l'')) None)"
  by (simp add: locatorSelectOptionSchema_def bothLocatorsInput_def)

lemma logged_locatorCall:
  "locatorCall (logged env) l m (w, evs) =
     (fst (locatorCall env l m w), (snd (locatorCall env l m w), evs @ [LocatorCalled l m (fst (locatorCall env l m w))]))"
  by (simp add: logged_def split: prod.splits)

lemma logged_randomUUID:
  "randomUUID (logged env) (w, evs) =
     (fst (randomUUID env w), (snd (randomUUID env w), evs @ [UUIDGenerated (fst (randomUUID env w))]))"
  by (simp add: logged_def split: prod.splits)

lemma logged_locatorAll:
  "locatorAll (logged env) l (w, evs) =
     (fst (locatorAll env l w), (snd (locatorAll env l w), evs @ [AllCalled l]))"
  by (simp add: logged_def split: prod.splits)

lemma selectOnLocator_logged:
  "chosenSelection val label index = Some sel \<Longrightarrow>
   selectOnLocator (logged env) loc val label index (w, evs) =
     (afterCall (fst (locatorCall env loc (SelectOption sel) w)),
      (snd (locatorCall env loc (SelectOption sel) w),
       evs @ [LocatorCalled loc (SelectOption sel) (fst (locatorCall env loc (SelectOption sel) w))]))"
  by (auto simp: chosenSelection_def selectOnLocator_def await_def return_def afterCall_def
        logged_locatorCall split: option.splits sum.splits)

text \<open>
  Claim C10, as the code has it. When the locator resolves (a non-empty \<open>elementId\<close>,
  or else a non-empty \<open>cssSelector\<close>) and a selection is supplied, the execution makes
  exactly one driver call, \<open>selectOption\<close> on the chosen locator with the chosen
  selection, whatever else is supplied. A non-empty \<open>elementId\<close> wins over
  \<open>cssSelector\<close>; an empty \<open>elementId\<close> falls through to \<open>cssSelector\<close>;
  \<open>value\<close> wins over \<open>label\<close>, and \<open>label\<close> over \<open>index\<close>.
\<close>

theorem select_option_precedence:
  "(chosenLocator elementId cssSelector = Some loc \<and> chosenSelection val label index = Some sel \<longrightarrow>
      locator_selectOption (logged env)
          (LocatorSelectOptionArgs elementId cssSelector val label index) (w, evs) =
        (afterCall (fst (locatorCall env loc (SelectOption sel) w)),
         (snd (locatorCall env loc (SelectOption sel) w),
          evs @ [LocatorCalled loc (SelectOption sel) (fst (locatorCall env loc (SelectOption sel) w))]))) \<and>
   (e \<noteq> [] \<longrightarrow> chosenLocator (Some e) cssSelector = Some (getLocator e)) \<and>
   (c \<noteq> [] \<longrightarrow> chosenLocator (Some []) (Some c) = Some (Locator c)) \<and>
   chosenSelection (Some v) label index = Some (valueOption v) \<and>
   chosenSelection None (Some l) index = Some (labelOption l) \<and>
   chosenSelection None None (Some i) = Some (indexOption i)"
proof -
  have "locator_selectOption (logged env)
          (LocatorSelectOptionArgs elementId cssSelector val label index) (w, evs) =
        (afterCall (fst (locatorCall env loc (SelectOption sel) w)),
         (snd (locatorCall env loc (SelectOption sel) w),
          evs @ [LocatorCalled loc (SelectOption sel) (fst (locatorCall env loc (SelectOption sel) w))]))"
    if l: "chosenLocator elementId cssSelector = Some loc" and s: "chosenSelection val label index = Some sel"
    using l selectOnLocator_logged [OF s, of env _ w evs]
    by (auto simp: chosenLocator_def split: option.splits)
  then show ?thesis
    by (simp add: chosenLocator_def chosenSelection_def nonEmpty_def)
qed

text \<open>
  The claim as stated fails for an \<open>elementId\<close> that is the empty string: the input
  passes the schema, and the execution uses \<open>cssSelector\<close>, or makes no driver call at
  all when there is none.
\<close>

lemma emptyElementId_accepted:
  "locatorSelectOptionSchema emptyElementIdInput =
     Inr (LocatorSelectOptionArgs (Some []) (Some ''#s'') (Some (One ''v'')) None None)"
  by (simp add: locatorSelectOptionSchema_def emptyElementIdInput_def)

theorem select_option_precedence_counterexample:
  "locatorSelectOptionSchema emptyElementIdInput =
     Inr (LocatorSelectOptionArgs (Some []) (Some ''#s'') (Some (One ''v'')) None None) \<and>
   locator_selectOption (logged exampleEnv)
       (LocatorSelectOptionArgs (Some []) (Some ''#s'') (Some (One ''v'')) None None) (0, []) =
     (Inr success, (0, [LocatorCalled (Locator ''#s'') (SelectOption (JStr ''v'')) (Inr JUndefined)])) \<and>
   Locator ''#s'' \<noteq> getLocator [] \<and>
   locatorSelectOptionSchema (JObj [(''elementId'', JStr []), (''value'', JStr ''v''), (''label'', JStr ''l'')]) =
     Inr (LocatorSelectOptionArgs (Some []) None (Some (One ''v'')) (Some (One ''l'')) None) \<and>
   locator_selectOption (logged exampleEnv)
       (LocatorSelectOptionArgs (Some []) None (Some (One ''v'')) (Some (One ''l'')) None) (0, []) =
     (Inl (Error ''You must provide either an elementId or a cssSelector.''), (0, []))"
proof -
  have 1: "locator_selectOption (logged exampleEnv)
       (LocatorSelectOptionArgs (Some []) (Some ''#s'') (Some (One ''v'')) None None) (0, []) =
     (Inr success, (0, [LocatorCalled (Locator ''#s'') (SelectOption (JStr ''v'')) (Inr JUndefined)]))"
    by (simp add: nonEmpty_def selectOnLocator_def await_def return_def logged_locatorCall
          exampleEnv_def)
  have 2: "Locator ''#s'' \<noteq> getLocator []"
    by (simp add: getLocator_def)
  have 3: "locatorSelectOptionSchema
       (JObj [(''elementId'', JStr []), (''value'', JStr ''v''), (''label'', JStr ''l'')]) =
     Inr (LocatorSelectOptionArgs (Some []) None (Some (One ''v'')) (Some (One ''l'')) None)"
    by (simp add: locatorSelectOptionSchema_def)
  have 4: "locator_selectOption (logged exampleEnv)
       (LocatorSelectOptionArgs (Some []) None (Some (One ''v'')) (Some (One ''l'')) None) (0, []) =
     (Inl (Error ''You must provide either an elementId or a cssSelector.''), (0, []))"
    by (simp add: nonEmpty_def throw_def)
  from emptyElementId_accepted 1 2 3 4 show ?thesis by blast
qed

theorem select_option_precedence_witness:
  "chosenLocator (Some ''a'') (Some ''#s'') = Some (getLocator ''a'') \<and>
   chosenSelection (Some (One ''v'')) (Some (One ''l'')) (Some (One 2)) = Some (JStr ''v'') \<and>
   locator_selectOption (logged exampleEnv)
       (LocatorSelectOptionArgs (Some ''a'') (Some ''#s'') (Some (One ''v'')) (Some (One ''l'')) (Some (One 2)))
       (0, []) =
     (Inr success, (0, [LocatorCalled (getLocator ''a'') (SelectOption (JStr ''v'')) (Inr JUndefined)])) \<and>
   selectOptionCalls [LocatorCalled (getLocator ''a'') (SelectOption (JStr ''v'')) (Inr JUndefined)] =
     [(getLocator ''a'', JStr ''v'')] \<and>
   chosenLocator (Some []) (Some ''#s'') = Some (Locator ''#s'')"
proof -
  note t = select_option_precedence [of "Some ''a''" "Some ''#s''" "getLocator ''a''" "Some (One ''v'')"
      "Some (One ''l'')" "Some (One 2)" "JStr ''v''" exampleEnv "0::nat" "[]" "''a''" "''#s''" "One ''v''" "One ''l''" "One 2"]
  have a: "chosenLocator (Some ''a'') (Some ''#s'') = Some (getLocator ''a'')"
    using t by simp
  have b: "chosenSelection (Some (One ''v'')) (Some (One ''l'')) (Some (One 2)) = Some (JStr ''v'')"
    using t by simp
  have c: "chosenLocator (Some []) (Some ''#s'') = Some (Locator ''#s'')"
    using t by simp
  have d: "locatorCall exampleEnv (getLocator ''a'') (SelectOption (JStr ''v'')) (0::nat) = (Inr JUndefined, 0)"
    by (simp add: exampleEnv_def)
  from t a b have "locator_selectOption (logged exampleEnv)
       (LocatorSelectOptionArgs (Some ''a'') (Some ''#s'') (Some (One ''v'')) (Some (One ''l'')) (Some (One 2)))
       (0, []) =
     (Inr success, (0, [LocatorCalled (getLocator ''a'') (SelectOption (JStr ''v'')) (Inr JUndefined)]))"
    by (simp add: d afterCall_def)
  with a b c show ?thesis by (simp add: selectOptionCalls_def)
qed

section \<open>Properties of the locating actions\<close>

lemma map_filter_app: "List.map_filter f (xs @ ys) = List.map_filter f xs @ List.map_filter f ys"
  by (induction xs) (auto split: option.splits)

lemmas log_defs = generated_def stamped_def visibilityAsked_def seenVisible_def

lemma assignAll_logged:
  "assignAll (logged env) locs acc (w, evs) = (Inr ids, (w', evs')) \<Longrightarrow>
   \<exists>new. ids = acc @ new \<and> length new = length locs \<and>
         stamped evs' = stamped evs @ zip locs new \<and>
         generated evs' = generated evs @ new"
proof (induction locs arbitrary: acc w evs)
  case Nil
  then show ?case by simp
next
  case (Cons l locs)
  let ?u = "fst (randomUUID env w)"
  let ?w1 = "snd (randomUUID env w)"
  let ?r = "fst (locatorCall env l (SetAttribute ''data-element-id'' ?u) ?w1)"
  let ?w2 = "snd (locatorCall env l (SetAttribute ''data-element-id'' ?u) ?w1)"
  let ?evs2 = "evs @ [UUIDGenerated ?u, LocatorCalled l (SetAttribute ''data-element-id'' ?u) ?r]"
  from Cons.prems obtain x where r: "?r = Inr x"
    and rest: "assignAll (logged env) locs (acc @ [?u]) (?w2, ?evs2) = (Inr ids, (w', evs'))"
    by (auto simp: logged_randomUUID logged_locatorCall await_def split: sum.splits)
  from Cons.IH [OF rest] obtain new where
    n: "ids = (acc @ [?u]) @ new" "length new = length locs"
       "stamped evs' = stamped ?evs2 @ zip locs new" "generated evs' = generated ?evs2 @ new"
    by blast
  have "stamped ?evs2 = stamped evs @ [(l, ?u)]" "generated ?evs2 = generated evs @ [?u]"
    using r by (simp_all add: log_defs map_filter_app)
  with n show ?case
    by (intro exI [of _ "?u # new"]) simp
qed

lemma assignVisible_logged:
  "assignVisible (logged env) locs acc (w, evs) = (Inr ids, (w', evs')) \<Longrightarrow>
   \<exists>new vis. ids = acc @ new \<and> length new = length vis \<and>
         seenVisible evs' = seenVisible evs @ vis \<and>
         visibilityAsked evs' = visibilityAsked evs @ locs \<and>
         stamped evs' = stamped evs @ zip vis new \<and>
         generated evs' = generated evs @ new"
proof (induction locs arbitrary: acc w evs)
  case Nil
  then show ?case by simp
next
  case (Cons l locs)
  let ?v = "fst (locatorCall env l IsVisible w)"
  let ?w0 = "snd (locatorCall env l IsVisible w)"
  let ?evs0 = "evs @ [LocatorCalled l IsVisible ?v]"
  from Cons.prems obtain b where v: "?v = Inr b"
    by (auto simp: logged_locatorCall await_def split: sum.splits)
  have asked: "visibilityAsked ?evs0 = visibilityAsked evs @ [l]"
    and st0: "stamped ?evs0 = stamped evs" and g0: "generated ?evs0 = generated evs"
    by (simp_all add: log_defs map_filter_app)
  show ?case
  proof (cases "truthy b")
    case False
    with Cons.prems v have rest: "assignVisible (logged env) locs acc (?w0, ?evs0) = (Inr ids, (w', evs'))"
      by (simp add: logged_locatorCall await_def)
    have sv: "seenVisible ?evs0 = seenVisible evs"
      using v False by (simp add: log_defs map_filter_app)
    from Cons.IH [OF rest] obtain new vis where
      "ids = acc @ new" "length new = length vis" "seenVisible evs' = seenVisible ?evs0 @ vis"
      "visibilityAsked evs' = visibilityAsked ?evs0 @ locs" "stamped evs' = stamped ?evs0 @ zip vis new"
      "generated evs' = generated ?evs0 @ new"
      by blast
    then show ?thesis
      unfolding sv asked st0 g0 by (intro exI [of _ new] exI [of _ vis]) simp
  next
    case True
    let ?u = "fst (randomUUID env ?w0)"
    let ?w1 = "snd (randomUUID env ?w0)"
    let ?r = "fst (locatorCall env l (SetAttribute ''data-element-id'' ?u) ?w1)"
    let ?w2 = "snd (locatorCall env l (SetAttribute ''data-element-id'' ?u) ?w1)"
    let ?evs2 = "?evs0 @ [UUIDGenerated ?u, LocatorCalled l (SetAttribute ''data-element-id'' ?u) ?r]"
    from Cons.prems v True obtain x where r: "?r = Inr x"
      and rest: "assignVisible (logged env) locs (acc @ [?u]) (?w2, ?evs2) = (Inr ids, (w', evs'))"
      by (auto simp: logged_randomUUID logged_locatorCall await_def split: sum.splits)
    have sv: "seenVisible ?evs2 = seenVisible evs @ [l]"
      using v True by (simp add: log_defs map_filter_app)
    have as2: "visibilityAsked ?evs2 = visibilityAsked evs @ [l]"
      by (simp add: log_defs map_filter_app)
    have st2: "stamped ?evs2 = stamped evs @ [(l, ?u)]" and g2: "generated ?evs2 = generated evs @ [?u]"
      using r by (simp_all add: log_defs map_filter_app)
    from Cons.IH [OF rest] obtain new vis where
      "ids = (acc @ [?u]) @ new" "length new = length vis" "seenVisible evs' = seenVisible ?evs2 @ vis"
      "visibilityAsked evs' = visibilityAsked ?evs2 @ locs" "stamped evs' = stamped ?evs2 @ zip vis new"
      "generated evs' = generated ?evs2 @ new"
      by blast
    then show ?thesis
      unfolding sv as2 st2 g2 by (intro exI [of _ "?u # new"] exI [of _ "l # vis"]) simp
  qed
qed


lemma locateElementsByRole_logged:
  assumes "locateElementsByRole (logged env) (LocateElementsByRoleArgs role exact) (w, []) = (Inr r, (w', evs))"
  shows "\<exists>locs ids. fst (locatorAll env (GetByRole role (orFalse exact)) w) = Inr locs \<and>
        r = locatedElements ids \<and> length ids = length locs \<and>
        stamped evs = zip locs ids \<and> generated evs = ids"
proof -
  let ?l = "GetByRole role (orFalse exact)"
  from assms obtain locs ids where l: "fst (locatorAll env ?l w) = Inr locs"
    and a: "assignAll (logged env) locs [] (snd (locatorAll env ?l w), [AllCalled ?l]) = (Inr ids, (w', evs))"
    and r: "r = locatedElements ids"
    by (auto simp: logged_locatorAll await_def return_def split: sum.splits prod.splits)
  from assignAll_logged [OF a] have "length ids = length locs" "stamped evs = zip locs ids" "generated evs = ids"
    by (auto simp: log_defs)
  with l r show ?thesis by blast
qed

lemma locateElementsWithText_logged:
  assumes "locateElementsWithText (logged env) (LocateElementsWithTextArgs txt exact) (w, []) = (Inr r, (w', evs))"
  shows "\<exists>locs ids. fst (locatorAll env (GetByText txt (orFalse exact)) w) = Inr locs \<and>
        r = locatedElements ids \<and> visibilityAsked evs = locs \<and> length ids = length (seenVisible evs) \<and>
        stamped evs = zip (seenVisible evs) ids \<and> generated evs = ids"
proof -
  let ?l = "GetByText txt (orFalse exact)"
  from assms obtain locs ids where l: "fst (locatorAll env ?l w) = Inr locs"
    and a: "assignVisible (logged env) locs [] (snd (locatorAll env ?l w), [AllCalled ?l]) = (Inr ids, (w', evs))"
    and r: "r = locatedElements ids"
    by (auto simp: logged_locatorAll await_def return_def split: sum.splits prod.splits)
  from assignVisible_logged [OF a]
  have "visibilityAsked evs = locs" "length ids = length (seenVisible evs)"
    "stamped evs = zip (seenVisible evs) ids" "generated evs = ids"
    by (auto simp: log_defs)
  with l r show ?thesis by blast
qed

lemma locateElement_logged:
  assumes "locateElement (logged env) (LocateElementArgs css) (w, []) = (Inr r, (w', evs))"
  shows "\<exists>i. r = JObj [(''elementId'', JStr i)] \<and> generated evs = [i] \<and>
             stamped evs = [(First (Locator css), i)]"
  using assms
  by (auto simp: logged_randomUUID logged_locatorCall await_def return_def Let_def log_defs
        split: sum.splits prod.splits)

text \<open>
  Claim C6, as the code has it. Locating by ARIA role and by text asks the driver for all
  matches, generates one identifier per match (for the text search: per match that
  answers visible, every match being asked), stamps it on that match, and returns the
  identifiers in order together with their count; with zero matches the result is the
  empty list with count 0 and no error. Locating by CSS selector generates one identifier,
  stamps it on the first match only and returns it alone, as \<open>{elementId}\<close>.
\<close>

theorem locating_actions_assign_identifiers:
  "(locateElementsByRole (logged env) (LocateElementsByRoleArgs role exact) (w, []) = (Inr r, (wx, evs)) \<longrightarrow>
      (\<exists>locs ids. fst (locatorAll env (GetByRole role (orFalse exact)) w) = Inr locs \<and>
         r = JObj [(''elementIds'', JArr (map JStr ids)), (''count'', JNum (real (length ids)))] \<and>
         length ids = length locs \<and> stamped evs = zip locs ids \<and> generated evs = ids)) \<and>
   (locatorAll env (GetByRole role (orFalse exact)) w = (Inr [], w1) \<longrightarrow>
      locateElementsByRole env (LocateElementsByRoleArgs role exact) w =
        (Inr (JObj [(''elementIds'', JArr []), (''count'', JNum 0)]), w1)) \<and>
   (locateElementsWithText (logged env) (LocateElementsWithTextArgs needle exact) (w, []) = (Inr r, (wx, evs)) \<longrightarrow>
      (\<exists>locs ids. fst (locatorAll env (GetByText needle (orFalse exact)) w) = Inr locs \<and>
         r = JObj [(''elementIds'', JArr (map JStr ids)), (''count'', JNum (real (length ids)))] \<and>
         visibilityAsked evs = locs \<and> length ids = length (seenVisible evs) \<and>
         stamped evs = zip (seenVisible evs) ids \<and> generated evs = ids)) \<and>
   (locatorAll env (GetByText needle (orFalse exact)) w = (Inr [], w1) \<longrightarrow>
      locateElementsWithText env (LocateElementsWithTextArgs needle exact) w =
        (Inr (JObj [(''elementIds'', JArr []), (''count'', JNum 0)]), w1)) \<and>
   (locateElement (logged env) (LocateElementArgs css) (w, []) = (Inr r, (wx, evs)) \<longrightarrow>
      (\<exists>i. r = JObj [(''elementId'', JStr i)] \<and> generated evs = [i] \<and>
           stamped evs = [(First (Locator css), i)]))"
proof -
  have z1: "locateElementsByRole env (LocateElementsByRoleArgs role exact) w =
        (Inr (JObj [(''elementIds'', JArr []), (''count'', JNum 0)]), w1)"
    if "locatorAll env (GetByRole role (orFalse exact)) w = (Inr [], w1)"
    using that by (simp add: await_def return_def locatedElements_def)
  have z2: "locateElementsWithText env (LocateElementsWithTextArgs needle exact) w =
        (Inr (JObj [(''elementIds'', JArr []), (''count'', JNum 0)]), w1)"
    if "locatorAll env (GetByText needle (orFalse exact)) w = (Inr [], w1)"
    using that by (simp add: await_def return_def locatedElements_def)
  note a = locateElementsByRole_logged [of env role exact w r wx evs]
  note b = locateElementsWithText_logged [of env needle exact w r wx evs]
  note c = locateElement_logged [of env css w r wx evs]
  show ?thesis
    using a b c z1 z2 unfolding locatedElements_def by blast
qed

lemma uuid0: "fst (randomUUID exampleEnv (0::nat)) = ''uuid-''" by (simp add: exampleEnv_def)

lemma byRole_example:
  "locateElementsByRole (logged exampleEnv) (LocateElementsByRoleArgs ''button'' None) (0, []) =
     (Inr (locatedElements [''uuid-'', ''uuid-x'', ''uuid-xx'']), (3, roleEvents))"
  by (simp add: logged_def exampleEnv_def await_def return_def roleEvents_def)

lemma byText_example:
  "locateElementsWithText (logged exampleEnv) (LocateElementsWithTextArgs ''Save'' None) (0, []) =
     (Inr (locatedElements [''uuid-'', ''uuid-x'']), (2, textEvents))"
  by (simp add: logged_def exampleEnv_def await_def return_def textEvents_def)

lemma locateElement_example:
  "locateElement (logged exampleEnv) (LocateElementArgs ''button'') (0, []) =
     (Inr (JObj [(''elementId'', JStr ''uuid-'')]), (1, cssEvents))"
  by (simp add: logged_def exampleEnv_def await_def return_def cssEvents_def)

theorem locating_actions_assign_identifiers_witness:
  "locateElementsByRole (logged exampleEnv) (LocateElementsByRoleArgs ''button'' None) (0, []) =
     (Inr (locatedElements [''uuid-'', ''uuid-x'', ''uuid-xx'']), (3, roleEvents)) \<and>
   stamped roleEvents =
     zip (map (Nth (GetByRole ''button'' False)) [0, 1, 2]) [''uuid-'', ''uuid-x'', ''uuid-xx''] \<and>
   generated roleEvents = [''uuid-'', ''uuid-x'', ''uuid-xx''] \<and>
   locateElementsByRole exampleEnv (LocateElementsByRoleArgs ''none'' None) 0 =
     (Inr (JObj [(''elementIds'', JArr []), (''count'', JNum 0)]), 0) \<and>
   locateElementsWithText (logged exampleEnv) (LocateElementsWithTextArgs ''Save'' None) (0, []) =
     (Inr (locatedElements [''uuid-'', ''uuid-x'']), (2, textEvents)) \<and>
   visibilityAsked textEvents = map (Nth (GetByText ''Save'' False)) [0, 1, 2] \<and>
   seenVisible textEvents = map (Nth (GetByText ''Save'' False)) [0, 2] \<and>
   stamped textEvents = zip (seenVisible textEvents) [''uuid-'', ''uuid-x''] \<and>
   locateElementsWithText exampleEnv (LocateElementsWithTextArgs ''none'' None) 0 =
     (Inr (JObj [(''elementIds'', JArr []), (''count'', JNum 0)]), 0) \<and>
   locateElement (logged exampleEnv) (LocateElementArgs ''button'') (0, []) =
     (Inr (JObj [(''elementId'', JStr ''uuid-'')]), (1, cssEvents)) \<and>
   stamped cssEvents = [(First (Locator ''button''), ''uuid-'')]"
proof -
  note r = locating_actions_assign_identifiers [where env = exampleEnv and role = "''button''"
      and exact = None and w = "0::nat" and r = "locatedElements [''uuid-'', ''uuid-x'', ''uuid-xx'']"
      and wx = 3 and evs = roleEvents]
  from r byRole_example obtain locs ids where
    "fst (locatorAll exampleEnv (GetByRole ''button'' (orFalse None)) (0::nat)) = Inr locs"
    "locatedElements [''uuid-'', ''uuid-x'', ''uuid-xx''] =
       JObj [(''elementIds'', JArr (map JStr ids)), (''count'', JNum (real (length ids)))]"
    "stamped roleEvents = zip locs ids" "generated roleEvents = ids"
    by blast
  then have role: "stamped roleEvents =
      zip (map (Nth (GetByRole ''button'' False)) [0, 1, 2]) [''uuid-'', ''uuid-x'', ''uuid-xx'']"
    "generated roleEvents = [''uuid-'', ''uuid-x'', ''uuid-xx'']"
    by (auto simp: exampleEnv_def generated_def roleEvents_def)
  note z = locating_actions_assign_identifiers [where env = exampleEnv and role = "''none''"
      and exact = None and w = "0::nat" and ?w1.0 = "0::nat"]
  have "locatorAll exampleEnv (GetByRole ''none'' (orFalse None)) (0::nat) = (Inr [], 0)"
    by (simp add: exampleEnv_def)
  with z have none: "locateElementsByRole exampleEnv (LocateElementsByRoleArgs ''none'' None) 0 =
     (Inr (JObj [(''elementIds'', JArr []), (''count'', JNum 0)]), 0)"
    by blast
  note zt = locating_actions_assign_identifiers [where env = exampleEnv and needle = "''none''"
      and exact = None and w = "0::nat" and ?w1.0 = "0::nat"]
  have "locatorAll exampleEnv (GetByText ''none'' (orFalse None)) (0::nat) = (Inr [], 0)"
    by (simp add: exampleEnv_def)
  with zt have nonet: "locateElementsWithText exampleEnv (LocateElementsWithTextArgs ''none'' None) 0 =
     (Inr (JObj [(''elementIds'', JArr []), (''count'', JNum 0)]), 0)"
    by blast
  note t = locating_actions_assign_identifiers [where env = exampleEnv and needle = "''Save''"
      and exact = None and w = "0::nat" and r = "locatedElements [''uuid-'', ''uuid-x'']"
      and wx = 2 and evs = textEvents]
  from t byText_example obtain locs' ids' where
    "locatedElements [''uuid-'', ''uuid-x''] =
       JObj [(''elementIds'', JArr (map JStr ids')), (''count'', JNum (real (length ids')))]"
    "stamped textEvents = zip (seenVisible textEvents) ids'"
    by blast
  then have txt1: "stamped textEvents = zip (seenVisible textEvents) [''uuid-'', ''uuid-x'']"
    by (auto simp: locatedElements_def)
  have txt2: "visibilityAsked textEvents = map (Nth (GetByText ''Save'' False)) [0, 1, 2]"
    "seenVisible textEvents = map (Nth (GetByText ''Save'' False)) [0, 2]"
    by (simp_all add: visibilityAsked_def seenVisible_def textEvents_def)
  note c = locating_actions_assign_identifiers [where env = exampleEnv and css = "''button''"
      and w = "0::nat" and r = "JObj [(''elementId'', JStr ''uuid-'')]" and wx = 1
      and evs = cssEvents]
  from c locateElement_example obtain i where
    "JObj [(''elementId'', JStr ''uuid-'')] = JObj [(''elementId'', JStr i)]"
    "stamped cssEvents = [(First (Locator ''button''), i)]"
    by blast
  then have css: "stamped cssEvents = [(First (Locator ''button''), ''uuid-'')]"
    by simp
  from byRole_example role none byText_example txt1 txt2 nonet locateElement_example css
  show ?thesis by blast
qed

text \<open>
  The claim as stated fails for the CSS-selector locate: in the example world the
  selector has three matches, one identifier is assigned (to the first match), and the
  result is a single identifier, not a list with a count.
\<close>

theorem locating_actions_css_counterexample:
  "locateElement (logged exampleEnv) (LocateElementArgs ''button'') (0, []) =
     (Inr (JObj [(''elementId'', JStr ''uuid-'')]), (1, cssEvents)) \<and>
   locatorAll exampleEnv (Locator ''button'') 0 = (Inr (map (Nth (Locator ''button'')) [0, 1, 2]), 0) \<and>
   stamped cssEvents = [(First (Locator ''button''), ''uuid-'')] \<and>
   JObj [(''elementId'', JStr ''uuid-'')] \<noteq> locatedElements [''uuid-'']"
proof -
  have "locatorAll exampleEnv (Locator ''button'') 0 = (Inr (map (Nth (Locator ''button'')) [0, 1, 2]), 0)"
    by (simp add: exampleEnv_def)
  moreover have "stamped cssEvents = [(First (Locator ''button''), ''uuid-'')]"
    by (simp add: stamped_def cssEvents_def)
  moreover have "JObj [(''elementId'', JStr ''uuid-'')] \<noteq> locatedElements [''uuid-'']"
    by (simp add: locatedElements_def)
  ultimately show ?thesis using locateElement_example by blast
qed

section \<open>Properties of the task orchestrator\<close>

lemma processToolCall_results:
  "processToolCall env actions st tc = Inr st' \<Longrightarrow>
   messages st' = messages st \<and>
   (\<exists>rs. toolCallResults st' = toolCallResults st @ rs \<and>
         map toolMessageId rs = map (Some \<circ> toolCallId) (filter isFunctionToolCall [tc]))"
  by (cases tc)
    (auto simp: errorResult_def split: property_value.splits sum.splits prod.splits)

lemma processToolCalls_results:
  "processToolCalls env actions st tcs = Inr st' \<Longrightarrow>
   messages st' = messages st \<and>
   (\<exists>rs. toolCallResults st' = toolCallResults st @ rs \<and>
         map toolMessageId rs = map (Some \<circ> toolCallId) (filter isFunctionToolCall tcs))"
proof (induction tcs arbitrary: st)
  case Nil
  then show ?case by simp
next
  case (Cons tc tcs)
  from Cons.prems obtain st1 where 1: "processToolCall env actions st tc = Inr st1"
    and 2: "processToolCalls env actions st1 tcs = Inr st'"
    by (auto split: sum.splits)
  from processToolCall_results [OF 1] obtain rs1 where
    a: "messages st1 = messages st" "toolCallResults st1 = toolCallResults st @ rs1"
       "map toolMessageId rs1 = map (Some \<circ> toolCallId) (filter isFunctionToolCall [tc])"
    by blast
  from Cons.IH [OF 2] obtain rs2 where
    b: "messages st' = messages st1" "toolCallResults st' = toolCallResults st1 @ rs2"
       "map toolMessageId rs2 = map (Some \<circ> toolCallId) (filter isFunctionToolCall tcs)"
    by blast
  from a b show ?case
    by (intro conjI exI [of _ "rs1 @ rs2"]) auto
qed

text \<open>
  Claim C2, as the code has it. When a turn is processed and the next model request is
  issued, the conversation has grown by the assistant message followed by exactly one
  tool-result message for each requested call of type \<open>function\<close>, in the order of the
  calls, and the request carries the conversation in that state. A requested call of
  another type gets no tool-result message.
\<close>

theorem tool_results_follow_function_calls:
  "turn env actions task st msg tcs = Inr (st', reply) \<longrightarrow>
     (\<exists>results w.
        messages st' = messages st @ AssistantParam msg # results \<and>
        map toolMessageId results = map (Some \<circ> toolCallId) (filter isFunctionToolCall tcs) \<and>
        chatCompletionsCreate env
          \<lparr>req_model = modelOf task, req_messages = messages st',
           req_tools = toolsOf actions, req_tool_choice = None\<rparr> w = (Inr reply, world st'))"
proof
  assume t: "turn env actions task st msg tcs = Inr (st', reply)"
  let ?st0 = "st\<lparr>messages := messages st @ [AssistantParam msg], toolCallResults := []\<rparr>"
  from t obtain st1 where p: "processToolCalls env actions ?st0 tcs = Inr st1"
    by (auto simp: turn_def split: sum.splits)
  let ?st2 = "st1\<lparr>messages := messages st1 @ toolCallResults st1\<rparr>"
  let ?req = "\<lparr>req_model = modelOf task, req_messages = messages ?st2,
           req_tools = toolsOf actions, req_tool_choice = None\<rparr>"
  from t p have c: "chatCompletionsCreate env ?req (world ?st2) = (Inr reply, world st')"
    and m: "messages st' = messages ?st2"
    by (auto simp: turn_def Let_def split: sum.splits prod.splits)
  from processToolCalls_results [OF p] obtain rs where
    r: "messages st1 = messages st @ [AssistantParam msg]" "toolCallResults st1 = rs"
       "map toolMessageId rs = map (Some \<circ> toolCallId) (filter isFunctionToolCall tcs)"
    by auto
  from m r have "messages st' = messages st @ AssistantParam msg # rs" by simp
  with r(3) c m show "\<exists>results w.
        messages st' = messages st @ AssistantParam msg # results \<and>
        map toolMessageId results = map (Some \<circ> toolCallId) (filter isFunctionToolCall tcs) \<and>
        chatCompletionsCreate env
          \<lparr>req_model = modelOf task, req_messages = messages st',
           req_tools = toolsOf actions, req_tool_choice = None\<rparr> w = (Inr reply, world st')"
    by (intro exI [of _ rs] exI [of _ "world ?st2"]) simp
qed

lemma processToolCalls_append:
  "processToolCalls env actions st (xs @ ys) =
     (case processToolCalls env actions st xs of
        Inl e \<Rightarrow> Inl e
      | Inr st' \<Rightarrow> processToolCalls env actions st' ys)"
  by (induction xs arbitrary: st) (auto split: sum.splits)

lemma registered_calls_never_throw:
  "(\<And>i f a. FunctionToolCall i f a \<in> set tcs \<Longrightarrow> map_of actions f \<noteq> None) \<Longrightarrow>
   \<exists>st'. processToolCalls env actions st tcs = Inr st'"
proof (induction tcs arbitrary: st)
  case Nil
  then show ?case by simp
next
  case (Cons tc tcs)
  have "\<exists>st1. processToolCall env actions st tc = Inr st1"
  proof (cases tc)
    case (FunctionToolCall i f a)
    with Cons.prems [of i f a] obtain action where "map_of actions f = Some action" by auto
    with FunctionToolCall show ?thesis
      by (auto simp: getProperty_def split: sum.splits prod.splits)
  next
    case (OtherToolCall i t)
    then show ?thesis by simp
  qed
  then obtain st1 where 1: "processToolCall env actions st tc = Inr st1" by blast
  have "\<exists>st'. processToolCalls env actions st1 tcs = Inr st'"
    by (rule Cons.IH) (use Cons.prems in auto)
  then obtain st' where "processToolCalls env actions st1 tcs = Inr st'" by blast
  with 1 show ?case by simp
qed

lemma failed_call_in_turn:
  assumes b: "processToolCalls env actions
                (s\<lparr>messages := messages s @ [AssistantParam msg], toolCallResults := []\<rparr>) before = Inr s1"
    and r: "map_of actions fname = Some action" "run action arguments (world s1) = (Inl e, w)"
    and a: "processToolCalls env actions
              (s1\<lparr>world := w,
                  toolCallResults := toolCallResults s1 @
                    [ToolMessage tid (JSON_stringify env (JObj [(''error'', JStr (message e))]))],
                  dispatched := dispatched s1 @ [(fname, Inl e)]\<rparr>) after = Inr s2"
    and c: "chatCompletionsCreate env
              \<lparr>req_model = modelOf task, req_messages = messages s2 @ toolCallResults s2,
               req_tools = toolsOf actions, req_tool_choice = None\<rparr> (world s2) = (Inr reply, w2)"
  shows "turn env actions task s msg (before @ FunctionToolCall tid fname arguments # after) =
           Inr (s2\<lparr>messages := messages s2 @ toolCallResults s2, world := w2\<rparr>, reply)"
    and "\<exists>later. messages s2 @ toolCallResults s2 =
           messages s @ AssistantParam msg # toolCallResults s1 @
           ToolMessage tid (JSON_stringify env (JObj [(''error'', JStr (message e))])) # later"
proof -
  from r have "processToolCall env actions s1 (FunctionToolCall tid fname arguments) =
      Inr (s1\<lparr>world := w,
              toolCallResults := toolCallResults s1 @
                [ToolMessage tid (JSON_stringify env (JObj [(''error'', JStr (message e))]))],
              dispatched := dispatched s1 @ [(fname, Inl e)]\<rparr>)"
    by (simp add: getProperty_def errorResult_def)
  with b a have "processToolCalls env actions
      (s\<lparr>messages := messages s @ [AssistantParam msg], toolCallResults := []\<rparr>)
      (before @ FunctionToolCall tid fname arguments # after) = Inr s2"
    by (simp add: processToolCalls_append)
  with c show "turn env actions task s msg (before @ FunctionToolCall tid fname arguments # after) =
           Inr (s2\<lparr>messages := messages s2 @ toolCallResults s2, world := w2\<rparr>, reply)"
    by (simp add: turn_def Let_def)
  from processToolCalls_results [OF b] have m1: "messages s1 = messages s @ [AssistantParam msg]"
    by simp
  from processToolCalls_results [OF a] obtain rs where
    "messages s2 = messages s1"
    "toolCallResults s2 = (toolCallResults s1 @
       [ToolMessage tid (JSON_stringify env (JObj [(''error'', JStr (message e))]))]) @ rs"
    by auto
  with m1 show "\<exists>later. messages s2 @ toolCallResults s2 =
           messages s @ AssistantParam msg # toolCallResults s1 @
           ToolMessage tid (JSON_stringify env (JObj [(''error'', JStr (message e))])) # later"
    by simp
qed


text \<open>
  Claim C3. When the action of a registered name fails, the failure does not leave the
  task. The call yields a tool-result with the content \<open>{error: message}\<close> and the
  loop over the calls goes on with the next call; a turn whose function calls all name
  registered actions cannot throw out of that loop, whatever the actions do. When the
  rest of the turn is processed and the model answers the next request, the turn ends
  normally: the conversation sent with that request, and kept for the next pass, holds
  the assistant message, the results of the earlier calls, the error tool-result and
  the results of the later calls, and the \<open>while\<close> loop goes on from that state with
  the model's answer. A failure of the argument parsing or validation and a failure of
  the execution body both surface as the same error value of the action, and so give a
  payload of the same shape.
\<close>

theorem error_results_are_recoverable:
  "(map_of actions fname = Some action \<and> run action arguments (world st) = (Inl e, w) \<longrightarrow>
      processToolCall env actions st (FunctionToolCall tid fname arguments) =
        Inr (st\<lparr>world := w,
                toolCallResults := toolCallResults st @
                  [ToolMessage tid (JSON_stringify env (JObj [(''error'', JStr (message e))]))],
                dispatched := dispatched st @ [(fname, Inl e)]\<rparr>) \<and>
      processToolCalls env actions st (FunctionToolCall tid fname arguments # rest) =
        processToolCalls env actions
          (st\<lparr>world := w,
              toolCallResults := toolCallResults st @
                [ToolMessage tid (JSON_stringify env (JObj [(''error'', JStr (message e))]))],
              dispatched := dispatched st @ [(fname, Inl e)]\<rparr>) rest) \<and>
   (prs arguments = Inl e \<longrightarrow> run (actionTool n prs body) arguments w0 = (Inl e, w0)) \<and>
   (prs arguments = Inr a \<and> body a w0 = (Inl e, w1) \<longrightarrow>
      run (actionTool n prs body) arguments w0 = (Inl e, w1)) \<and>
   ((\<forall>i f x. FunctionToolCall i f x \<in> set tcs \<longrightarrow> map_of actions f \<noteq> None) \<longrightarrow>
      (\<exists>st'. processToolCalls env actions st tcs = Inr st')) \<and>
   (processToolCalls env actions
      (s\<lparr>messages := messages s @
            [AssistantParam (AssistantMessage c
               (Some (before @ FunctionToolCall tid fname arguments # after)))],
         toolCallResults := []\<rparr>) before = Inr s1 \<and>
    map_of actions fname = Some action \<and>
    run action arguments (world s1) = (Inl e, w) \<and>
    processToolCalls env actions
      (s1\<lparr>world := w,
          toolCallResults := toolCallResults s1 @
            [ToolMessage tid (JSON_stringify env (JObj [(''error'', JStr (message e))]))],
          dispatched := dispatched s1 @ [(fname, Inl e)]\<rparr>) after = Inr s2 \<and>
    chatCompletionsCreate env
      \<lparr>req_model = modelOf task, req_messages = messages s2 @ toolCallResults s2,
       req_tools = toolsOf actions, req_tool_choice = None\<rparr> (world s2) = (Inr reply, w2) \<longrightarrow>
      turn env actions task s
          (AssistantMessage c (Some (before @ FunctionToolCall tid fname arguments # after)))
          (before @ FunctionToolCall tid fname arguments # after) =
        Inr (s2\<lparr>messages := messages s2 @ toolCallResults s2, world := w2\<rparr>, reply) \<and>
      (\<exists>later. messages s2 @ toolCallResults s2 =
         messages s @
         AssistantParam (AssistantMessage c
           (Some (before @ FunctionToolCall tid fname arguments # after))) #
         toolCallResults s1 @
         ToolMessage tid (JSON_stringify env (JObj [(''error'', JStr (message e))])) # later) \<and>
      whileToolCalls (Suc fuel) env actions task s
          (Some (AssistantMessage c
             (Some (before @ FunctionToolCall tid fname arguments # after)))) =
        whileToolCalls fuel env actions task
          (s2\<lparr>messages := messages s2 @ toolCallResults s2, world := w2\<rparr>) reply)"
proof (intro conjI impI)
  assume h: "processToolCalls env actions
      (s\<lparr>messages := messages s @
            [AssistantParam (AssistantMessage c
               (Some (before @ FunctionToolCall tid fname arguments # after)))],
         toolCallResults := []\<rparr>) before = Inr s1 \<and>
    map_of actions fname = Some action \<and>
    run action arguments (world s1) = (Inl e, w) \<and>
    processToolCalls env actions
      (s1\<lparr>world := w,
          toolCallResults := toolCallResults s1 @
            [ToolMessage tid (JSON_stringify env (JObj [(''error'', JStr (message e))]))],
          dispatched := dispatched s1 @ [(fname, Inl e)]\<rparr>) after = Inr s2 \<and>
    chatCompletionsCreate env
      \<lparr>req_model = modelOf task, req_messages = messages s2 @ toolCallResults s2,
       req_tools = toolsOf actions, req_tool_choice = None\<rparr> (world s2) = (Inr reply, w2)"
  let ?msg = "AssistantMessage c (Some (before @ FunctionToolCall tid fname arguments # after))"
  from h have t: "turn env actions task s ?msg
      (before @ FunctionToolCall tid fname arguments # after) =
        Inr (s2\<lparr>messages := messages s2 @ toolCallResults s2, world := w2\<rparr>, reply)"
    by (intro failed_call_in_turn(1) [where ?s1.0 = s1 and action = action and e = e and w = w])
       blast+
  then show "turn env actions task s ?msg
      (before @ FunctionToolCall tid fname arguments # after) =
        Inr (s2\<lparr>messages := messages s2 @ toolCallResults s2, world := w2\<rparr>, reply)" .
  from h show "\<exists>later. messages s2 @ toolCallResults s2 =
         messages s @ AssistantParam ?msg # toolCallResults s1 @
         ToolMessage tid (JSON_stringify env (JObj [(''error'', JStr (message e))])) # later"
    by (intro failed_call_in_turn(2) [where action = action and w = w and task = task
          and reply = reply and ?w2.0 = w2 and fname = fname and arguments = arguments
          and actions = actions and before = before and after = after])
       blast+
  from t show "whileToolCalls (Suc fuel) env actions task s (Some ?msg) =
        whileToolCalls fuel env actions task
          (s2\<lparr>messages := messages s2 @ toolCallResults s2, world := w2\<rparr>) reply"
    by simp
next
  assume "\<forall>i f x. FunctionToolCall i f x \<in> set tcs \<longrightarrow> map_of actions f \<noteq> None"
  then show "\<exists>st'. processToolCalls env actions st tcs = Inr st'"
    by (intro registered_calls_never_throw) blast
qed (simp_all add: getProperty_def errorResult_def run_actionTool)

lemma registry_toString: "getProperty (createActions env) ''toString'' = Inherited"
  by (simp add: createActions_def getProperty_def objectPrototypeKeys_def)

lemma exampleEnv_fields:
  "JSON_stringify exampleEnv = renderJs"
  "zodMessage exampleEnv = (\<lambda>issues. ''invalid arguments'')"
  "SYSTEM_PROMPT exampleEnv = ''system''"
  "chatCompletionsCreate exampleEnv = (\<lambda>req w. (Inr (exampleModel req), w))"
  "locatorCall exampleEnv = (\<lambda>l m w. (Inr (exampleLocatorCall l m), w))"
  by (simp_all add: exampleEnv_def)

text \<open>
  Claim C4 at a failing input. \<open>toString\<close> is not a key of the registry, yet
  \<open>actions["toString"]\<close> is truthy (it is inherited from \<open>Object.prototype\<close>), so the
  guard against unknown names does not fire; the call fails inside the \<open>try\<close> block and
  becomes an error tool-result instead of a fatal failure. In the example world the turn
  that requests \<open>toString\<close> ends normally and the next model request is issued.
\<close>

theorem inherited_name_is_not_fatal:
  "map_of (createActions env) ''toString'' = None \<and>
   processToolCall env (createActions env) st (FunctionToolCall tid ''toString'' arguments) =
     Inr (st\<lparr>toolCallResults := toolCallResults st @
            [ToolMessage tid
               (JSON_stringify env (JObj [(''error'', JStr ''action.parse is not a function'')]))]\<rparr>) \<and>
   turn exampleEnv (createActions exampleEnv) exampleTask (initialState exampleEnv exampleTask 0)
       toStringCallMessage [FunctionToolCall ''call_7'' ''toString'' noArgumentsText] =
     Inr (\<lparr> world = 0,
            messages =
              [SystemMessage ''system'', UserMessage ''do it'', AssistantParam toStringCallMessage,
               ToolMessage ''call_7'' ''{error:action.parse is not a function,}''],
            lastFunctionResult = JNull,
            toolCallResults =
              [ToolMessage ''call_7'' ''{error:action.parse is not a function,}''],
            dispatched = [] \<rparr>,
          Some (AssistantMessage None
            (Some [FunctionToolCall ''call_2'' ''resultAssertion'' assertionText,
                   FunctionToolCall ''call_3'' ''locator_click'' badClickText])))"
proof -
  have b: "map_of (createActions env) ''toString'' = None"
    by (simp add: createActions_def)
  have c: "turn exampleEnv (createActions exampleEnv) exampleTask (initialState exampleEnv exampleTask 0)
       toStringCallMessage [FunctionToolCall ''call_7'' ''toString'' noArgumentsText] =
     Inr (\<lparr> world = 0,
            messages =
              [SystemMessage ''system'', UserMessage ''do it'', AssistantParam toStringCallMessage,
               ToolMessage ''call_7'' ''{error:action.parse is not a function,}''],
            lastFunctionResult = JNull,
            toolCallResults =
              [ToolMessage ''call_7'' ''{error:action.parse is not a function,}''],
            dispatched = [] \<rparr>,
          Some (AssistantMessage None
            (Some [FunctionToolCall ''call_2'' ''resultAssertion'' assertionText,
                   FunctionToolCall ''call_3'' ''locator_click'' badClickText])))"
    by (simp add: turn_def registry_toString initialState_def exampleTask_def errorResult_def
          modelOf_def exampleModel_def exampleEnv_fields)
  from registry_toString [of env] b c show ?thesis
    by (simp add: errorResult_def)
qed

lemma unknown_function_fatal:
  "getProperty actions fname = Undefined \<Longrightarrow>
   processToolCalls env actions st (FunctionToolCall tid fname arguments # rest) =
     Inl (Error (''Unknown function: '' @ fname))"
  by simp

lemma terminalValues_snoc:
  "terminalValues (h @ [x]) = terminalValues h @ (case terminalValueOf x of None \<Rightarrow> [] | Some v \<Rightarrow> [v])"
  by (simp add: terminalValues_def map_filter_app split: option.splits)

lemma processToolCall_invariant:
  assumes "resultsTruthy actions" "slotInvariant st" "processToolCall env actions st tc = Inr st'"
  shows "slotInvariant st'"
proof (cases tc)
  case (OtherToolCall i t)
  with assms show ?thesis by simp
next
  case (FunctionToolCall tid fname arguments)
  show ?thesis
  proof (cases "getProperty actions fname")
    case Undefined
    with assms FunctionToolCall show ?thesis by simp
  next
    case Inherited
    with assms FunctionToolCall show ?thesis by (auto simp: slotInvariant_def)
  next
    case (Own action)
    then have reg: "map_of actions fname = Some action"
      by (auto simp: getProperty_def split: option.splits if_splits)
    obtain r w where run: "run action arguments (world st) = (r, w)" by (cases "run action arguments (world st)")
    show ?thesis
    proof (cases r)
      case (Inl e)
      with assms FunctionToolCall Own run show ?thesis
        by (auto simp: slotInvariant_def lastTerminalResult_def terminalValues_snoc)
    next
      case (Inr v)
      show ?thesis
      proof (cases "startsWith fname ''result''")
        case True
        with assms(1) reg run Inr have "truthy v"
          unfolding resultsTruthy_def by blast
        with assms FunctionToolCall Own run Inr True show ?thesis
          by (auto simp: slotInvariant_def lastTerminalResult_def terminalValues_snoc)
      next
        case False
        with assms FunctionToolCall Own run Inr show ?thesis
          by (auto simp: slotInvariant_def lastTerminalResult_def terminalValues_snoc)
      qed
    qed
  qed
qed

lemma processToolCalls_invariant:
  "resultsTruthy actions \<Longrightarrow> slotInvariant st \<Longrightarrow> processToolCalls env actions st tcs = Inr st' \<Longrightarrow>
   slotInvariant st'"
proof (induction tcs arbitrary: st)
  case Nil
  then show ?case by simp
next
  case (Cons tc tcs)
  from Cons.prems(3) obtain st1 where 1: "processToolCall env actions st tc = Inr st1"
    and 2: "processToolCalls env actions st1 tcs = Inr st'"
    by (auto split: sum.splits)
  from processToolCall_invariant [OF Cons.prems(1,2) 1] Cons.IH [OF Cons.prems(1) _ 2]
  show ?case by blast
qed

lemma turn_invariant:
  assumes "resultsTruthy actions" "slotInvariant st" "turn env actions task st msg tcs = Inr (st', reply)"
  shows "slotInvariant st'"
proof -
  let ?st0 = "st\<lparr>messages := messages st @ [AssistantParam msg], toolCallResults := []\<rparr>"
  from assms(3) obtain st1 where p: "processToolCalls env actions ?st0 tcs = Inr st1"
    by (auto simp: turn_def split: sum.splits)
  have "slotInvariant ?st0" using assms(2) by (simp add: slotInvariant_def)
  from processToolCalls_invariant [OF assms(1) this p] have "slotInvariant st1" .
  moreover from assms(3) p obtain w where "st' = st1\<lparr>messages := messages st1 @ toolCallResults st1, world := w\<rparr>"
    by (auto simp: turn_def Let_def split: sum.splits prod.splits)
  ultimately show ?thesis by (simp add: slotInvariant_def)
qed

lemma whileToolCalls_invariant:
  "resultsTruthy actions \<Longrightarrow> slotInvariant st \<Longrightarrow>
   whileToolCalls fuel env actions task st reply = Some (Inr (st', reply')) \<Longrightarrow>
   slotInvariant st' \<and> requestedToolCalls reply' = None"
proof (induction fuel arbitrary: st reply)
  case 0
  then show ?case by (auto split: option.splits)
next
  case (Suc fuel)
  show ?case
  proof (cases "requestedToolCalls reply")
    case None
    with Suc.prems show ?thesis by auto
  next
    case (Some mt)
    obtain msg tcs where mt: "mt = (msg, tcs)" by (cases mt)
    from Suc.prems(3) Some mt obtain st1 reply1 where
      t: "turn env actions task st msg tcs = Inr (st1, reply1)"
      and w: "whileToolCalls fuel env actions task st1 reply1 = Some (Inr (st', reply'))"
      by (auto split: sum.splits)
    from turn_invariant [OF Suc.prems(1,2) t] Suc.IH [OF Suc.prems(1) _ w]
    show ?thesis by blast
  qed
qed

lemma whileToolCalls_mono:
  "whileToolCalls fuel env actions task st reply = Some r \<Longrightarrow> fuel \<le> fuel' \<Longrightarrow>
   whileToolCalls fuel' env actions task st reply = Some r"
proof (induction fuel arbitrary: st reply fuel')
  case 0
  then show ?case by (auto split: option.splits)
next
  case (Suc fuel)
  from Suc.prems(2) obtain k where k: "fuel' = Suc k" "fuel \<le> k" by (cases fuel') auto
  show ?case
  proof (cases "requestedToolCalls reply")
    case None
    with Suc.prems show ?thesis by (auto simp del: whileToolCalls.simps simp: whileToolCalls.simps [of fuel'] whileToolCalls.simps [of "Suc fuel"])
  next
    case (Some mt)
    obtain msg tcs where mt: "mt = (msg, tcs)" by (cases mt)
    show ?thesis
    proof (cases "turn env actions task st msg tcs")
      case (Inl e)
      with Suc.prems(1) Some mt k show ?thesis by auto
    next
      case (Inr p)
      obtain st1 reply1 where p: "p = (st1, reply1)" by (cases p)
      with Suc.prems(1) Some mt Inr have "whileToolCalls fuel env actions task st1 reply1 = Some r" by simp
      from Suc.IH [OF this k(2)] Some mt Inr p k show ?thesis by simp
    qed
  qed
qed

lemma resultAssertion_truthy: "resultAssertion a w = (Inr v, w') \<Longrightarrow> truthy v"
  by (cases a) (auto simp: return_def)

lemma resultQuery_truthy: "resultQuery a w = (Inr v, w') \<Longrightarrow> truthy v"
  by (cases a) (auto simp: return_def)

lemma resultAction_truthy: "resultAction a w = (Inr v, w') \<Longrightarrow> truthy v"
  by (cases a) (auto simp: return_def success_def)

lemma resultError_truthy: "resultError a w = (Inr v, w') \<Longrightarrow> truthy v"
  by (cases a) (auto simp: return_def)

lemma run_actionTool_Inr:
  "run (actionTool n parse function) args w = (Inr v, w') \<Longrightarrow>
   \<exists>a. parse args = Inr a \<and> function a w = (Inr v, w')"
  by (auto simp: run_actionTool split: sum.splits)

lemma startsWith_result: "startsWith fname ''result'' \<Longrightarrow> \<exists>rest. fname = ''result'' @ rest"
  unfolding startsWith_def by (metis append_take_drop_id length_Cons list.size(3))

lemma createActions_result_class:
  assumes "map_of (createActions env) fname = Some action" "startsWith fname ''result''"
  shows "action = actionTool ''resultAssertion'' (parseWith env resultAssertionSchema) resultAssertion \<or>
         action = actionTool ''resultQuery'' (parseWith env resultQuerySchema) resultQuery \<or>
         action = actionTool ''resultAction'' (parseWith env emptyObjectSchema) resultAction \<or>
         action = actionTool ''resultError'' (parseWith env resultErrorSchema) resultError"
proof -
  from assms(2) obtain rest where "fname = ''result'' @ rest" by (blast dest: startsWith_result)
  with assms(1) show ?thesis
    by (simp add: createActions_def split: if_splits)
qed

lemma createActions_resultsTruthy: "resultsTruthy (createActions env)"
  unfolding resultsTruthy_def
  by (auto dest!: createActions_result_class run_actionTool_Inr
        dest: resultAssertion_truthy resultQuery_truthy resultAction_truthy resultError_truthy)


lemma initialState_invariant: "slotInvariant ((initialState env task w)\<lparr>world := w1\<rparr>)"
  by (simp add: slotInvariant_def initialState_def lastTerminalResult_def terminalValues_def)

lemma runTask_mono:
  "runTask fuel env task w = Some r \<Longrightarrow> fuel \<le> fuel' \<Longrightarrow> runTask fuel' env task w = Some r"
  unfolding runTask_def Let_def
  by (auto simp del: whileToolCalls.simps split: prod.splits sum.splits dest: whileToolCalls_mono)

lemma runTask_invariant:
  "runTask fuel env task w = Some (Inr (st, reply)) \<Longrightarrow>
   slotInvariant st \<and> requestedToolCalls reply = None"
  unfolding runTask_def Let_def
  by (auto simp del: whileToolCalls.simps split: prod.splits sum.splits
        dest!: whileToolCalls_invariant [OF createActions_resultsTruthy initialState_invariant])

text \<open>
  Claim C1. When the loop of \<open>completeTask\<close> ends, the last model turn carries no tool
  call, and from then on (with that much fuel or more) \<open>completeTask\<close> returns the value
  of the most recent successful call of a result-class action in the whole conversation;
  when no result-class call ever succeeded it fails with the error \<open>Expected to have a
  result from one of the result functions\<close> instead of returning a value.
\<close>

theorem terminal_result_is_most_recent:
  "runTask fuel env task w = Some (Inr (st, reply)) \<longrightarrow>
     requestedToolCalls reply = None \<and>
     (\<forall>fuel'. fuel \<le> fuel' \<longrightarrow>
        completeTask fuel' env task w =
          (case lastTerminalResult (dispatched st) of
             Some v \<Rightarrow> Some (Inr v)
           | None \<Rightarrow>
               Some (Inl (Error ''Expected to have a result from one of the result functions''))))"
proof (intro impI conjI allI)
  assume r: "runTask fuel env task w = Some (Inr (st, reply))"
  from runTask_invariant [OF r] show "requestedToolCalls reply = None" by simp
  fix fuel'
  assume "fuel \<le> fuel'"
  from runTask_mono [OF r this] have r': "runTask fuel' env task w = Some (Inr (st, reply))" .
  from runTask_invariant [OF r] have inv: "slotInvariant st" by simp
  show "completeTask fuel' env task w =
          (case lastTerminalResult (dispatched st) of
             Some v \<Rightarrow> Some (Inr v)
           | None \<Rightarrow>
               Some (Inl (Error ''Expected to have a result from one of the result functions'')))"
  proof (cases "terminalValues (dispatched st) = []")
    case True
    with inv r' show ?thesis
      by (simp add: completeTask_def slotInvariant_def lastTerminalResult_def)
  next
    case False
    with inv have "truthy (last (terminalValues (dispatched st)))"
      by (simp add: slotInvariant_def list_all_iff)
    with inv r' False show ?thesis
      by (simp add: completeTask_def slotInvariant_def lastTerminalResult_def)
  qed
qed

lemmas text_defs = noArgumentsText_def queryText_def assertionText_def badClickText_def
  goodClickText_def valueOnlyText_def

lemma exampleEnv_parse:
  "JSON_parse exampleEnv queryText = Inr (JObj [(''query'', JStr ''first'')])"
  "JSON_parse exampleEnv assertionText = Inr (JObj [(''assertion'', JBool True)])"
  "JSON_parse exampleEnv badClickText = Inr (JObj [(''elementId'', JNum 7)])"
  "JSON_parse exampleEnv goodClickText = Inr (JObj [(''elementId'', JStr ''x'')])"
  "JSON_parse exampleEnv noArgumentsText = Inr (JObj [])"
  by (simp_all add: exampleEnv_def exampleJSON_def text_defs)

lemma registry_lookup:
  "getProperty (createActions env) ''resultQuery'' =
     Own (actionTool ''resultQuery'' (parseWith env resultQuerySchema) resultQuery)"
  "getProperty (createActions env) ''resultAssertion'' =
     Own (actionTool ''resultAssertion'' (parseWith env resultAssertionSchema) resultAssertion)"
  "getProperty (createActions env) ''locator_click'' =
     Own (actionTool ''locator_click'' (parseWith env locatorElementIdSchema) (locator_click env))"
  by (simp_all add: createActions_def getProperty_def)

lemma example_calls:
  "run (actionTool ''resultQuery'' (parseWith exampleEnv resultQuerySchema) resultQuery) queryText (w::nat) =
     (Inr (JObj [(''query'', JStr ''first'')]), w)"
  "run (actionTool ''resultAssertion'' (parseWith exampleEnv resultAssertionSchema) resultAssertion)
       assertionText (w::nat) = (Inr (JObj [(''assertion'', JBool True)]), w)"
  "run (actionTool ''locator_click'' (parseWith exampleEnv locatorElementIdSchema) (locator_click exampleEnv))
       badClickText (w::nat) = (Inl (Error ''invalid arguments''), w)"
  by (simp_all add: run_actionTool parseWith_def exampleEnv_parse exampleEnv_fields
        resultQuerySchema_def resultAssertionSchema_def locatorElementIdSchema_def zObject1_def return_def)

lemma example_run:
  "runTask (Suc (Suc 0)) exampleEnv exampleTask 0 =
     Some (Inr (exampleFinalState, Some (AssistantMessage (Some ''done'') None)))"
  by (simp add: runTask_def initialState_def exampleTask_def exampleEnv_fields exampleModel_def
        turn_def registry_lookup example_calls errorResult_def startsWith_def modelOf_def
        exampleFinalState_def del: renderJs.simps)

theorem terminal_result_is_most_recent_witness:
  "runTask (Suc (Suc 0)) exampleEnv exampleTask 0 = Some (Inr (exampleFinalState, doneReply)) \<and>
   requestedToolCalls doneReply = None \<and>
   lastTerminalResult (dispatched exampleFinalState) = Some (JObj [(''assertion'', JBool True)]) \<and>
   completeTask (Suc (Suc 0)) exampleEnv exampleTask 0 = Some (Inr (JObj [(''assertion'', JBool True)])) \<and>
   completeTask 7 exampleEnv exampleTask 0 = Some (Inr (JObj [(''assertion'', JBool True)])) \<and>
   runTask 0 silentModelEnv exampleTask 0 =
     Some (Inr (initialState silentModelEnv exampleTask 0,
                Some (AssistantMessage (Some ''nothing to do'') None))) \<and>
   completeTask 0 silentModelEnv exampleTask 0 =
     Some (Inl (Error ''Expected to have a result from one of the result functions''))"
proof -
  have run: "runTask (Suc (Suc 0)) exampleEnv exampleTask 0 = Some (Inr (exampleFinalState, doneReply))"
    unfolding doneReply_def by (rule example_run)
  have last: "lastTerminalResult (dispatched exampleFinalState) = Some (JObj [(''assertion'', JBool True)])"
    by (simp add: exampleFinalState_def lastTerminalResult_def terminalValues_def startsWith_def)
  note t = terminal_result_is_most_recent [of "Suc (Suc 0)" exampleEnv exampleTask 0 exampleFinalState doneReply]
  from t run have a: "requestedToolCalls doneReply = None" by blast
  from t run have b: "\<forall>fuel'. Suc (Suc 0) \<le> fuel' \<longrightarrow>
        completeTask fuel' exampleEnv exampleTask 0 =
          (case lastTerminalResult (dispatched exampleFinalState) of
             Some v \<Rightarrow> Some (Inr v)
           | None \<Rightarrow>
               Some (Inl (Error ''Expected to have a result from one of the result functions'')))"
    by blast
  from b last have c: "completeTask (Suc (Suc 0)) exampleEnv exampleTask 0 = Some (Inr (JObj [(''assertion'', JBool True)]))"
    by simp
  from b last have d: "completeTask 7 exampleEnv exampleTask 0 = Some (Inr (JObj [(''assertion'', JBool True)]))"
    by simp
  have silent: "runTask 0 silentModelEnv exampleTask 0 =
     Some (Inr (initialState silentModelEnv exampleTask 0,
                Some (AssistantMessage (Some ''nothing to do'') None)))"
    by (simp add: runTask_def silentModelEnv_def initialState_def)
  note s = terminal_result_is_most_recent [of 0 silentModelEnv exampleTask 0
      "initialState silentModelEnv exampleTask 0" "Some (AssistantMessage (Some ''nothing to do'') None)"]
  have "lastTerminalResult (dispatched (initialState silentModelEnv exampleTask 0)) = None"
    by (simp add: initialState_def lastTerminalResult_def terminalValues_def)
  with s silent have e: "completeTask 0 silentModelEnv exampleTask 0 =
     Some (Inl (Error ''Expected to have a result from one of the result functions''))"
    by simp
  from run a last c d silent e show ?thesis by blast
qed

lemma mixed_turn:
  "turn exampleEnv (createActions exampleEnv) exampleTask (initialState exampleEnv exampleTask 0)
     mixedMessage mixedCalls =
   Inr (\<lparr> world = 0, messages = mixedConversation,
          lastFunctionResult = JObj [(''assertion'', JBool True)],
          toolCallResults = drop 3 mixedConversation,
          dispatched = [(''resultAssertion'', Inr (JObj [(''assertion'', JBool True)])),
                        (''locator_click'', Inl (Error ''invalid arguments''))] \<rparr>, doneReply)"
  by (simp add: initialState_def exampleTask_def exampleEnv_fields exampleModel_def
        turn_def registry_lookup example_calls errorResult_def startsWith_def modelOf_def
        mixedCalls_def mixedConversation_def doneReply_def del: renderJs.simps)

theorem tool_results_follow_function_calls_witness:
  "turn exampleEnv (createActions exampleEnv) exampleTask (initialState exampleEnv exampleTask 0)
     mixedMessage mixedCalls =
   Inr (\<lparr> world = 0, messages = mixedConversation,
          lastFunctionResult = JObj [(''assertion'', JBool True)],
          toolCallResults = drop 3 mixedConversation,
          dispatched = [(''resultAssertion'', Inr (JObj [(''assertion'', JBool True)])),
                        (''locator_click'', Inl (Error ''invalid arguments''))] \<rparr>, doneReply) \<and>
   mixedConversation =
     messages (initialState exampleEnv exampleTask 0) @ AssistantParam mixedMessage #
       drop 3 mixedConversation \<and>
   map toolMessageId (drop 3 mixedConversation) = [Some ''call_2'', Some ''call_3''] \<and>
   map toolCallId (filter isFunctionToolCall mixedCalls) = [''call_2'', ''call_3'']"
proof -
  let ?st' = "\<lparr> world = 0::nat, messages = mixedConversation,
          lastFunctionResult = JObj [(''assertion'', JBool True)],
          toolCallResults = drop 3 mixedConversation,
          dispatched = [(''resultAssertion'', Inr (JObj [(''assertion'', JBool True)])),
                        (''locator_click'', Inl (Error ''invalid arguments''))] \<rparr>"
  note t = tool_results_follow_function_calls [of exampleEnv "createActions exampleEnv" exampleTask
      "initialState exampleEnv exampleTask 0" mixedMessage mixedCalls ?st' doneReply]
  from t mixed_turn obtain results where
    r: "messages ?st' = messages (initialState exampleEnv exampleTask 0) @ AssistantParam mixedMessage # results"
       "map toolMessageId results = map (Some \<circ> toolCallId) (filter isFunctionToolCall mixedCalls)"
    by blast
  from r(1) have res: "results = drop 3 mixedConversation"
    by (simp add: initialState_def mixedConversation_def exampleEnv_fields exampleTask_def)
  have ids: "map toolCallId (filter isFunctionToolCall mixedCalls) = [''call_2'', ''call_3'']"
    by (simp add: mixedCalls_def)
  have "map (Some \<circ> toolCallId) (filter isFunctionToolCall mixedCalls) =
      [Some ''call_2'', Some ''call_3'']"
    by (simp add: mixedCalls_def)
  with r(2) res have "map toolMessageId (drop 3 mixedConversation) = [Some ''call_2'', Some ''call_3'']"
    by simp
  moreover from r(1) res have "mixedConversation =
     messages (initialState exampleEnv exampleTask 0) @ AssistantParam mixedMessage #
       drop 3 mixedConversation"
    by simp
  ultimately show ?thesis using mixed_turn ids by blast
qed

text \<open>
  The claim as stated fails for a requested call whose type is not \<open>function\<close>: the
  loop skips it, and the next model request is issued with no tool-result for it.
\<close>

theorem tool_results_dropped_call_counterexample:
  "turn exampleEnv (createActions exampleEnv) exampleTask (initialState exampleEnv exampleTask 0)
     customCallMessage [OtherToolCall ''call_9'' ''custom''] =
   Inr (\<lparr> world = 0,
          messages = [SystemMessage ''system'', UserMessage ''do it'', AssistantParam customCallMessage],
          lastFunctionResult = JNull, toolCallResults = [], dispatched = [] \<rparr>, doneReply) \<and>
   requestedToolCalls (Some customCallMessage) =
     Some (customCallMessage, [OtherToolCall ''call_9'' ''custom''])"
  by (simp add: initialState_def exampleTask_def exampleEnv_fields exampleModel_def
        turn_def modelOf_def doneReply_def customCallMessage_def)

lemma failing_click:
  "run (actionTool ''locator_click'' (parseWith failingDriverEnv locatorElementIdSchema)
          (locator_click failingDriverEnv)) goodClickText (w::nat) =
     (Inl (Error ''Timeout exceeded''), w)"
  by (simp add: run_actionTool parseWith_def failingDriverEnv_def exampleEnv_parse
        locatorElementIdSchema_def zObject1_def locator_click_def await_def)

lemma mixed_before:
  "processToolCalls exampleEnv (createActions exampleEnv)
      ((initialState exampleEnv exampleTask 0)
         \<lparr>messages := messages (initialState exampleEnv exampleTask 0) @ [AssistantParam mixedMessage],
          toolCallResults := []\<rparr>)
      [FunctionToolCall ''call_2'' ''resultAssertion'' assertionText, OtherToolCall ''call_9'' ''custom''] =
   Inr \<lparr> world = 0, messages = take 3 mixedConversation,
         lastFunctionResult = JObj [(''assertion'', JBool True)],
         toolCallResults = [ToolMessage ''call_2'' (renderJs (JObj [(''assertion'', JBool True)]))],
         dispatched = [(''resultAssertion'', Inr (JObj [(''assertion'', JBool True)]))] \<rparr>"
  by (simp add: initialState_def exampleTask_def exampleEnv_fields registry_lookup example_calls
        startsWith_def mixedConversation_def del: renderJs.simps)

theorem error_results_are_recoverable_witness:
  "map_of (createActions exampleEnv) ''locator_click'' =
     Some (actionTool ''locator_click'' (parseWith exampleEnv locatorElementIdSchema)
             (locator_click exampleEnv)) \<and>
   parseWith exampleEnv locatorElementIdSchema badClickText = Inl (Error ''invalid arguments'') \<and>
   processToolCall exampleEnv (createActions exampleEnv) (initialState exampleEnv exampleTask 0)
       (FunctionToolCall ''call_3'' ''locator_click'' badClickText) =
     Inr ((initialState exampleEnv exampleTask 0)
           \<lparr>world := 0,
            toolCallResults := [ToolMessage ''call_3'' ''{error:invalid arguments,}''],
            dispatched := [(''locator_click'', Inl (Error ''invalid arguments''))]\<rparr>) \<and>
   parseWith failingDriverEnv locatorElementIdSchema goodClickText = Inr (LocatorElementIdArgs ''x'') \<and>
   locator_click failingDriverEnv (LocatorElementIdArgs ''x'') 0 = (Inl (Error ''Timeout exceeded''), 0) \<and>
   processToolCall failingDriverEnv (createActions failingDriverEnv)
       (initialState failingDriverEnv exampleTask 0)
       (FunctionToolCall ''call_4'' ''locator_click'' goodClickText) =
     Inr ((initialState failingDriverEnv exampleTask 0)
           \<lparr>world := 0,
            toolCallResults := [ToolMessage ''call_4'' ''{error:Timeout exceeded,}''],
            dispatched := [(''locator_click'', Inl (Error ''Timeout exceeded''))]\<rparr>) \<and>
   (\<exists>st'. processToolCalls exampleEnv (createActions exampleEnv)
            (initialState exampleEnv exampleTask 0)
            [FunctionToolCall ''call_3'' ''locator_click'' badClickText] = Inr st') \<and>
   turn exampleEnv (createActions exampleEnv) exampleTask (initialState exampleEnv exampleTask 0)
       mixedMessage mixedCalls =
     Inr (\<lparr> world = 0, messages = mixedConversation,
            lastFunctionResult = JObj [(''assertion'', JBool True)],
            toolCallResults = drop 3 mixedConversation,
            dispatched = [(''resultAssertion'', Inr (JObj [(''assertion'', JBool True)])),
                          (''locator_click'', Inl (Error ''invalid arguments''))] \<rparr>, doneReply) \<and>
   ToolMessage ''call_3'' ''{error:invalid arguments,}'' \<in> set mixedConversation \<and>
   whileToolCalls (Suc 0) exampleEnv (createActions exampleEnv) exampleTask
       (initialState exampleEnv exampleTask 0) (Some mixedMessage) =
     Some (Inr (\<lparr> world = 0, messages = mixedConversation,
                  lastFunctionResult = JObj [(''assertion'', JBool True)],
                  toolCallResults = drop 3 mixedConversation,
                  dispatched = [(''resultAssertion'', Inr (JObj [(''assertion'', JBool True)])),
                                (''locator_click'', Inl (Error ''invalid arguments''))] \<rparr>,
                doneReply))"
proof -
  let ?a = "actionTool ''locator_click'' (parseWith exampleEnv locatorElementIdSchema) (locator_click exampleEnv)"
  let ?b = "actionTool ''locator_click'' (parseWith failingDriverEnv locatorElementIdSchema)
             (locator_click failingDriverEnv)"
  let ?s1 = "\<lparr> world = 0::nat, messages = take 3 mixedConversation,
         lastFunctionResult = JObj [(''assertion'', JBool True)],
         toolCallResults = [ToolMessage ''call_2'' (renderJs (JObj [(''assertion'', JBool True)]))],
         dispatched = [(''resultAssertion'', Inr (JObj [(''assertion'', JBool True)]))] \<rparr>"
  let ?s2 = "\<lparr> world = 0::nat, messages = take 3 mixedConversation,
         lastFunctionResult = JObj [(''assertion'', JBool True)],
         toolCallResults = drop 3 mixedConversation,
         dispatched = [(''resultAssertion'', Inr (JObj [(''assertion'', JBool True)])),
                       (''locator_click'', Inl (Error ''invalid arguments''))] \<rparr>"
  let ?final = "\<lparr> world = 0::nat, messages = mixedConversation,
         lastFunctionResult = JObj [(''assertion'', JBool True)],
         toolCallResults = drop 3 mixedConversation,
         dispatched = [(''resultAssertion'', Inr (JObj [(''assertion'', JBool True)])),
                       (''locator_click'', Inl (Error ''invalid arguments''))] \<rparr>"
  have reg: "map_of (createActions env) ''locator_click'' =
     Some (actionTool ''locator_click'' (parseWith env locatorElementIdSchema) (locator_click env))"
    for env :: "nat env"
    by (simp add: createActions_def)
  have p1: "parseWith exampleEnv locatorElementIdSchema badClickText = Inl (Error ''invalid arguments'')"
    by (simp add: parseWith_def exampleEnv_parse exampleEnv_fields locatorElementIdSchema_def zObject1_def)
  have p2: "parseWith failingDriverEnv locatorElementIdSchema goodClickText = Inr (LocatorElementIdArgs ''x'')"
    by (simp add: parseWith_def failingDriverEnv_def exampleEnv_parse locatorElementIdSchema_def zObject1_def)
  have f2: "locator_click failingDriverEnv (LocatorElementIdArgs ''x'') 0 = (Inl (Error ''Timeout exceeded''), 0)"
    by (simp add: locator_click_def await_def failingDriverEnv_def)
  note v = error_results_are_recoverable [where actions = "createActions exampleEnv"
      and fname = "''locator_click''" and action = ?a and arguments = badClickText
      and st = "initialState exampleEnv exampleTask 0" and e = "Error ''invalid arguments''"
      and w = 0 and env = exampleEnv and tid = "''call_3''"
      and prs = "parseWith exampleEnv locatorElementIdSchema" and n = "''locator_click''"
      and body = "locator_click exampleEnv" and ?w0.0 = "0::nat"
      and tcs = "[FunctionToolCall ''call_3'' ''locator_click'' badClickText]"
      and s = "initialState exampleEnv exampleTask 0" and c = None
      and before = "[FunctionToolCall ''call_2'' ''resultAssertion'' assertionText,
                     OtherToolCall ''call_9'' ''custom'']"
      and after = "[]" and ?s1.0 = ?s1 and ?s2.0 = ?s2 and task = exampleTask
      and reply = doneReply and ?w2.0 = 0 and fuel = 0]
  note v1 = v [THEN conjunct1]
  note v2 = v [THEN conjunct2, THEN conjunct1]
  note v4 = v [THEN conjunct2, THEN conjunct2, THEN conjunct2, THEN conjunct1]
  note v5 = v [THEN conjunct2, THEN conjunct2, THEN conjunct2, THEN conjunct2]
  from v2 p1 have r1: "run ?a badClickText (0::nat) = (Inl (Error ''invalid arguments''), 0)"
    by blast
  have w0: "world (initialState env exampleTask 0) = (0::nat)" for env
    by (simp add: initialState_def)
  from v1 reg [of exampleEnv] r1 have c1: "processToolCall exampleEnv (createActions exampleEnv)
       (initialState exampleEnv exampleTask 0) (FunctionToolCall ''call_3'' ''locator_click'' badClickText) =
     Inr ((initialState exampleEnv exampleTask 0)
           \<lparr>world := 0,
            toolCallResults := [ToolMessage ''call_3'' ''{error:invalid arguments,}''],
            dispatched := [(''locator_click'', Inl (Error ''invalid arguments''))]\<rparr>)"
    by (simp add: w0 exampleEnv_fields) (simp add: initialState_def)
  from v4 reg [of exampleEnv]
  have n1: "\<exists>st'. processToolCalls exampleEnv (createActions exampleEnv)
            (initialState exampleEnv exampleTask 0)
            [FunctionToolCall ''call_3'' ''locator_click'' badClickText] = Inr st'"
    by simp
  have calls: "mixedCalls = [FunctionToolCall ''call_2'' ''resultAssertion'' assertionText,
                     OtherToolCall ''call_9'' ''custom''] @
                    FunctionToolCall ''call_3'' ''locator_click'' badClickText # []"
    by (simp add: mixedCalls_def)
  have h1: "processToolCalls exampleEnv (createActions exampleEnv)
      ((initialState exampleEnv exampleTask 0)
         \<lparr>messages := messages (initialState exampleEnv exampleTask 0) @
            [AssistantParam (AssistantMessage None
               (Some ([FunctionToolCall ''call_2'' ''resultAssertion'' assertionText,
                       OtherToolCall ''call_9'' ''custom''] @
                      FunctionToolCall ''call_3'' ''locator_click'' badClickText # [])))],
          toolCallResults := []\<rparr>)
      [FunctionToolCall ''call_2'' ''resultAssertion'' assertionText,
       OtherToolCall ''call_9'' ''custom''] = Inr ?s1"
    using mixed_before by (simp add: mixedMessage_def mixedCalls_def)
  have h3: "run ?a badClickText (world ?s1) = (Inl (Error ''invalid arguments''), 0)"
    using r1 by simp
  have h4: "processToolCalls exampleEnv (createActions exampleEnv)
      (?s1\<lparr>world := 0,
          toolCallResults := toolCallResults ?s1 @
            [ToolMessage ''call_3''
               (JSON_stringify exampleEnv (JObj [(''error'', JStr (message (Error ''invalid arguments'')))]))],
          dispatched := dispatched ?s1 @ [(''locator_click'', Inl (Error ''invalid arguments''))]\<rparr>) [] =
      Inr ?s2"
    by (simp add: exampleEnv_fields mixedConversation_def)
  have h5: "chatCompletionsCreate exampleEnv
      \<lparr>req_model = modelOf exampleTask, req_messages = messages ?s2 @ toolCallResults ?s2,
       req_tools = toolsOf (createActions exampleEnv), req_tool_choice = None\<rparr> (world ?s2) =
      (Inr doneReply, 0)"
    by (simp add: exampleEnv_fields exampleModel_def mixedConversation_def doneReply_def)
  from v5 h1 reg [of exampleEnv] h3 h4 h5
  have t: "turn exampleEnv (createActions exampleEnv) exampleTask (initialState exampleEnv exampleTask 0)
          (AssistantMessage None
             (Some ([FunctionToolCall ''call_2'' ''resultAssertion'' assertionText,
                     OtherToolCall ''call_9'' ''custom''] @
                    FunctionToolCall ''call_3'' ''locator_click'' badClickText # [])))
          ([FunctionToolCall ''call_2'' ''resultAssertion'' assertionText,
            OtherToolCall ''call_9'' ''custom''] @
           FunctionToolCall ''call_3'' ''locator_click'' badClickText # []) =
        Inr (?s2\<lparr>messages := messages ?s2 @ toolCallResults ?s2, world := 0\<rparr>, doneReply)"
    and l: "whileToolCalls (Suc 0) exampleEnv (createActions exampleEnv) exampleTask
          (initialState exampleEnv exampleTask 0)
          (Some (AssistantMessage None
             (Some ([FunctionToolCall ''call_2'' ''resultAssertion'' assertionText,
                     OtherToolCall ''call_9'' ''custom''] @
                    FunctionToolCall ''call_3'' ''locator_click'' badClickText # [])))) =
        whileToolCalls 0 exampleEnv (createActions exampleEnv) exampleTask
          (?s2\<lparr>messages := messages ?s2 @ toolCallResults ?s2, world := 0\<rparr>) doneReply"
    by blast+
  have fin: "?s2\<lparr>messages := messages ?s2 @ toolCallResults ?s2, world := 0\<rparr> = ?final"
    by simp
  from t have t': "turn exampleEnv (createActions exampleEnv) exampleTask
       (initialState exampleEnv exampleTask 0) mixedMessage mixedCalls = Inr (?final, doneReply)"
    unfolding fin by (simp add: mixedMessage_def mixedCalls_def)
  have "whileToolCalls 0 exampleEnv (createActions exampleEnv) exampleTask ?final doneReply =
      Some (Inr (?final, doneReply))"
    by (simp add: doneReply_def)
  with l have l': "whileToolCalls (Suc 0) exampleEnv (createActions exampleEnv) exampleTask
       (initialState exampleEnv exampleTask 0) (Some mixedMessage) = Some (Inr (?final, doneReply))"
    unfolding fin by (simp add: mixedMessage_def mixedCalls_def del: whileToolCalls.simps)
  have mem: "ToolMessage ''call_3'' ''{error:invalid arguments,}'' \<in> set mixedConversation"
    by (simp add: mixedConversation_def)
  note x = error_results_are_recoverable [where actions = "createActions failingDriverEnv"
      and fname = "''locator_click''" and action = ?b and arguments = goodClickText
      and st = "initialState failingDriverEnv exampleTask 0" and e = "Error ''Timeout exceeded''"
      and w = 0 and env = failingDriverEnv and tid = "''call_4''"
      and prs = "parseWith failingDriverEnv locatorElementIdSchema" and n = "''locator_click''"
      and body = "locator_click failingDriverEnv" and ?w0.0 = "0::nat" and ?w1.0 = "0::nat"
      and a = "LocatorElementIdArgs ''x''"]
  note x1 = x [THEN conjunct1]
  note x3 = x [THEN conjunct2, THEN conjunct2, THEN conjunct1]
  from x3 p2 f2 have r2: "run ?b goodClickText (0::nat) = (Inl (Error ''Timeout exceeded''), 0)"
    by blast
  have js: "JSON_stringify failingDriverEnv = renderJs" by (simp add: failingDriverEnv_def exampleEnv_def)
  from x1 reg [of failingDriverEnv] r2 have c2: "processToolCall failingDriverEnv (createActions failingDriverEnv)
       (initialState failingDriverEnv exampleTask 0)
       (FunctionToolCall ''call_4'' ''locator_click'' goodClickText) =
     Inr ((initialState failingDriverEnv exampleTask 0)
           \<lparr>world := 0,
            toolCallResults := [ToolMessage ''call_4'' ''{error:Timeout exceeded,}''],
            dispatched := [(''locator_click'', Inl (Error ''Timeout exceeded''))]\<rparr>)"
    by (simp add: w0 js) (simp add: initialState_def)
  from reg [of exampleEnv] p1 c1 p2 f2 c2 n1 t' mem l' show ?thesis by blast
qed

end
